theory Spec2Isabelle
  imports Complex_Main "HOL-Library.Multiset"
begin

section \<open>Arithmetic model\<close>

text \<open>
  The library computes with C++ \<open>double\<close> and \<open>int\<close>. A \<open>double\<close> is modelled as a
  \<^typ>\<open>real\<close>: rounding, overflow to infinity, underflow and NaN are outside the model, so
  every statement below is about the exact value of the expression the source evaluates.
  Where HOL and IEEE arithmetic differ on an exceptional operand (\<open>x / 0\<close> is \<open>0\<close> in HOL,
  \<open>ln 0\<close> is \<open>0\<close> in HOL and \<open>-inf\<close> for \<open>std::log\<close>) a remark says so at the definition.
  An \<open>int\<close> counter is an \<^typ>\<open>int\<close>; container sizes and indices, which are never negative
  in the source, are \<^typ>\<open>nat\<close>.
\<close>

section \<open>Configuration constants (TeamGlicko2Config.h)\<close>

text \<open>
  The values are those of the configuration header that declares \<open>kBeta\<close>, \<open>kScaleMin\<close>,
  \<open>kScaleMax\<close> and the recent-performance constants, which the sources modelled here use.
\<close>

definition kDefaultRating :: real where "kDefaultRating = 1400.0"
definition kDefaultRD :: real where "kDefaultRD = 350.0"
definition kDefaultVolatility :: real where "kDefaultVolatility = 0.06"
definition kLambda :: real where "kLambda = 0.8"
definition kScale :: real where "kScale = 173.7178"
definition kTau :: real where "kTau = 0.5"
definition kConvergence :: real where "kConvergence = 0.000001"
definition kBeta :: real where "kBeta = 0.2"
definition kScaleMin :: real where "kScaleMin = 0.5"
definition kScaleMax :: real where "kScaleMax = 1.5"
definition kEpsilon :: real where "kEpsilon = 0.000001"
definition kEnableRatingClamp :: bool where "kEnableRatingClamp = True"
definition kMaxRatingChange :: real where "kMaxRatingChange = 1.73"
definition kPerfToRating :: real where "kPerfToRating = 80.0"
definition kRDScaleConstant :: real where "kRDScaleConstant = 80.0"

text \<open>\<open>#define M_PI 3.14159265358979323846\<close>\<close>

definition M_PI :: real where "M_PI = 3.14159265358979323846"

text \<open>\<open>std::numeric_limits<double>::max()\<close>, the largest finite double.\<close>

definition DBL_MAX :: real where "DBL_MAX = 2 ^ 1024 - 2 ^ 971"

section \<open>Rating state (TeamGlickoRating)\<close>

text \<open>
  Record selectors are global constants in HOL and would capture the parameter and local
  names of the source (\<open>mu\<close>, \<open>phi\<close>, \<open>sigma\<close>, \<open>zScore\<close>, \<open>lambda\<close>, ...), so every field
  carries a prefix naming its struct: \<open>pr_\<close> for \<open>PlayerRating\<close>, \<open>pw_\<close> for \<open>PlayerWeight\<close>,
  \<open>ts_\<close> for \<open>TeamRatingStats\<close>, \<open>mp_\<close> for \<open>MatchPlayer\<close>, \<open>mr_\<close> for \<open>MatchResult\<close>,
  \<open>pi_\<close> for \<open>PlayerInfo\<close>, \<open>ta_\<close> for \<open>TeamAssignment\<close> and \<open>bc_\<close> for \<open>BalancerConfig\<close>.
\<close>

record PlayerRating =
  pr_mu :: real
  pr_phi :: real
  pr_sigma :: real
  pr_perfIndexEMA :: real
  pr_perfGames :: int

text \<open>The constructor \<open>PlayerRating(rating, ratingDeviation, volatility)\<close>.\<close>

definition PlayerRating_new :: "real \<Rightarrow> real \<Rightarrow> real \<Rightarrow> PlayerRating" where
  "PlayerRating_new rating ratingDeviation volatility =
     \<lparr>pr_mu = (rating - kDefaultRating) / kScale,
      pr_phi = ratingDeviation / kScale,
      pr_sigma = volatility,
      pr_perfIndexEMA = 0.0,
      pr_perfGames = 0\<rparr>"

text \<open>The default-constructed rating \<open>PlayerRating()\<close>.\<close>

definition PlayerRating_default :: PlayerRating where
  "PlayerRating_default = PlayerRating_new kDefaultRating kDefaultRD kDefaultVolatility"

definition GetRating :: "PlayerRating \<Rightarrow> real" where
  "GetRating r = pr_mu r * kScale + kDefaultRating"

definition GetRD :: "PlayerRating \<Rightarrow> real" where
  "GetRD r = pr_phi r * kScale"

definition GetMu :: "PlayerRating \<Rightarrow> real" where
  "GetMu r = pr_mu r"

definition GetPhi :: "PlayerRating \<Rightarrow> real" where
  "GetPhi r = pr_phi r"

definition GetSigma :: "PlayerRating \<Rightarrow> real" where
  "GetSigma r = pr_sigma r"

definition SetMu :: "PlayerRating \<Rightarrow> real \<Rightarrow> PlayerRating" where
  "SetMu r muValue = r\<lparr>pr_mu := muValue\<rparr>"

definition SetPhi :: "PlayerRating \<Rightarrow> real \<Rightarrow> PlayerRating" where
  "SetPhi r phiValue = r\<lparr>pr_phi := phiValue\<rparr>"

definition SetSigma :: "PlayerRating \<Rightarrow> real \<Rightarrow> PlayerRating" where
  "SetSigma r sigmaValue = r\<lparr>pr_sigma := sigmaValue\<rparr>"

text \<open>
  \<open>std::exp\<close> overflows to \<open>+inf\<close> for an exponent above about \<open>709.78\<close>, where the source
  returns exactly \<open>0.0\<close>, and \<open>1.0 + std::exp(exponent)\<close> rounds to \<open>1.0\<close> for an exponent
  below about \<open>-36.7\<close>, where the source returns exactly \<open>1.0\<close>. \<^term>\<open>exp\<close> on the reals does
  neither: the model is the source up to rounding only while the result of the source is
  strictly between \<open>0\<close> and \<open>1\<close>.
\<close>

definition ComputeExpectedScore :: "PlayerRating \<Rightarrow> real \<Rightarrow> real \<Rightarrow> real" where
  "ComputeExpectedScore r muOpp gOpp =
     (let exponent = - gOpp * (pr_mu r - muOpp)
      in 1.0 / (1.0 + exp exponent))"

definition ComputeRecentRating :: "PlayerRating \<Rightarrow> real \<Rightarrow> real" where
  "ComputeRecentRating r perfToRating =
     (let boost = pr_perfIndexEMA r * perfToRating;
          rd = GetRD r;
          maxBoost = min (2.0 * rd) 200.0;
          boost = max (- maxBoost) (min boost maxBoost)
      in GetRating r + boost)"

definition ComputeEffectiveRating :: "PlayerRating \<Rightarrow> real \<Rightarrow> real \<Rightarrow> real" where
  "ComputeEffectiveRating r perfToRating rdScale =
     (let r_g = GetRating r;
          r_rec = ComputeRecentRating r perfToRating;
          rd = GetRD r;
          rdSquared = rd * rd;
          cSquared = rdScale * rdScale;
          w_RD = rdSquared / (rdSquared + cSquared);
          w = 0.5 * w_RD
      in r_g + w * (r_rec - r_g))"

section \<open>Performance scaling (PerformanceWeighting)\<close>

definition ComputeScalingFactor :: "real \<Rightarrow> real \<Rightarrow> real \<Rightarrow> real \<Rightarrow> real \<Rightarrow> real" where
  "ComputeScalingFactor zScore deltaMu beta fMin fMax =
     (let signDeltaMu = (if deltaMu \<ge> 0.0 then 1.0 else - 1.0);
          f = 1.0 + beta * signDeltaMu * zScore
      in min fMax (max fMin f))"

definition ComputeMean :: "real list \<Rightarrow> real" where
  "ComputeMean scores =
     (if scores = [] then 0.0
      else foldl (\<lambda>sum score. sum + score) 0.0 scores / real (length scores))"

definition ComputeStdDev :: "real list \<Rightarrow> real \<Rightarrow> real" where
  "ComputeStdDev scores mean =
     (if scores = [] then kEpsilon
      else let sumSquares = foldl (\<lambda>acc score. acc + (score - mean) * (score - mean)) 0.0 scores;
               variance = sumSquares / real (length scores)
           in sqrt variance + kEpsilon)"

definition ComputeZScore :: "real \<Rightarrow> real \<Rightarrow> real \<Rightarrow> real" where
  "ComputeZScore score mean stddev = (score - mean) / stddev"

record PlayerWeight =
  pw_playerIndex :: int
  pw_performanceScore :: real
  pw_zScore :: real

definition ComputeZScores :: "real list \<Rightarrow> PlayerWeight list" where
  "ComputeZScores performanceScores =
     (if length performanceScores = 0 then []
      else let mean = ComputeMean performanceScores;
               stddev = ComputeStdDev performanceScores mean
           in map (\<lambda>i. \<lparr>pw_playerIndex = int i,
                          pw_performanceScore = performanceScores ! i,
                          pw_zScore = ComputeZScore (performanceScores ! i) mean stddev\<rparr>)
                  [0 ..< length performanceScores])"

section \<open>Team aggregation (TeamRatingAggregator)\<close>

record TeamRatingStats =
  ts_mu :: real
  ts_phi :: real
  ts_teamSize :: int

text \<open>The default constructor \<open>TeamRatingStats() : mu(0.0), phi(0.0), teamSize(0)\<close>.\<close>

definition TeamRatingStats_default :: TeamRatingStats where
  "TeamRatingStats_default = \<lparr>ts_mu = 0.0, ts_phi = 0.0, ts_teamSize = 0\<rparr>"

definition ComputeTeamMu :: "PlayerRating list \<Rightarrow> real" where
  "ComputeTeamMu team =
     (if team = [] then 0.0
      else foldl (\<lambda>sum player. sum + GetMu player) 0.0 team / real (length team))"

text \<open>
  In \<open>ComputeTeamPhi\<close> the source multiplies \<open>teamSize * teamSize\<close> as 32-bit \<open>int\<close>, which
  overflows (undefined behaviour) for a roster of \<open>46341\<close> players or more; the model
  multiplies unbounded integers and is the source only for smaller rosters.
\<close>

definition ComputeTeamPhi :: "PlayerRating list \<Rightarrow> real" where
  "ComputeTeamPhi team =
     (if team = [] then 0.0
      else let sumSquares = foldl (\<lambda>acc player. acc + GetPhi player * GetPhi player) 0.0 team;
               teamSize = int (length team)
           in sqrt (sumSquares / real_of_int (teamSize * teamSize)))"

definition ComputeTeamStats :: "PlayerRating list \<Rightarrow> TeamRatingStats" where
  "ComputeTeamStats team =
     (let stats = TeamRatingStats_default\<lparr>ts_teamSize := int (length team)\<rparr>
      in if ts_teamSize stats = 0 then stats
         else stats\<lparr>ts_mu := ComputeTeamMu team, ts_phi := ComputeTeamPhi team\<rparr>)"

section \<open>Match engine (TeamGlicko2System)\<close>

text \<open>
  For a denominator of \<open>0\<close> (an expected score that the source has rounded to exactly \<open>0.0\<close>
  or \<open>1.0\<close>) \<open>1.0 / denominator\<close> is \<open>+inf\<close> in the source and \<open>0\<close> in HOL: the model is the
  source only for a non-zero denominator.
\<close>

definition ComputeVariance :: "real \<Rightarrow> real \<Rightarrow> real" where
  "ComputeVariance g expectedScore =
     (let denominator = g * g * expectedScore * (1.0 - expectedScore)
      in 1.0 / denominator)"

definition ComputeDelta :: "real \<Rightarrow> real \<Rightarrow> real \<Rightarrow> real \<Rightarrow> real" where
  "ComputeDelta v g score expectedScore = v * g * (score - expectedScore)"

definition VolatilityFunction :: "real \<Rightarrow> real \<Rightarrow> real \<Rightarrow> real \<Rightarrow> real \<Rightarrow> real \<Rightarrow> real" where
  "VolatilityFunction x deltaSquared phiSquared v a tauSquared =
     (let eX = exp x;
          numerator = eX * (deltaSquared - phiSquared - v - eX);
          denominator = 2.0 * (phiSquared + v + eX) * (phiSquared + v + eX)
      in (numerator / denominator) - ((x - a) / tauSquared))"

text \<open>
  The two loops of \<open>UpdateVolatility\<close>. Neither has a bound in the source, so each is a
  partial function: \<open>None\<close> is the loop that never leaves.

  \<open>while (VolatilityFunction(B, ...) < 0.0) B -= kTau;\<close>
\<close>

partial_function (option) UpdateVolatility_findB ::
  "real \<Rightarrow> real \<Rightarrow> real \<Rightarrow> real \<Rightarrow> real \<Rightarrow> real \<Rightarrow> real option" where
  "UpdateVolatility_findB B deltaSquared phiSquared v a tauSquared =
     (if VolatilityFunction B deltaSquared phiSquared v a tauSquared < 0.0
      then UpdateVolatility_findB (B - kTau) deltaSquared phiSquared v a tauSquared
      else Some B)"

text \<open>
  \<open>while (std::abs(B - A) > kConvergence) { ... }\<close>; the loop state is \<open>A\<close>, \<open>B\<close>, \<open>fA\<close>,
  \<open>fB\<close>, and the value left in \<open>A\<close> is what the caller reads.
\<close>

partial_function (option) UpdateVolatility_illinois ::
  "real \<Rightarrow> real \<Rightarrow> real \<Rightarrow> real \<Rightarrow> real \<Rightarrow> real \<Rightarrow> real \<Rightarrow> real \<Rightarrow> real \<Rightarrow> real option" where
  "UpdateVolatility_illinois A B fA fB deltaSquared phiSquared v a tauSquared =
     (if \<bar>B - A\<bar> > kConvergence
      then (let C = A + (A - B) * fA / (fB - fA);
                fC = VolatilityFunction C deltaSquared phiSquared v a tauSquared
            in if fC * fB < 0.0
               then UpdateVolatility_illinois B C fB fC deltaSquared phiSquared v a tauSquared
               else UpdateVolatility_illinois A C (fA / 2.0) fC deltaSquared phiSquared v a tauSquared)
      else Some A)"

text \<open>
  \<open>std::log(sigma * sigma)\<close> is \<open>-inf\<close> for \<open>sigma = 0\<close>, where \<^term>\<open>ln (0::real)\<close> is \<open>0\<close>:
  the model is the source only for \<open>sigma \<noteq> 0\<close>, and the statements below about a match
  update carry that hypothesis.
\<close>

definition UpdateVolatility :: "real \<Rightarrow> real \<Rightarrow> real \<Rightarrow> real \<Rightarrow> real option" where
  "UpdateVolatility sigma phi delta v =
     (let deltaSquared = delta * delta;
          phiSquared = phi * phi;
          tauSquared = kTau * kTau;
          a = ln (sigma * sigma);
          A = a
      in case (if deltaSquared > phiSquared + v
               then Some (ln (deltaSquared - phiSquared - v))
               else UpdateVolatility_findB (a - kTau) deltaSquared phiSquared v a tauSquared) of
           None \<Rightarrow> None
         | Some B \<Rightarrow>
            (let fA = VolatilityFunction A deltaSquared phiSquared v a tauSquared;
                 fB = VolatilityFunction B deltaSquared phiSquared v a tauSquared
             in case UpdateVolatility_illinois A B fA fB deltaSquared phiSquared v a tauSquared of
                  None \<Rightarrow> None
                | Some A' \<Rightarrow> Some (exp (A' / 2.0))))"

definition UpdateRatingDeviation :: "real \<Rightarrow> real \<Rightarrow> real \<Rightarrow> real" where
  "UpdateRatingDeviation phi sigmaPrime v =
     (let phiStar = sqrt (phi * phi + sigmaPrime * sigmaPrime);
          phiStarSquared = phiStar * phiStar;
          phiPrime = 1.0 / sqrt (1.0 / phiStarSquared + 1.0 / v)
      in phiPrime)"

definition UpdateRatingMean :: "real \<Rightarrow> real \<Rightarrow> real \<Rightarrow> real \<Rightarrow> real \<Rightarrow> real" where
  "UpdateRatingMean mu phiPrime g score expectedScore =
     mu + phiPrime * phiPrime * g * (score - expectedScore)"

definition ClampRatingChange :: "real \<Rightarrow> real \<Rightarrow> real" where
  "ClampRatingChange mu muPrime =
     (let deltaMu = muPrime - mu
      in if \<bar>deltaMu\<bar> > kMaxRatingChange
         then (if deltaMu > 0.0 then mu + kMaxRatingChange else mu - kMaxRatingChange)
         else muPrime)"

text \<open>
  \<open>UpdatePlayerRating\<close> returns a value only if the volatility loops return; the new rating
  is a default-constructed \<open>PlayerRating\<close> whose \<open>mu\<close>, \<open>phi\<close> and \<open>sigma\<close> are then set.
\<close>

definition UpdatePlayerRating ::
  "PlayerRating \<Rightarrow> real \<Rightarrow> real \<Rightarrow> real \<Rightarrow> real \<Rightarrow> PlayerRating option" where
  "UpdatePlayerRating player opponentMu opponentPhi score zScore =
     (let mu = GetMu player;
          phi = GetPhi player;
          sigma = GetSigma player;
          phiOppSquared = opponentPhi * opponentPhi;
          g = 1.0 / sqrt (1.0 + 3.0 * phiOppSquared / (M_PI * M_PI));
          expectedScore = ComputeExpectedScore player opponentMu g;
          v = ComputeVariance g expectedScore;
          delta = ComputeDelta v g score expectedScore
      in case UpdateVolatility sigma phi delta v of
           None \<Rightarrow> None
         | Some sigmaPrime \<Rightarrow>
            (let phiPrime = UpdateRatingDeviation phi sigmaPrime v;
                 muStar = UpdateRatingMean mu phiPrime g score expectedScore;
                 deltaMu = muStar - mu;
                 scalingFactor = ComputeScalingFactor zScore deltaMu kBeta kScaleMin kScaleMax;
                 muPrime = mu + scalingFactor * deltaMu;
                 muPrime = (if kEnableRatingClamp then ClampRatingChange mu muPrime else muPrime)
             in Some (SetSigma (SetPhi (SetMu PlayerRating_default muPrime) phiPrime) sigmaPrime)))"

record MatchPlayer =
  mp_rating :: PlayerRating
  mp_performanceScore :: real

record MatchResult =
  mr_teamA :: "MatchPlayer list"
  mr_teamB :: "MatchPlayer list"
  mr_scoreA :: real
  mr_scoreB :: real

text \<open>
  The update loops of \<open>ProcessMatch\<close> write \<open>match.teamX[i].rating\<close> in place, for
  \<open>i = 0, 1, ...\<close>; each reads the rating of the current state of the match. The function
  below runs one such loop from index \<open>i\<close> on a roster, with the opposing aggregate, the
  team's score and its weights held in locals computed before.
\<close>

function ProcessMatch_updateTeam ::
  "nat \<Rightarrow> MatchPlayer list \<Rightarrow> TeamRatingStats \<Rightarrow> real \<Rightarrow> PlayerWeight list \<Rightarrow> MatchPlayer list option" where
  "ProcessMatch_updateTeam i team statsOpp score weights =
     (if i < length team
      then (case UpdatePlayerRating (mp_rating (team ! i))
                   (ts_mu statsOpp) (ts_phi statsOpp) score
                   (pw_zScore (weights ! i)) of
              None \<Rightarrow> None
            | Some r \<Rightarrow>
                ProcessMatch_updateTeam (i + 1) (team[i := (team ! i)\<lparr>mp_rating := r\<rparr>])
                  statsOpp score weights)
      else Some team)"
  by pat_completeness auto
termination
  by (relation "measure (\<lambda>(i, team, statsOpp, score, weights). length team - i)") auto

declare ProcessMatch_updateTeam.simps [simp del]

definition ProcessMatch :: "MatchResult \<Rightarrow> MatchResult option" where
  "ProcessMatch match =
     (let teamARatings = map mp_rating (mr_teamA match);
          teamAPerformance = map mp_performanceScore (mr_teamA match);
          teamBRatings = map mp_rating (mr_teamB match);
          teamBPerformance = map mp_performanceScore (mr_teamB match);
          statsA = ComputeTeamStats teamARatings;
          statsB = ComputeTeamStats teamBRatings;
          weightsA = ComputeZScores teamAPerformance;
          weightsB = ComputeZScores teamBPerformance
      in case ProcessMatch_updateTeam 0 (mr_teamA match) statsB (mr_scoreA match) weightsA of
           None \<Rightarrow> None
         | Some teamA' \<Rightarrow>
            (let match = match\<lparr>mr_teamA := teamA'\<rparr>
             in case ProcessMatch_updateTeam 0 (mr_teamB match) statsA (mr_scoreB match) weightsB of
                  None \<Rightarrow> None
                | Some teamB' \<Rightarrow> Some (match\<lparr>mr_teamB := teamB'\<rparr>)))"

section \<open>Team balancer (TeamBalancer)\<close>

record PlayerInfo =
  pi_playerId :: int
  pi_rating :: PlayerRating
  pi_effectiveRating :: real

record TeamAssignment =
  ta_team0PlayerIds :: "int list"
  ta_team1PlayerIds :: "int list"
  ta_objectiveValue :: real
  ta_strengthDifference :: real
  ta_uncertaintyDifference :: real
  ta_team0Strength :: real
  ta_team1Strength :: real
  ta_team0Uncertainty :: real
  ta_team1Uncertainty :: real
  ta_pureRatingDifference :: real

text \<open>The default constructor \<open>TeamAssignment()\<close>.\<close>

definition TeamAssignment_default :: TeamAssignment where
  "TeamAssignment_default =
     \<lparr>ta_team0PlayerIds = [], ta_team1PlayerIds = [],
      ta_objectiveValue = DBL_MAX,
      ta_strengthDifference = 0.0, ta_uncertaintyDifference = 0.0,
      ta_team0Strength = 0.0, ta_team1Strength = 0.0,
      ta_team0Uncertainty = 0.0, ta_team1Uncertainty = 0.0,
      ta_pureRatingDifference = 0.0\<rparr>"

record BalancerConfig =
  bc_lambda :: real
  bc_separateTopPlayers :: bool
  bc_putTopPlayerInSmallerTeam :: bool
  bc_maxCombinationsToTry :: int

text \<open>The default constructor \<open>BalancerConfig()\<close>.\<close>

definition BalancerConfig_default :: BalancerConfig where
  "BalancerConfig_default =
     \<lparr>bc_lambda = kLambda, bc_separateTopPlayers = True,
      bc_putTopPlayerInSmallerTeam = True, bc_maxCombinationsToTry = 10000\<rparr>"

definition CalculateTeamStrength :: "PlayerInfo list \<Rightarrow> nat list \<Rightarrow> real" where
  "CalculateTeamStrength players playerIndices =
     foldl (\<lambda>sum idx. sum + pi_effectiveRating (players ! idx)) 0.0 playerIndices"

definition CalculateTeamUncertainty :: "PlayerInfo list \<Rightarrow> nat list \<Rightarrow> real" where
  "CalculateTeamUncertainty players playerIndices =
     sqrt (foldl (\<lambda>sumSquares idx.
                    sumSquares + GetRD (pi_rating (players ! idx)) * GetRD (pi_rating (players ! idx)))
             0.0 playerIndices)"

definition CalculatePureRatingSum :: "PlayerInfo list \<Rightarrow> nat list \<Rightarrow> real" where
  "CalculatePureRatingSum players playerIndices =
     foldl (\<lambda>sum idx. sum + GetRating (pi_rating (players ! idx))) 0.0 playerIndices"

text \<open>
  \<open>EvaluateAssignment\<close> returns the objective and writes six output parameters; the model
  returns them together, in the order
  \<open>(J, outStrength0, outStrength1, outUncertainty0, outUncertainty1, outPureRating0, outPureRating1)\<close>.
\<close>

definition EvaluateAssignment ::
  "PlayerInfo list \<Rightarrow> nat list \<Rightarrow> nat list \<Rightarrow> real
     \<Rightarrow> real \<times> real \<times> real \<times> real \<times> real \<times> real \<times> real" where
  "EvaluateAssignment players team0Indices team1Indices lambda =
     (let totalStrength0 = CalculateTeamStrength players team0Indices;
          totalStrength1 = CalculateTeamStrength players team1Indices;
          totalUncertainty0 = CalculateTeamUncertainty players team0Indices;
          totalUncertainty1 = CalculateTeamUncertainty players team1Indices;
          outPureRating0 = CalculatePureRatingSum players team0Indices;
          outPureRating1 = CalculatePureRatingSum players team1Indices;
          size0 = length team0Indices;
          size1 = length team1Indices;
          avgStrength0 = (if size0 > 0 then totalStrength0 / real size0 else 0.0);
          avgStrength1 = (if size1 > 0 then totalStrength1 / real size1 else 0.0);
          avgUncertainty0 = (if size0 > 0 then totalUncertainty0 / sqrt (real size0) else 0.0);
          avgUncertainty1 = (if size1 > 0 then totalUncertainty1 / sqrt (real size1) else 0.0);
          strengthDiff = \<bar>avgStrength0 - avgStrength1\<bar>;
          uncertaintyDiff = \<bar>avgUncertainty0 - avgUncertainty1\<bar>
      in (strengthDiff + lambda * uncertaintyDiff,
          totalStrength0, totalStrength1, totalUncertainty0, totalUncertainty1,
          outPureRating0, outPureRating1))"

definition ViolatesTopPlayerConstraint :: "PlayerInfo list \<Rightarrow> nat list \<Rightarrow> bool" where
  "ViolatesTopPlayerConstraint sortedPlayers teamIndices =
     (if length sortedPlayers < 2 then False
      else (let hasTop1 = (0 \<in> set teamIndices);
                hasTop2 = (1 \<in> set teamIndices)
            in hasTop1 \<and> hasTop2))"

text \<open>The indices that are not on team 0, in increasing order, as both callers build them.\<close>

definition team1IndicesOf :: "PlayerInfo list \<Rightarrow> nat list \<Rightarrow> nat list" where
  "team1IndicesOf players team0Indices =
     filter (\<lambda>i. i \<notin> set team0Indices) [0 ..< length players]"

text \<open>
  \<open>CreateAssignment\<close> has no configuration parameter: it evaluates the objective with the
  \<open>lambda\<close> of a default-constructed \<open>BalancerConfig\<close>.
\<close>

definition CreateAssignment :: "PlayerInfo list \<Rightarrow> nat list \<Rightarrow> TeamAssignment" where
  "CreateAssignment players team0Indices =
     (let team1Indices = team1IndicesOf players team0Indices;
          defaultConfig = BalancerConfig_default
      in case EvaluateAssignment players team0Indices team1Indices (bc_lambda defaultConfig) of
           (objectiveValue, team0Strength, team1Strength, team0Uncertainty, team1Uncertainty,
            pureRating0, pureRating1) \<Rightarrow>
             (let size0 = length team0Indices;
                  size1 = length team1Indices;
                  avgStrength0 = (if size0 > 0 then team0Strength / real size0 else 0.0);
                  avgStrength1 = (if size1 > 0 then team1Strength / real size1 else 0.0);
                  avgUncertainty0 = (if size0 > 0 then team0Uncertainty / sqrt (real size0) else 0.0);
                  avgUncertainty1 = (if size1 > 0 then team1Uncertainty / sqrt (real size1) else 0.0);
                  avgRating0 = (if size0 > 0 then pureRating0 / real size0 else 0.0);
                  avgRating1 = (if size1 > 0 then pureRating1 / real size1 else 0.0)
              in \<lparr>ta_team0PlayerIds = map (\<lambda>idx. pi_playerId (players ! idx)) team0Indices,
                  ta_team1PlayerIds = map (\<lambda>i. pi_playerId (players ! i)) team1Indices,
                  ta_objectiveValue = objectiveValue,
                  ta_strengthDifference = \<bar>avgStrength0 - avgStrength1\<bar>,
                  ta_uncertaintyDifference = \<bar>avgUncertainty0 - avgUncertainty1\<bar>,
                  ta_team0Strength = team0Strength,
                  ta_team1Strength = team1Strength,
                  ta_team0Uncertainty = team0Uncertainty,
                  ta_team1Uncertainty = team1Uncertainty,
                  ta_pureRatingDifference = \<bar>avgRating0 - avgRating1\<bar>\<rparr>))"

text \<open>
  The base case of \<open>GenerateCombinations\<close> after \<open>combinationsTried++\<close>: the two constraint
  checks, the evaluation with the caller's \<open>config.lambda\<close>, the comparison with its two
  tie-breakers, and the replacement of \<open>bestAssignment\<close>.
\<close>

definition GenerateCombinations_baseCase ::
  "PlayerInfo list \<Rightarrow> BalancerConfig \<Rightarrow> nat list \<Rightarrow> TeamAssignment \<Rightarrow> TeamAssignment" where
  "GenerateCombinations_baseCase players config currentTeam0 bestAssignment =
     (if bc_separateTopPlayers config \<and> ViolatesTopPlayerConstraint players currentTeam0
      then bestAssignment
      else (let team1Indices = team1IndicesOf players currentTeam0
            in if bc_separateTopPlayers config \<and> ViolatesTopPlayerConstraint players team1Indices
               then bestAssignment
               else (case EvaluateAssignment players currentTeam0 team1Indices (bc_lambda config) of
                       (objectiveValue, strength0, strength1, uncertainty0, uncertainty1,
                        pureRating0, pureRating1) \<Rightarrow>
                         (let isBetter =
                                (if objectiveValue < ta_objectiveValue bestAssignment then True
                                 else if objectiveValue = ta_objectiveValue bestAssignment
                                 then (let pureRatingDiff = \<bar>pureRating0 - pureRating1\<bar>
                                       in if pureRatingDiff < ta_pureRatingDifference bestAssignment
                                          then True
                                          else if pureRatingDiff = ta_pureRatingDifference bestAssignment
                                          then (let uncertaintyDiff = \<bar>uncertainty0 - uncertainty1\<bar>
                                                in if uncertaintyDiff < ta_uncertaintyDifference bestAssignment
                                                   then True else False)
                                          else False)
                                 else False)
                          in if isBetter then CreateAssignment players currentTeam0
                             else bestAssignment))))"

text \<open>
  \<open>GenerateCombinations\<close> and its \<open>for\<close> loop. The two reference parameters
  \<open>bestAssignment\<close> and \<open>combinationsTried\<close> are the state \<open>st\<close>, passed in and returned;
  \<open>currentTeam0\<close> is restored by \<open>pop_back\<close> after every recursive call, so it is passed by
  value. \<open>GenerateCombinations_for\<close> is the loop from the index \<open>i\<close> on.
\<close>

function GenerateCombinations ::
    "PlayerInfo list \<Rightarrow> BalancerConfig \<Rightarrow> nat \<Rightarrow> nat \<Rightarrow> nat list
       \<Rightarrow> TeamAssignment \<times> int \<Rightarrow> TeamAssignment \<times> int"
  and GenerateCombinations_for ::
    "PlayerInfo list \<Rightarrow> BalancerConfig \<Rightarrow> nat \<Rightarrow> nat \<Rightarrow> nat list
       \<Rightarrow> TeamAssignment \<times> int \<Rightarrow> TeamAssignment \<times> int"
  where
  "GenerateCombinations players config teamSize startIndex currentTeam0 st =
     (if snd st \<ge> bc_maxCombinationsToTry config then st
      else if length currentTeam0 = teamSize
      then (GenerateCombinations_baseCase players config currentTeam0 (fst st), snd st + 1)
      else (let needed = int teamSize - int (length currentTeam0);
                remaining = int (length players) - int startIndex
            in if remaining < needed then st
               else GenerateCombinations_for players config teamSize startIndex currentTeam0 st))"
| "GenerateCombinations_for players config teamSize i currentTeam0 st =
     (if i < length players
      then (if bc_separateTopPlayers config \<and> length currentTeam0 > 0 \<and>
               ((0 \<in> set currentTeam0 \<and> i = 1) \<or> (1 \<in> set currentTeam0 \<and> i = 0))
            then GenerateCombinations_for players config teamSize (i + 1) currentTeam0 st
            else (let st' = GenerateCombinations players config teamSize (i + 1)
                              (currentTeam0 @ [i]) st
                  in if snd st' \<ge> bc_maxCombinationsToTry config then st'
                     else GenerateCombinations_for players config teamSize (i + 1) currentTeam0 st'))
      else st)"
  by pat_completeness auto
termination
  by (relation "measure (\<lambda>x. case x of
          Inl (players, config, teamSize, startIndex, currentTeam0, st) \<Rightarrow>
            2 * (length players - startIndex) + 1
        | Inr (players, config, teamSize, i, currentTeam0, st) \<Rightarrow>
            2 * (length players - i))") auto

declare GenerateCombinations.simps [simp del] GenerateCombinations_for.simps [simp del]

text \<open>
  The vector \<open>sortedPlayers\<close> of \<open>BalanceTeams\<close>: every effective rating recomputed, then
  sorted by descending effective rating. \<open>std::sort\<close> guarantees that its result is a
  permutation of its input in which no element compares before an earlier one; the order of
  players with equal effective ratings is left open. \<open>BalanceTeams_sortedPlayers\<close> is the
  outcome that keeps such players in input order; \<open>BalanceTeams_sortOutcome\<close>, below, holds of
  every outcome that \<open>std::sort\<close> may produce.
\<close>

definition BalanceTeams_sortedPlayers :: "PlayerInfo list \<Rightarrow> PlayerInfo list" where
  "BalanceTeams_sortedPlayers players =
     (let sortedPlayers =
            map (\<lambda>player. player\<lparr>pi_effectiveRating :=
                   ComputeEffectiveRating (pi_rating player) kPerfToRating kRDScaleConstant\<rparr>) players
      in sort_key (\<lambda>a. - ComputeEffectiveRating (pi_rating a) kPerfToRating kRDScaleConstant)
           sortedPlayers)"

text \<open>
  The contract of the call \<open>std::sort(sortedPlayers.begin(), sortedPlayers.end(), comp)\<close>
  with \<open>comp(a, b)\<close> the comparison \<open>ratingA > ratingB\<close> of the recomputed effective ratings:
  \<open>sortedPlayers\<close> is a permutation of the players with their effective ratings recomputed,
  and \<open>comp(later, earlier)\<close> is false for every two positions.
\<close>

definition BalanceTeams_sortOutcome :: "PlayerInfo list \<Rightarrow> PlayerInfo list \<Rightarrow> bool" where
  "BalanceTeams_sortOutcome players sortedPlayers =
     (mset sortedPlayers =
        mset (map (\<lambda>player. player\<lparr>pi_effectiveRating :=
                     ComputeEffectiveRating (pi_rating player) kPerfToRating kRDScaleConstant\<rparr>)
                players) \<and>
      sorted_wrt (\<lambda>a b. \<not> (ComputeEffectiveRating (pi_rating b) kPerfToRating kRDScaleConstant
                             > ComputeEffectiveRating (pi_rating a) kPerfToRating kRDScaleConstant))
        sortedPlayers)"

text \<open>
  \<open>BalanceTeams\<close> from the point where \<open>std::sort\<close> has returned, with the vector it left in
  \<open>sortedPlayers\<close> as a parameter: the value that the source returns when the sort produces
  this order.
\<close>

definition BalanceTeams_fromSorted ::
  "PlayerInfo list \<Rightarrow> BalancerConfig \<Rightarrow> PlayerInfo list \<Rightarrow> TeamAssignment" where
  "BalanceTeams_fromSorted players config sortedPlayers =
     (if length players < 2
      then TeamAssignment_default\<lparr>ta_objectiveValue := 0.0\<rparr>
      else (let teamSize = length players div 2;
                isUnevenTeams = (length players mod 2 \<noteq> 0);
                bestAssignment = TeamAssignment_default\<lparr>ta_objectiveValue := DBL_MAX\<rparr>;
                currentTeam0 = (if isUnevenTeams \<and> bc_putTopPlayerInSmallerTeam config then [0] else []);
                startIndex = (if isUnevenTeams \<and> bc_putTopPlayerInSmallerTeam config then 1 else 0)
            in fst (GenerateCombinations sortedPlayers config teamSize startIndex currentTeam0
                      (bestAssignment, 0))))"

text \<open>
  The search of \<open>BalanceTeams\<close> for a pool of at least two players: the final values of the
  locals \<open>bestAssignment\<close> and \<open>combinationsTried\<close>. The source prints the second to standard
  output and returns the first.
\<close>

definition BalanceTeams_search :: "PlayerInfo list \<Rightarrow> BalancerConfig \<Rightarrow> TeamAssignment \<times> int" where
  "BalanceTeams_search players config =
     (let teamSize = length players div 2;
          isUnevenTeams = (length players mod 2 \<noteq> 0);
          sortedPlayers = BalanceTeams_sortedPlayers players;
          bestAssignment = TeamAssignment_default\<lparr>ta_objectiveValue := DBL_MAX\<rparr>;
          currentTeam0 = (if isUnevenTeams \<and> bc_putTopPlayerInSmallerTeam config then [0] else []);
          startIndex = (if isUnevenTeams \<and> bc_putTopPlayerInSmallerTeam config then 1 else 0)
      in GenerateCombinations sortedPlayers config teamSize startIndex currentTeam0
           (bestAssignment, 0))"

definition BalanceTeams :: "PlayerInfo list \<Rightarrow> BalancerConfig \<Rightarrow> TeamAssignment" where
  "BalanceTeams players config =
     (if length players < 2
      then TeamAssignment_default\<lparr>ta_objectiveValue := 0.0\<rparr>
      else fst (BalanceTeams_search players config))"

text \<open>The constructor \<open>PlayerInfo(id, r)\<close>.\<close>

definition PlayerInfo_new :: "int \<Rightarrow> PlayerRating \<Rightarrow> PlayerInfo" where
  "PlayerInfo_new playerId r =
     \<lparr>pi_playerId = playerId, pi_rating = r,
      pi_effectiveRating = ComputeEffectiveRating r kPerfToRating kRDScaleConstant\<rparr>"

section \<open>The match update written from the pre-match snapshot\<close>

text \<open>
  For the claim that \<open>ProcessMatch\<close> depends on the pre-match values only, two further
  definitions. \<open>ProcessMatch_fromSnapshot\<close> follows the words of the claim: every
  participant's new rating is computed from the unmodified rosters of the match that was
  passed in, with no intermediate state. \<open>ProcessMatch_teamBFirst\<close> is \<open>ProcessMatch\<close> with
  its two update loops in the other order.
\<close>

definition ProcessMatch_snapshotPlayer ::
  "MatchPlayer list \<Rightarrow> TeamRatingStats \<Rightarrow> real \<Rightarrow> PlayerWeight list \<Rightarrow> nat \<Rightarrow> MatchPlayer option" where
  "ProcessMatch_snapshotPlayer team statsOpp score weights i =
     map_option (\<lambda>r. (team ! i)\<lparr>mp_rating := r\<rparr>)
       (UpdatePlayerRating (mp_rating (team ! i)) (ts_mu statsOpp) (ts_phi statsOpp) score
          (pw_zScore (weights ! i)))"

definition ProcessMatch_snapshotTeam ::
  "MatchPlayer list \<Rightarrow> TeamRatingStats \<Rightarrow> real \<Rightarrow> PlayerWeight list \<Rightarrow> MatchPlayer list option" where
  "ProcessMatch_snapshotTeam team statsOpp score weights =
     those (map (ProcessMatch_snapshotPlayer team statsOpp score weights) [0 ..< length team])"

definition ProcessMatch_fromSnapshot :: "MatchResult \<Rightarrow> MatchResult option" where
  "ProcessMatch_fromSnapshot match =
     (let statsA = ComputeTeamStats (map mp_rating (mr_teamA match));
          statsB = ComputeTeamStats (map mp_rating (mr_teamB match));
          weightsA = ComputeZScores (map mp_performanceScore (mr_teamA match));
          weightsB = ComputeZScores (map mp_performanceScore (mr_teamB match))
      in case (ProcessMatch_snapshotTeam (mr_teamA match) statsB (mr_scoreA match) weightsA,
               ProcessMatch_snapshotTeam (mr_teamB match) statsA (mr_scoreB match) weightsB) of
           (Some teamA', Some teamB') \<Rightarrow> Some (match\<lparr>mr_teamA := teamA', mr_teamB := teamB'\<rparr>)
         | _ \<Rightarrow> None)"

definition ProcessMatch_teamBFirst :: "MatchResult \<Rightarrow> MatchResult option" where
  "ProcessMatch_teamBFirst match =
     (let teamARatings = map mp_rating (mr_teamA match);
          teamAPerformance = map mp_performanceScore (mr_teamA match);
          teamBRatings = map mp_rating (mr_teamB match);
          teamBPerformance = map mp_performanceScore (mr_teamB match);
          statsA = ComputeTeamStats teamARatings;
          statsB = ComputeTeamStats teamBRatings;
          weightsA = ComputeZScores teamAPerformance;
          weightsB = ComputeZScores teamBPerformance
      in case ProcessMatch_updateTeam 0 (mr_teamB match) statsA (mr_scoreB match) weightsB of
           None \<Rightarrow> None
         | Some teamB' \<Rightarrow>
            (let match = match\<lparr>mr_teamB := teamB'\<rparr>
             in case ProcessMatch_updateTeam 0 (mr_teamA match) statsB (mr_scoreA match) weightsA of
                  None \<Rightarrow> None
                | Some teamA' \<Rightarrow> Some (match\<lparr>mr_teamA := teamA'\<rparr>)))"

section \<open>The candidates of the search, in the order it reaches them\<close>

text \<open>
  For the claims about the search budget and the separation of the two strongest players,
  the search is compared with a plain enumeration. \<open>GenerateCombinations_candidates\<close> lists
  the complete candidates (values of \<open>currentTeam0\<close> at the base case) that
  \<open>GenerateCombinations\<close> reaches when no budget stops it, in the order it reaches them: the
  same recursion with the same pruning, without the state.
\<close>

function GenerateCombinations_candidates ::
    "nat \<Rightarrow> bool \<Rightarrow> nat \<Rightarrow> nat \<Rightarrow> nat list \<Rightarrow> nat list list"
  and GenerateCombinations_for_candidates ::
    "nat \<Rightarrow> bool \<Rightarrow> nat \<Rightarrow> nat \<Rightarrow> nat list \<Rightarrow> nat list list"
  where
  "GenerateCombinations_candidates n separate teamSize startIndex currentTeam0 =
     (if length currentTeam0 = teamSize then [currentTeam0]
      else if int n - int startIndex < int teamSize - int (length currentTeam0) then []
      else GenerateCombinations_for_candidates n separate teamSize startIndex currentTeam0)"
| "GenerateCombinations_for_candidates n separate teamSize i currentTeam0 =
     (if i < n
      then (if separate \<and> length currentTeam0 > 0 \<and>
               ((0 \<in> set currentTeam0 \<and> i = 1) \<or> (1 \<in> set currentTeam0 \<and> i = 0))
            then GenerateCombinations_for_candidates n separate teamSize (i + 1) currentTeam0
            else GenerateCombinations_candidates n separate teamSize (i + 1) (currentTeam0 @ [i])
                 @ GenerateCombinations_for_candidates n separate teamSize (i + 1) currentTeam0)
      else [])"
  by pat_completeness auto
termination
  by (relation "measure (\<lambda>x. case x of
          Inl (n, separate, teamSize, startIndex, currentTeam0) \<Rightarrow> 2 * (n - startIndex) + 1
        | Inr (n, separate, teamSize, i, currentTeam0) \<Rightarrow> 2 * (n - i))") auto

declare GenerateCombinations_candidates.simps [simp del]
  GenerateCombinations_for_candidates.simps [simp del]


text \<open>
  The state after the base case has been run, in order, on the candidates of \<open>cs\<close> that the
  remaining budget \<open>maxCombinationsToTry - combinationsTried\<close> admits.
\<close>

definition examinedCandidates ::
  "PlayerInfo list \<Rightarrow> BalancerConfig \<Rightarrow> nat list list \<Rightarrow> TeamAssignment \<times> int \<Rightarrow> TeamAssignment \<times> int" where
  "examinedCandidates players config cs st =
     (let done = take (nat (bc_maxCombinationsToTry config - snd st)) cs
      in (fold (GenerateCombinations_baseCase players config) done (fst st),
          snd st + int (length done)))"


text \<open>A candidate that passes both constraint checks of the base case.\<close>

definition acceptedCandidate :: "PlayerInfo list \<Rightarrow> BalancerConfig \<Rightarrow> nat list \<Rightarrow> bool" where
  "acceptedCandidate players config c =
     (\<not> (bc_separateTopPlayers config \<and> ViolatesTopPlayerConstraint players c) \<and>
      \<not> (bc_separateTopPlayers config \<and>
          ViolatesTopPlayerConstraint players (team1IndicesOf players c)))"


section \<open>Concrete inputs\<close>

text \<open>
  A player with rating about \<open>1329.6\<close>, deviation about \<open>250.5\<close> and volatility \<open>0.06\<close>.
  Against an opponent aggregate of mean \<open>0\<close> and deviation \<open>0\<close> the expected score is
  \<open>2/5\<close> and, for a win, \<open>delta\<^sup>2 - phi\<^sup>2 - v\<close> is exactly \<open>sigma\<^sup>2\<close>, so the volatility
  iteration starts with a bracket of width zero.
\<close>

definition witness_player :: PlayerRating where
  "witness_player = \<lparr>pr_mu = - ln (3/2), pr_phi = sqrt (7799/3750), pr_sigma = 3/50,
                      pr_perfIndexEMA = 0, pr_perfGames = 0\<rparr>"

text \<open>
  A player with rating about \<open>1395.6\<close>, deviation about \<open>62.0\<close> and volatility \<open>0.06\<close>, and
  the rating that a win against an opponent aggregate of mean \<open>0\<close> (rating \<open>1400\<close>) and
  deviation \<open>5 * M_PI / 11\<close> (about \<open>248.1\<close>) gives: the deviation is then about \<open>62.2\<close>.
\<close>

definition lowRD_player :: PlayerRating where
  "lowRD_player = \<lparr>pr_mu = - (14/11) * ln (101/99),
                    pr_phi = sqrt (38121997811/299445052500),
                    pr_sigma = 3/50, pr_perfIndexEMA = 0, pr_perfGames = 0\<rparr>"

definition lowRD_updated :: PlayerRating where
  "lowRD_updated = \<lparr>pr_mu = 5600/109989 - (14/11) * ln (101/99),
                     pr_phi = 1 / sqrt (122197779/15680000),
                     pr_sigma = 3/50, pr_perfIndexEMA = 0, pr_perfGames = 0\<rparr>"

text \<open>
  A heavy favourite: a player with rating about \<open>2599.8\<close>, deviation about \<open>173.7\<close> and
  volatility \<open>0.06\<close>. Against an opponent aggregate of mean \<open>0\<close> and deviation \<open>0\<close> the
  expected score is \<open>999/1000\<close> and the variance \<open>1000000/999\<close>; for a win \<open>delta\<close> is
  \<open>1000/999\<close>, so the volatility iteration starts from the bracket \<open>[a - kTau, a]\<close> of width
  \<open>1/2\<close> and has to run. \<open>favourite_updated\<close> is the rating that the win gives with a z-score
  of \<open>1\<close>: the deviation is then about \<open>173.9\<close>.
\<close>

definition favourite_player :: PlayerRating where
  "favourite_player = \<lparr>pr_mu = ln 999, pr_phi = 1, pr_sigma = 3/50,
                        pr_perfIndexEMA = 0, pr_perfGames = 0\<rparr>"

definition favourite_updated :: PlayerRating where
  "favourite_updated = \<lparr>pr_mu = ln 999 + 3010800/2502506491,
                         pr_phi = 1 / sqrt (2502506491/2509000000),
                         pr_sigma = 3/50, pr_perfIndexEMA = 0, pr_perfGames = 0\<rparr>"

text \<open>
  The pool of the balancing scenario: players \<open>1\<close> and \<open>2\<close> rated \<open>2200\<close> and \<open>2150\<close> with
  deviations \<open>100\<close> and \<open>110\<close>, and six players rated \<open>1500\<close> down to \<open>1450\<close> with deviation
  \<open>150\<close>, in an order in which the two strongest are neither first nor adjacent; and the
  same players in descending order of rating.
\<close>

definition scenario_pool :: "PlayerInfo list" where
  "scenario_pool =
     [PlayerInfo_new 5 (PlayerRating_new 1480 150 kDefaultVolatility),
      PlayerInfo_new 2 (PlayerRating_new 2150 110 kDefaultVolatility),
      PlayerInfo_new 8 (PlayerRating_new 1450 150 kDefaultVolatility),
      PlayerInfo_new 3 (PlayerRating_new 1500 150 kDefaultVolatility),
      PlayerInfo_new 6 (PlayerRating_new 1470 150 kDefaultVolatility),
      PlayerInfo_new 1 (PlayerRating_new 2200 100 kDefaultVolatility),
      PlayerInfo_new 7 (PlayerRating_new 1460 150 kDefaultVolatility),
      PlayerInfo_new 4 (PlayerRating_new 1490 150 kDefaultVolatility)]"

definition scenario_pool_sorted :: "PlayerInfo list" where
  "scenario_pool_sorted =
     [PlayerInfo_new 1 (PlayerRating_new 2200 100 kDefaultVolatility),
      PlayerInfo_new 2 (PlayerRating_new 2150 110 kDefaultVolatility),
      PlayerInfo_new 3 (PlayerRating_new 1500 150 kDefaultVolatility),
      PlayerInfo_new 4 (PlayerRating_new 1490 150 kDefaultVolatility),
      PlayerInfo_new 5 (PlayerRating_new 1480 150 kDefaultVolatility),
      PlayerInfo_new 6 (PlayerRating_new 1470 150 kDefaultVolatility),
      PlayerInfo_new 7 (PlayerRating_new 1460 150 kDefaultVolatility),
      PlayerInfo_new 8 (PlayerRating_new 1450 150 kDefaultVolatility)]"


text \<open>A pool of two players.\<close>

definition two_player_pool :: "PlayerInfo list" where
  "two_player_pool =
     [PlayerInfo_new 1 (PlayerRating_new 1500 100 kDefaultVolatility),
      PlayerInfo_new 2 (PlayerRating_new 1450 200 kDefaultVolatility)]"


text \<open>
  A pool of three players, and a configuration that asks for the strength gap alone
  (\<open>lambda = 0\<close>) with neither placement constraint.
\<close>

definition three_player_pool :: "PlayerInfo list" where
  "three_player_pool =
     [PlayerInfo_new 1 (PlayerRating_new 1550 30 kDefaultVolatility),
      PlayerInfo_new 2 (PlayerRating_new 1500 200 kDefaultVolatility),
      PlayerInfo_new 3 (PlayerRating_new 1450 30 kDefaultVolatility)]"


definition strength_only_config :: BalancerConfig where
  "strength_only_config =
     \<lparr>bc_lambda = 0.0, bc_separateTopPlayers = False,
      bc_putTopPlayerInSmallerTeam = False, bc_maxCombinationsToTry = 10000\<rparr>"


section \<open>Performance scaler\<close>

text \<open>
  C2, as stated: the factor is \<open>clamp(1 + beta * sign(pendingChange) * z, fMin, fMax)\<close> for
  every pending change. With the sign function of the reals (\<open>sgn 0 = 0\<close>) the statement
  fails at a pending change of exactly zero, which \<open>ComputeScalingFactor\<close> treats as a gain
  (\<open>deltaMu >= 0.0\<close>): with the configured \<open>kBeta\<close>, \<open>kScaleMin\<close>, \<open>kScaleMax\<close> and \<open>z = 1\<close> the
  source returns \<open>1.2\<close>, the formula \<open>1\<close>.
\<close>

theorem ComputeScalingFactor_zero_change_counterexample:
  "ComputeScalingFactor 1 0 kBeta kScaleMin kScaleMax
     \<noteq> min kScaleMax (max kScaleMin (1 + kBeta * sgn 0 * 1))"
  by (simp add: ComputeScalingFactor_def kBeta_def kScaleMin_def kScaleMax_def)

text \<open>
  C2, amended: for every z-score \<open>z > 0\<close>, every sensitivity \<open>beta \<ge> 0\<close> and every pair of
  bounds with \<open>fMin \<le> 1 \<le> fMax\<close> (the configured \<open>0.2\<close>, \<open>0.5\<close>, \<open>1.5\<close> among them), the factor
  is at least \<open>1\<close> when the pending change is positive and at most \<open>1\<close> when it is negative;
  it equals \<open>clamp(1 + beta * sign(pendingChange) * z, fMin, fMax)\<close> for every non-zero
  pending change, and \<open>clamp(1 + beta * z, fMin, fMax)\<close> for a pending change of zero.
\<close>

theorem ComputeScalingFactor_sign_aware:
  assumes "0 < z" and "0 \<le> beta" and "fMin \<le> 1" and "1 \<le> fMax"
  shows "(0 < d \<longrightarrow> 1 \<le> ComputeScalingFactor z d beta fMin fMax) \<and>
         (d < 0 \<longrightarrow> ComputeScalingFactor z d beta fMin fMax \<le> 1) \<and>
         (d \<noteq> 0 \<longrightarrow> ComputeScalingFactor z d beta fMin fMax
                        = min fMax (max fMin (1 + beta * sgn d * z))) \<and>
         (d = 0 \<longrightarrow> ComputeScalingFactor z d beta fMin fMax
                        = min fMax (max fMin (1 + beta * z)))"
proof -
  have bz: "0 \<le> beta * z" using assms by simp
  show ?thesis
    using bz assms(3,4) unfolding ComputeScalingFactor_def Let_def
    by (auto simp: sgn_if min_def max_def)
qed

theorem ComputeScalingFactor_sign_aware_witness:
  "1 \<le> ComputeScalingFactor 1 (1/2) kBeta kScaleMin kScaleMax \<and>
   ComputeScalingFactor 1 (-1/2) kBeta kScaleMin kScaleMax \<le> 1 \<and>
   ComputeScalingFactor 1 (1/2) kBeta kScaleMin kScaleMax = 6/5 \<and>
   ComputeScalingFactor 1 (-1/2) kBeta kScaleMin kScaleMax = 4/5 \<and>
   ComputeScalingFactor 1 0 kBeta kScaleMin kScaleMax = 6/5"
  using ComputeScalingFactor_sign_aware [of 1 kBeta kScaleMin kScaleMax "1/2"]
        ComputeScalingFactor_sign_aware [of 1 kBeta kScaleMin kScaleMax "-1/2"]
        ComputeScalingFactor_sign_aware [of 1 kBeta kScaleMin kScaleMax 0]
  by (simp add: kBeta_def kScaleMin_def kScaleMax_def)

section \<open>Expected score and variance in exact arithmetic\<close>

text \<open>
  Three facts that the later sections use. They are statements about the real-valued
  expressions only: the source rounds the expected score to exactly \<open>0.0\<close> or \<open>1.0\<close> for
  large rating gaps (see the remarks at \<open>ComputeExpectedScore\<close> and \<open>ComputeVariance\<close>), and
  what it does there, and whether an overflow of \<open>std::exp\<close> is guarded against, is not a
  statement about the functions defined here.
\<close>

lemma ComputeExpectedScore_range:
  "0 < ComputeExpectedScore r muOpp gOpp \<and> ComputeExpectedScore r muOpp gOpp < 1"
proof -
  have "0 < exp (- gOpp * (pr_mu r - muOpp))" by simp
  then show ?thesis
    unfolding ComputeExpectedScore_def Let_def by (simp add: add_pos_pos)
qed

lemma g_factor_pos: "0 < 1 / sqrt (1 + 3 * (opponentPhi * opponentPhi) / (M_PI * M_PI))"
proof -
  have "0 \<le> 3 * (opponentPhi * opponentPhi) / (M_PI * M_PI)" by simp
  then have "0 < 1 + 3 * (opponentPhi * opponentPhi) / (M_PI * M_PI)" by linarith
  then show ?thesis by simp
qed

lemma ComputeVariance_pos:
  assumes "0 < g" and "0 < E" and "E < 1"
  shows "0 < ComputeVariance g E"
  using assms unfolding ComputeVariance_def Let_def by simp

section \<open>Match engine: evaluating an update\<close>

lemma exp_half_ln_square:
  assumes "0 < s"
  shows "exp (ln (s * s) / 2) = (s::real)"
proof -
  have "ln (s * s) = 2 * ln s" using assms by (simp add: ln_mult_pos)
  then show ?thesis using assms by simp
qed

lemma UpdateVolatility_unchanged:
  assumes "0 < sigma" and "delta * delta - phi * phi - v = sigma * sigma"
  shows "UpdateVolatility sigma phi delta v = Some sigma"
proof -
  have pos: "0 < sigma * sigma" using assms(1) by simp
  have gt: "delta * delta > phi * phi + v" using assms(2) pos by linarith
  have ill: "UpdateVolatility_illinois a a fA fB dS pS v a tS = Some a" for a fA fB dS pS tS
    by (subst UpdateVolatility_illinois.simps) (simp add: kConvergence_def)
  show ?thesis
    unfolding UpdateVolatility_def Let_def
    using gt assms(2) by (simp add: ill exp_half_ln_square [OF assms(1)])
qed


lemma UpdatePlayerRating_eval:
  assumes g: "g = 1 / sqrt (1 + 3 * (opponentPhi * opponentPhi) / (M_PI * M_PI))"
    and E: "E = ComputeExpectedScore player opponentMu g"
    and v: "v = ComputeVariance g E"
    and vol: "UpdateVolatility (GetSigma player) (GetPhi player) (ComputeDelta v g score E) v
                = Some sigmaPrime"
    and dev: "phiPrime = UpdateRatingDeviation (GetPhi player) sigmaPrime v"
    and star: "muStar = UpdateRatingMean (GetMu player) phiPrime g score E"
    and f: "f = ComputeScalingFactor zScore (muStar - GetMu player) kBeta kScaleMin kScaleMax"
    and m: "muPrime = ClampRatingChange (GetMu player) (GetMu player + f * (muStar - GetMu player))"
  shows "UpdatePlayerRating player opponentMu opponentPhi score zScore =
           Some \<lparr>pr_mu = muPrime, pr_phi = phiPrime, pr_sigma = sigmaPrime,
                 pr_perfIndexEMA = 0, pr_perfGames = 0\<rparr>"
proof -
  have "UpdatePlayerRating player opponentMu opponentPhi score zScore =
          Some (SetSigma (SetPhi (SetMu PlayerRating_default muPrime) phiPrime) sigmaPrime)"
    unfolding UpdatePlayerRating_def Let_def kEnableRatingClamp_def
    using vol unfolding v E g
    by (simp add: m f star dev v E g)
  then show ?thesis
    by (simp add: SetSigma_def SetPhi_def SetMu_def PlayerRating_default_def PlayerRating_new_def)
qed

lemma UpdatePlayerRating_witness_player:
  assumes "- 5/2 \<le> z" and "z \<le> 5/2"
  shows "UpdatePlayerRating witness_player 0 0 1 z =
     Some \<lparr>pr_mu = 5/6 + z/6 - ln (3/2), pr_phi = 1 / sqrt (18/25), pr_sigma = 3/50,
           pr_perfIndexEMA = 0, pr_perfGames = 0\<rparr>"
proof (rule UpdatePlayerRating_eval [where g = 1 and E = "2/5" and v = "25/6"
         and muStar = "5/6 - ln (3/2)" and f = "1 + z/5"])
  show "(1::real) = 1 / sqrt (1 + 3 * (0 * 0) / (M_PI * M_PI))" by simp
  show "2/5 = ComputeExpectedScore witness_player 0 1"
    unfolding ComputeExpectedScore_def witness_player_def Let_def by simp
  show "25/6 = ComputeVariance 1 (2/5)"
    unfolding ComputeVariance_def Let_def by simp
  show "UpdateVolatility (GetSigma witness_player) (GetPhi witness_player)
          (ComputeDelta (25/6) 1 1 (2/5)) (25/6) = Some (3/50)"
  proof -
    have "UpdateVolatility (3/50) (sqrt (7799/3750)) (5/2) (25/6) = Some (3/50)"
      by (rule UpdateVolatility_unchanged) simp_all
    then show ?thesis
      by (simp add: witness_player_def GetSigma_def GetPhi_def ComputeDelta_def)
  qed
  show "1 / sqrt (18/25) = UpdateRatingDeviation (GetPhi witness_player) (3/50) (25/6)"
    unfolding UpdateRatingDeviation_def Let_def witness_player_def GetPhi_def by simp
  have sq: "(1 / sqrt (18/25)) * (1 / sqrt (18/25)) = (25/18 :: real)"
    by simp
  show "5/6 - ln (3/2) = UpdateRatingMean (GetMu witness_player) (1 / sqrt (18/25)) 1 1 (2/5)"
    unfolding UpdateRatingMean_def witness_player_def GetMu_def using sq by simp
  show "1 + z/5 = ComputeScalingFactor z (5/6 - ln (3/2) - GetMu witness_player)
                    kBeta kScaleMin kScaleMax"
    unfolding ComputeScalingFactor_def Let_def kBeta_def kScaleMin_def kScaleMax_def
      witness_player_def GetMu_def using assms by simp
  show "5/6 + z/6 - ln (3/2) = ClampRatingChange (GetMu witness_player)
          (GetMu witness_player + (1 + z/5) * (5/6 - ln (3/2) - GetMu witness_player))"
    unfolding ClampRatingChange_def Let_def kMaxRatingChange_def witness_player_def GetMu_def
    using assms by (simp add: algebra_simps)
qed

section \<open>Match engine: the volatility iteration in exact arithmetic\<close>

text \<open>
  Two facts about the loops of \<open>UpdateVolatility\<close> when every operation is exact. The first
  bracket \<open>a - kTau\<close> of the downward search already has a function value of at least \<open>3/2\<close>
  whenever \<open>phi\<^sup>2 + v\<close> is positive, so the search loop returns it without running its body.
  The iteration, on the other hand, does not leave a state in which the bracket is wider
  than \<open>kConvergence\<close>, the iterate \<open>B\<close> is an exact root, \<open>fB\<close> is zero and \<open>fA\<close> is not:
  every step halves \<open>fA\<close> and recomputes the same \<open>B\<close>. The source leaves such a state only
  through the rounding of \<open>double\<close> (the repeated halving underflows), which is outside this
  model; whether and when the loop of the source stops is therefore not a statement about
  the functions defined here.
\<close>

lemma VolatilityFunction_first_bracket:
  assumes K: "0 < phiSquared + v" and D: "0 \<le> deltaSquared"
  shows "3/2 \<le> VolatilityFunction (a - kTau) deltaSquared phiSquared v a (kTau * kTau)"
proof -
  define e where "e = exp (a - kTau)"
  define K where "K = phiSquared + v"
  have e: "0 < e" unfolding e_def by simp
  have Kp: "0 < K" unfolding K_def using K .
  have den: "0 < 2 * (K + e) * (K + e)" using e Kp by simp
  have "- (K + e) * (K + e) \<le> e * (deltaSquared - K - e)"
  proof -
    have "0 \<le> e * deltaSquared + e * K + K * K"
      using e Kp D by (simp add: add_nonneg_nonneg)
    then show ?thesis by (simp add: algebra_simps)
  qed
  then have t: "- 1/2 \<le> e * (deltaSquared - K - e) / (2 * (K + e) * (K + e))"
    unfolding pos_le_divide_eq [OF den] by (simp add: algebra_simps)
  have "VolatilityFunction (a - kTau) deltaSquared phiSquared v a (kTau * kTau)
          = e * (deltaSquared - K - e) / (2 * (K + e) * (K + e)) + 2"
    unfolding VolatilityFunction_def Let_def e_def K_def kTau_def
    by (simp add: algebra_simps)
  with t show ?thesis by linarith
qed

lemma UpdateVolatility_findB_first_bracket:
  assumes "0 < phiSquared + v" and "0 \<le> deltaSquared"
  shows "UpdateVolatility_findB (a - kTau) deltaSquared phiSquared v a (kTau * kTau)
           = Some (a - kTau)"
  using VolatilityFunction_first_bracket [OF assms, of a]
  by (subst UpdateVolatility_findB.simps) simp

lemma UpdateVolatility_illinois_exact_root_aux:
  assumes "UpdateVolatility_illinois A B fA fB deltaSquared phiSquared v a tauSquared = Some y"
  shows "VolatilityFunction B deltaSquared phiSquared v a tauSquared = 0 \<longrightarrow>
         kConvergence < \<bar>B - A\<bar> \<longrightarrow> fA \<noteq> 0 \<longrightarrow> fB = 0 \<longrightarrow> False"
proof (rule UpdateVolatility_illinois.raw_induct
         [where P = "\<lambda>A B fA fB deltaSquared phiSquared v a tauSquared y.
                       VolatilityFunction B deltaSquared phiSquared v a tauSquared = 0 \<longrightarrow>
                       kConvergence < \<bar>B - A\<bar> \<longrightarrow> fA \<noteq> 0 \<longrightarrow> fB = 0 \<longrightarrow> False",
          OF _ assms])
  fix illinois :: "real \<Rightarrow> real \<Rightarrow> real \<Rightarrow> real \<Rightarrow> real \<Rightarrow> real \<Rightarrow> real \<Rightarrow> real \<Rightarrow> real \<Rightarrow> real option"
    and A B fA fB deltaSquared phiSquared v a tauSquared y :: real
  assume IH: "\<And>A B fA fB deltaSquared phiSquared v a tauSquared y.
                illinois A B fA fB deltaSquared phiSquared v a tauSquared = Some y \<Longrightarrow>
                VolatilityFunction B deltaSquared phiSquared v a tauSquared = 0 \<longrightarrow>
                kConvergence < \<bar>B - A\<bar> \<longrightarrow> fA \<noteq> 0 \<longrightarrow> fB = 0 \<longrightarrow> False"
    and eq: "(if \<bar>B - A\<bar> > kConvergence
              then (let C = A + (A - B) * fA / (fB - fA);
                        fC = VolatilityFunction C deltaSquared phiSquared v a tauSquared
                    in if fC * fB < 0.0
                       then illinois B C fB fC deltaSquared phiSquared v a tauSquared
                       else illinois A C (fA / 2.0) fC deltaSquared phiSquared v a tauSquared)
              else Some A) = Some y"
  show "VolatilityFunction B deltaSquared phiSquared v a tauSquared = 0 \<longrightarrow>
        kConvergence < \<bar>B - A\<bar> \<longrightarrow> fA \<noteq> 0 \<longrightarrow> fB = 0 \<longrightarrow> False"
  proof (intro impI)
    assume root: "VolatilityFunction B deltaSquared phiSquared v a tauSquared = 0"
      and wide: "kConvergence < \<bar>B - A\<bar>" and fA: "fA \<noteq> 0" and fB: "fB = 0"
    have C: "A + (A - B) * fA / (fB - fA) = B"
      using fA fB by (simp add: field_simps)
    from eq wide root fB fA
    have "illinois A B (fA / 2) 0 deltaSquared phiSquared v a tauSquared = Some y"
      by (simp add: Let_def C)
    from IH [OF this] root wide fA show False by simp
  qed
qed

lemma UpdateVolatility_illinois_exact_root:
  assumes "VolatilityFunction B deltaSquared phiSquared v a tauSquared = 0"
    and "\<bar>B - A\<bar> > kConvergence"
    and "fA \<noteq> 0"
  shows "UpdateVolatility_illinois A B fA 0 deltaSquared phiSquared v a tauSquared = None"
proof (cases "UpdateVolatility_illinois A B fA 0 deltaSquared phiSquared v a tauSquared")
  case None
  then show ?thesis .
next
  case (Some y)
  from UpdateVolatility_illinois_exact_root_aux [OF Some] assms show ?thesis by simp
qed

section \<open>Match engine: updates whose volatility iteration ends after one step\<close>

text \<open>
  When \<open>delta\<^sup>2 \<le> phi\<^sup>2 + v\<close> the iteration starts from the bracket \<open>[a - kTau, a]\<close> with
  \<open>a = ln (sigma\<^sup>2)\<close>, of width \<open>1/2\<close>, and has to run. With
  \<open>G u = u * (q + u) / (2 * (p + u)\<^sup>2)\<close>, \<open>p = phi\<^sup>2 + v\<close> and \<open>q = p - delta\<^sup>2\<close>, the function
  of the iteration is \<open>- G (exp x) - 4 * (x - a)\<close>, and the first secant point is \<open>a - eps\<close>
  with \<open>eps = G s / (2 * (2 - G (s * exp (- 1/2)) + G s))\<close>, \<open>s = sigma\<^sup>2\<close>. If moreover
  \<open>sigma\<^sup>2 * 10\<^sup>6 \<le> 6 * (phi\<^sup>2 + v)\<close>, that point is within \<open>kConvergence\<close> of \<open>a\<close> and the function
  is not negative there, so the first step keeps \<open>A = a\<close>, replaces \<open>B\<close> by the secant point,
  and the loop leaves: the volatility is returned unchanged.
\<close>

lemma VolatilityFunction_quotient_diff:
  fixes s u p q :: real
  assumes "0 < s" "0 < u" "0 < p"
  shows "s * (q + s) / (2 * (p + s) * (p + s)) - u * (q + u) / (2 * (p + u) * (p + u))
       = (s - u) * (p * p * (q + s + u) + (2 * p - q) * s * u)
           / (2 * ((p + s) * (p + s)) * ((p + u) * (p + u)))"
proof -
  have ps: "p + s \<noteq> 0" "p + u \<noteq> 0" using assms by auto
  show ?thesis using ps by (simp add: divide_simps) algebra
qed

lemma VolatilityFunction_secant_step:
  fixes s p q :: real
  assumes s: "0 < s" and p: "0 < p" and q0: "0 \<le> q" and qp: "q \<le> p"
    and small: "s * 1000000 \<le> 6 * p"
  defines "G \<equiv> \<lambda>u. u * (q + u) / (2 * (p + u) * (p + u))"
  defines "eps \<equiv> G s / (2 * (2 - G (s * exp (- (1/2))) + G s))"
  shows "0 < eps \<and> eps \<le> 1/1000000 \<and> G (s * exp (- eps)) \<le> 4 * eps"
proof -
  define k where "k = exp (- (1/2) :: real)"
  have "exp (1/2 :: real) \<le> 1 + 1/2 + (1/2)\<^sup>2" by (rule exp_bound) simp_all
  then have e12: "exp (1/2 :: real) \<le> 7/4" by (simp add: power2_eq_square)
  have k0: "0 < k" unfolding k_def by simp
  have k1: "k < 1" unfolding k_def by simp
  have kinv: "k = 1 / exp (1/2)" unfolding k_def by (simp add: exp_minus inverse_eq_divide)
  have k47: "4/7 \<le> k" unfolding kinv using e12 by (simp add: field_simps)
  have Gpos: "0 < G u" if "0 < u" for u
  proof -
    have "0 < u * (q + u)" using that q0 by (simp add: add_nonneg_pos)
    moreover have "0 < 2 * (p + u) * (p + u)" using that p by simp
    ultimately show ?thesis unfolding G_def by (rule divide_pos_pos)
  qed
  have Gle: "G u \<le> u / (2 * (p + u))" if "0 < u" for u
  proof -
    have pu: "0 < p + u" using that p by simp
    have "u * (q + u) \<le> u * (p + u)" using that qp by simp
    then have "u * (q + u) / (2 * (p + u) * (p + u)) \<le> u * (p + u) / (2 * (p + u) * (p + u))"
      using pu by (intro divide_right_mono) auto
    also have "\<dots> = u / (2 * (p + u))" using pu by simp
    finally show ?thesis unfolding G_def .
  qed
  have Ghalf: "G u < 1/2" if "0 < u" for u
  proof -
    have "u / (2 * (p + u)) < 1/2" using that p by (simp add: field_simps)
    with Gle [OF that] show ?thesis by linarith
  qed
  define G1 where "G1 = G s"
  define Gk where "Gk = G (s * k)"
  have sk: "0 < s * k" using s k0 by simp
  have G1pos: "0 < G1" unfolding G1_def using s by (rule Gpos)
  have G1small: "G1 \<le> 3/1000000"
  proof -
    have "s / (2 * (p + s)) \<le> 3/1000000" using s p small by (simp add: field_simps)
    with Gle [OF s] show ?thesis unfolding G1_def by linarith
  qed
  have Gkpos: "0 < Gk" unfolding Gk_def using sk by (rule Gpos)
  have Gkhalf: "Gk < 1/2" unfolding Gk_def using sk by (rule Ghalf)
  define den where "den = 2 - Gk + G1"
  have den_lo: "3/2 \<le> den" unfolding den_def using Gkhalf G1pos by linarith
  have den_hi: "den \<le> 200/99" unfolding den_def using Gkpos G1small by linarith
  have den_pos: "0 < 2 * den" using den_lo by linarith
  have eps: "eps = G1 / (2 * den)"
    unfolding eps_def den_def G1_def Gk_def k_def ..
  have eps_pos: "0 < eps" unfolding eps using G1pos den_pos by (rule divide_pos_pos)
  have eps_G1: "eps * (2 * den) = G1" unfolding eps using den_pos by simp
  have eps_le: "eps \<le> G1 / 3"
  proof -
    have "eps * 3 \<le> eps * (2 * den)" using eps_pos den_lo by (intro mult_left_mono) auto
    with eps_G1 show ?thesis by linarith
  qed
  have eps_small: "eps \<le> 1/1000000" using eps_le G1small by linarith
  have eps_ge: "(99/400) * G1 \<le> eps"
  proof -
    have "eps * (2 * den) \<le> eps * (400/99)" using eps_pos den_hi by (intro mult_left_mono) auto
    with eps_G1 show ?thesis by linarith
  qed
  define x where "x = exp (- eps)"
  have x_le1: "x \<le> 1" unfolding x_def using eps_pos by simp
  have x_pos: "0 < x" unfolding x_def by simp
  have x_inv: "x * exp eps = 1" unfolding x_def by (simp add: exp_minus)
  have x_up: "x * (1 + eps) \<le> 1"
  proof -
    have "1 + eps \<le> exp eps" by (rule exp_ge_add_one_self)
    then have "x * (1 + eps) \<le> x * exp eps" using x_pos by (intro mult_left_mono) auto
    with x_inv show ?thesis by linarith
  qed
  have t_ge: "(99/100) * eps \<le> 1 - x"
  proof -
    have "x * eps \<le> 1 - x" using x_up by (simp add: algebra_simps)
    moreover have "99/100 \<le> x" using exp_ge_add_one_self [of "- eps"] eps_small
      unfolding x_def by linarith
    then have "(99/100) * eps \<le> x * eps" using eps_pos by (intro mult_right_mono) auto
    ultimately show ?thesis by linarith
  qed
  have x_lo: "99/100 \<le> x" using exp_ge_add_one_self [of "- eps"] eps_small
    unfolding x_def by linarith
  define u where "u = s * x"
  have u_pos: "0 < u" unfolding u_def using s x_pos by simp
  have u_le: "u \<le> s" unfolding u_def using s x_le1 by (simp add: mult_left_le)
  have u_lo: "(99/100) * s \<le> u" unfolding u_def using s x_lo by simp
  have su: "(99/100) * s * eps \<le> s - u"
  proof -
    have "s * ((99/100) * eps) \<le> s * (1 - x)" using s t_ge by (intro mult_left_mono) auto
    then show ?thesis unfolding u_def by (simp add: algebra_simps)
  qed
  define K1 where "K1 = q + 2 * s"
  have K1pos: "0 < K1" unfolding K1_def using s q0 by linarith
  define M where "M = s * K1 / (2 * ((p + s) * (p + s)))"
  have ps2: "0 < 2 * ((p + s) * (p + s))" using s p by simp
  have Mpos: "0 < M" unfolding M_def using s K1pos p by simp
  have s_p: "s \<le> p / 100" using small p by linarith
  have pp: "0 < p * p" using p by simp
  have ppK: "0 < p * p * K1" using pp K1pos by simp
  have ps_sq: "(p + s) * (p + s) \<le> (100/99) * (p * p)"
  proof -
    have a: "p + s \<le> (1000006/1000000) * p" using small by linarith
    have "(p + s) * (p + s) \<le> ((1000006/1000000) * p) * ((1000006/1000000) * p)"
      using a s p by (intro mult_mono) auto
    also have "\<dots> = (1000006/1000000) * (1000006/1000000) * (p * p)" by simp
    also have "\<dots> \<le> (100/99) * (p * p)" using pp by (intro mult_right_mono) auto
    finally show ?thesis .
  qed
  define Nk where "Nk = p * p * (q + s + s * k) + (2 * p - q) * s * (s * k)"
  have Nk_hi: "Nk \<le> (101/100) * (p * p * K1)"
  proof -
    have "q + s + s * k \<le> K1" unfolding K1_def using s k1 by simp
    then have a: "p * p * (q + s + s * k) \<le> p * p * K1"
      using pp by (intro mult_left_mono) auto
    have "s * (s * k) \<le> s * s" using s k1 by simp
    moreover have "0 \<le> 2 * p - q" "2 * p - q \<le> 2 * p" using qp p q0 by linarith+
    ultimately have "(2 * p - q) * (s * (s * k)) \<le> (2 * p) * (s * s)"
      using s k0 by (intro mult_mono) auto
    also have "(2 * p) * (s * s) = (2 * p * s) * s" by simp
    also have "\<dots> \<le> (2 * p * s) * (p / 100)" using s p s_p by (intro mult_left_mono) auto
    also have "\<dots> = (1/100) * (p * p * (2 * s))" by simp
    also have "\<dots> \<le> (1/100) * (p * p * K1)"
    proof -
      have "p * p * (2 * s) \<le> p * p * K1" unfolding K1_def using pp q0
        by (intro mult_left_mono) auto
      then show ?thesis by simp
    qed
    finally have b: "(2 * p - q) * s * (s * k) \<le> (1/100) * (p * p * K1)"
      by (simp add: mult.assoc)
    show ?thesis unfolding Nk_def using a b by linarith
  qed
  have Nk_pos: "0 \<le> Nk"
  proof -
    have "0 \<le> p * p * (q + s + s * k)" using p q0 s sk by (intro mult_nonneg_nonneg) auto
    moreover have "0 \<le> (2 * p - q) * s * (s * k)" using p qp s k0
      by (intro mult_nonneg_nonneg) auto
    ultimately show ?thesis unfolding Nk_def by linarith
  qed
  have U: "G1 - Gk \<le> (303/700) * M"
  proof -
    have d: "G1 - Gk = (s - s * k) * Nk / (2 * ((p + s) * (p + s)) * ((p + s * k) * (p + s * k)))"
      unfolding G1_def Gk_def G_def Nk_def by (rule VolatilityFunction_quotient_diff [OF s sk p])
    have psk: "0 < (p + s * k) * (p + s * k)" using p sk by simp
    have "s - s * k \<le> (3/7) * s"
    proof -
      have "s * (4/7) \<le> s * k" using s k47 by (intro mult_left_mono) auto
      then show ?thesis by linarith
    qed
    moreover have "0 \<le> s - s * k" using s k1 by simp
    ultimately have "(s - s * k) * Nk \<le> ((3/7) * s) * ((101/100) * (p * p * K1))"
      using Nk_hi Nk_pos s by (intro mult_mono) auto
    also have "\<dots> = (303/700) * (s * K1) * (p * p)" by simp
    also have "\<dots> \<le> (303/700) * (s * K1) * ((p + s * k) * (p + s * k))"
    proof -
      have "p * p \<le> (p + s * k) * (p + s * k)" using p sk by (intro mult_mono) auto
      moreover have "0 \<le> (303/700) * (s * K1)" using s K1pos by simp
      ultimately show ?thesis by (intro mult_left_mono) auto
    qed
    finally have n: "(s - s * k) * Nk \<le> (303/700) * (s * K1) * ((p + s * k) * (p + s * k))" .
    have "(s - s * k) * Nk / (2 * ((p + s) * (p + s)) * ((p + s * k) * (p + s * k)))
            \<le> (303/700) * (s * K1) * ((p + s * k) * (p + s * k))
                / (2 * ((p + s) * (p + s)) * ((p + s * k) * (p + s * k)))"
      using n ps2 psk by (intro divide_right_mono) auto
    also have "\<dots> = (303/700) * M"
    proof -
      have "p + s * k \<noteq> 0" using p sk by linarith
      then show ?thesis unfolding M_def by simp
    qed
    finally show ?thesis unfolding d .
  qed
  define Gu where "Gu = G u"
  define Nu where "Nu = p * p * (q + s + u) + (2 * p - q) * s * u"
  have Nu_lo: "(99/100) * (p * p * K1) \<le> Nu"
  proof -
    have "(99/100) * K1 = (99/100) * q + (198/100) * s" unfolding K1_def by simp
    then have "(99/100) * K1 \<le> q + s + u" using u_lo q0 s by linarith
    then have "p * p * ((99/100) * K1) \<le> p * p * (q + s + u)"
      using pp by (intro mult_left_mono) auto
    moreover have "0 \<le> (2 * p - q) * s * u" using p qp s u_pos
      by (intro mult_nonneg_nonneg) auto
    ultimately show ?thesis unfolding Nu_def by (simp add: algebra_simps)
  qed
  have L: "(970299/1000000) * eps * M \<le> G1 - Gu"
  proof -
    have d: "G1 - Gu = (s - u) * Nu / (2 * ((p + s) * (p + s)) * ((p + u) * (p + u)))"
      unfolding G1_def Gu_def G_def Nu_def by (rule VolatilityFunction_quotient_diff [OF s u_pos p])
    have pu: "0 < (p + u) * (p + u)" using p u_pos by simp
    have pu_le: "(p + u) * (p + u) \<le> (100/99) * (p * p)"
    proof -
      have "(p + u) * (p + u) \<le> (p + s) * (p + s)" using p u_pos u_le by (intro mult_mono) auto
      with ps_sq show ?thesis by linarith
    qed
    have c0: "0 \<le> (970299/1000000) * eps * (s * K1)" using eps_pos s K1pos by simp
    have "(970299/1000000) * eps * (s * K1) * ((p + u) * (p + u))
            \<le> (970299/1000000) * eps * (s * K1) * ((100/99) * (p * p))"
      using c0 pu_le by (intro mult_left_mono) auto
    also have "\<dots> = ((99/100) * s * eps) * ((99/100) * (p * p * K1))" by simp
    also have "\<dots> \<le> (s - u) * Nu"
      using su Nu_lo s eps_pos ppK u_le by (intro mult_mono) auto
    finally have n: "(970299/1000000) * eps * (s * K1) * ((p + u) * (p + u)) \<le> (s - u) * Nu" .
    have "(970299/1000000) * eps * M
            = (970299/1000000) * eps * (s * K1) * ((p + u) * (p + u))
                / (2 * ((p + s) * (p + s)) * ((p + u) * (p + u)))"
    proof -
      have "p + u \<noteq> 0" using p u_pos by linarith
      then show ?thesis unfolding M_def by simp
    qed
    also have "\<dots> \<le> (s - u) * Nu / (2 * ((p + s) * (p + s)) * ((p + u) * (p + u)))"
      using n ps2 pu by (intro divide_right_mono) auto
    finally show ?thesis unfolding d .
  qed
  have Gu_pos: "0 < Gu" unfolding Gu_def using u_pos by (rule Gpos)
  have Gu_le: "Gu \<le> G1"
  proof -
    have "0 \<le> (970299/1000000) * eps * M" using eps_pos Mpos by simp
    with L show ?thesis by linarith
  qed
  have G1M: "0 \<le> G1 * M" using G1pos Mpos by simp
  have "Gu * (G1 - Gk) \<le> Gu * ((303/700) * M)" using Gu_pos U by (intro mult_left_mono) auto
  also have "\<dots> \<le> G1 * ((303/700) * M)" using Gu_le Mpos by (intro mult_right_mono) auto
  also have "\<dots> = (303/700) * (G1 * M)" by simp
  also have "\<dots> \<le> 2 * ((970299/1000000) * ((99/400) * G1) * M)"
    using G1M by (simp add: algebra_simps)
  also have "\<dots> \<le> 2 * ((970299/1000000) * eps * M)"
  proof -
    have "(970299/1000000) * ((99/400) * G1) * M \<le> (970299/1000000) * eps * M"
      using eps_ge Mpos by (intro mult_right_mono mult_left_mono) auto
    then show ?thesis by simp
  qed
  also have "\<dots> \<le> 2 * (G1 - Gu)" using L by (intro mult_left_mono) simp_all
  finally have key: "Gu * (G1 - Gk) \<le> 2 * (G1 - Gu)" .
  have "Gu * (2 * den) = 2 * (2 * Gu + Gu * (G1 - Gk))" unfolding den_def by (simp add: algebra_simps)
  also have "\<dots> \<le> 2 * (2 * G1)"
  proof -
    from key have "2 * Gu + Gu * (G1 - Gk) \<le> 2 * Gu + 2 * (G1 - Gu)" by (rule add_left_mono)
    also have "\<dots> = 2 * G1" by simp
    finally show ?thesis by simp
  qed
  also have "\<dots> = (4 * eps) * (2 * den)" unfolding eps_G1 [symmetric] by simp
  finally have "Gu * (2 * den) \<le> (4 * eps) * (2 * den)" .
  then have "Gu \<le> 4 * eps" using den_pos by simp
  then have "G (s * exp (- eps)) \<le> 4 * eps" unfolding Gu_def u_def x_def .
  with eps_pos eps_small show ?thesis by simp
qed

lemma VolatilityFunction_quotient:
  "VolatilityFunction x deltaSquared phiSquared v a (kTau * kTau)
     = - (exp x * (phiSquared + v - deltaSquared + exp x)
            / (2 * (phiSquared + v + exp x) * (phiSquared + v + exp x)))
       - 4 * (x - a)"
proof -
  have n: "exp x * (deltaSquared - phiSquared - v - exp x)
             = - (exp x * (phiSquared + v - deltaSquared + exp x))"
    by (simp add: algebra_simps)
  show ?thesis
    unfolding VolatilityFunction_def Let_def kTau_def n by simp
qed

lemma exp_half_ln_square_abs:
  assumes "sigma \<noteq> 0"
  shows "exp (ln (sigma * sigma) / 2) = \<bar>sigma :: real\<bar>"
proof -
  have "sigma * sigma = \<bar>sigma\<bar> * \<bar>sigma\<bar>" by simp
  moreover have "0 < \<bar>sigma\<bar>" using assms by simp
  ultimately show ?thesis using exp_half_ln_square [of "\<bar>sigma\<bar>"] by simp
qed

lemma UpdateVolatility_single_step:
  assumes sigma: "sigma \<noteq> 0" and v: "0 < v"
    and le: "delta * delta \<le> phi * phi + v"
    and small: "sigma * sigma * 1000000 \<le> 6 * (phi * phi + v)"
  shows "UpdateVolatility sigma phi delta v = Some \<bar>sigma\<bar>"
proof -
  define s where "s = sigma * sigma"
  define p where "p = phi * phi + v"
  define q where "q = p - delta * delta"
  define a where "a = ln s"
  define G where "G = (\<lambda>u. u * (q + u) / (2 * (p + u) * (p + u)))"
  define eps where "eps = G s / (2 * (2 - G (s * exp (- (1/2))) + G s))"
  have s: "0 < s" unfolding s_def using sigma by (simp add: power2_eq_square [symmetric])
  have p: "0 < p" unfolding p_def using v by (simp add: add_nonneg_pos)
  have q0: "0 \<le> q" unfolding q_def p_def using le by simp
  have qp: "q \<le> p" unfolding q_def by simp
  have sm: "s * 1000000 \<le> 6 * p" unfolding s_def p_def using small .
  have st: "0 < eps \<and> eps \<le> 1/1000000 \<and> G (s * exp (- eps)) \<le> 4 * eps"
    unfolding eps_def G_def by (rule VolatilityFunction_secant_step [OF s p q0 qp sm])
  have VF: "VolatilityFunction x (delta * delta) (phi * phi) v a (kTau * kTau)
              = - G (exp x) - 4 * (x - a)" for x
    unfolding VolatilityFunction_quotient G_def q_def p_def by simp
  have ea: "exp a = s" unfolding a_def using s by simp
  define fA where "fA = VolatilityFunction a (delta * delta) (phi * phi) v a (kTau * kTau)"
  define fB where "fB = VolatilityFunction (a - kTau) (delta * delta) (phi * phi) v a (kTau * kTau)"
  have fA: "fA = - G s" unfolding fA_def VF ea by simp
  have shift: "exp (a - d) = s * exp (- d)" for d
  proof -
    have "exp (a - d) = exp (a + (- d))" by simp
    also have "\<dots> = exp a * exp (- d)" by (rule exp_add)
    finally show ?thesis unfolding ea .
  qed
  have "fB = - G (exp (a - kTau)) - 4 * (a - kTau - a)" unfolding fB_def by (rule VF)
  also have "exp (a - kTau) = s * exp (- (1/2))"
    using shift [of "1/2"] by (simp add: kTau_def)
  finally have fB: "fB = 2 - G (s * exp (- (1/2)))" by (simp add: kTau_def)
  have fB32: "3/2 \<le> fB"
    unfolding fB_def
    by (rule VolatilityFunction_first_bracket) (use p p_def in simp_all)
  define C where "C = a + (a - (a - kTau)) * fA / (fB - fA)"
  have C: "C = a - eps"
    unfolding C_def fA fB eps_def kTau_def by (simp add: field_simps)
  have "exp (a - eps) = s * exp (- eps)" by (rule shift)
  then have fC: "VolatilityFunction C (delta * delta) (phi * phi) v a (kTau * kTau)
              = 4 * eps - G (s * exp (- eps))"
    unfolding VF C by simp
  have fC0: "0 \<le> VolatilityFunction C (delta * delta) (phi * phi) v a (kTau * kTau)"
    unfolding fC using st by simp
  have prod: "\<not> VolatilityFunction C (delta * delta) (phi * phi) v a (kTau * kTau) * fB < 0"
    using fC0 fB32 by (simp add: not_less mult_nonneg_nonneg)
  have narrow: "\<not> kConvergence < \<bar>C - a\<bar>"
    unfolding C kConvergence_def using st by simp
  have wide: "kConvergence < \<bar>a - kTau - a\<bar>"
    unfolding kConvergence_def kTau_def by simp
  have lits: "(0 / 10 :: real) = 0" "(20 / 10 :: real) = 2" by simp_all
  have second: "UpdateVolatility_illinois a C (fA / 2)
                  (VolatilityFunction C (delta * delta) (phi * phi) v a (kTau * kTau))
                  (delta * delta) (phi * phi) v a (kTau * kTau) = Some a"
    by (subst UpdateVolatility_illinois.simps) (simp only: narrow if_False)
  have first: "UpdateVolatility_illinois a (a - kTau) fA fB
                 (delta * delta) (phi * phi) v a (kTau * kTau) = Some a"
    by (subst UpdateVolatility_illinois.simps)
       (simp only: wide if_True Let_def C_def [symmetric] lits prod if_False second)
  have findB: "UpdateVolatility_findB (a - kTau) (delta * delta) (phi * phi) v a (kTau * kTau)
                 = Some (a - kTau)"
    by (rule UpdateVolatility_findB_first_bracket) (use p p_def in simp_all)
  have "UpdateVolatility sigma phi delta v = Some (exp (a / 2))"
    unfolding UpdateVolatility_def Let_def
    using le findB first
    by (simp add: a_def s_def fA_def fB_def)
  then show ?thesis
    unfolding a_def s_def using exp_half_ln_square_abs [OF sigma] by simp
qed

lemma UpdatePlayerRating_single_step:
  assumes sigma: "GetSigma player \<noteq> 0"
    and g: "g = 1 / sqrt (1 + 3 * (opponentPhi * opponentPhi) / (M_PI * M_PI))"
    and E: "E = ComputeExpectedScore player opponentMu g"
    and v: "v = ComputeVariance g E"
    and delta: "delta = ComputeDelta v g score E"
    and le: "delta * delta \<le> GetPhi player * GetPhi player + v"
    and small: "GetSigma player * GetSigma player * 1000000
                  \<le> 6 * (GetPhi player * GetPhi player + v)"
  shows "\<exists>muPrime.
           UpdatePlayerRating player opponentMu opponentPhi score zScore =
             Some \<lparr>pr_mu = muPrime,
                   pr_phi = UpdateRatingDeviation (GetPhi player) \<bar>GetSigma player\<bar> v,
                   pr_sigma = \<bar>GetSigma player\<bar>, pr_perfIndexEMA = 0, pr_perfGames = 0\<rparr>"
proof -
  have vpos: "0 < v"
    unfolding v E g
    using ComputeExpectedScore_range g_factor_pos by (intro ComputeVariance_pos) auto
  have vol: "UpdateVolatility (GetSigma player) (GetPhi player) (ComputeDelta v g score E) v
               = Some \<bar>GetSigma player\<bar>"
    unfolding delta [symmetric]
    by (rule UpdateVolatility_single_step [OF sigma vpos le small])
  from UpdatePlayerRating_eval [OF g E v vol refl refl refl refl, of zScore]
  show ?thesis by blast
qed

lemma UpdatePlayerRating_favourite_player:
  "UpdatePlayerRating favourite_player 0 0 1 1 = Some favourite_updated"
  unfolding favourite_updated_def
proof (rule UpdatePlayerRating_eval [where g = 1 and E = "999/1000" and v = "1000000/999"
         and muStar = "ln 999 + 2509000/2502506491" and f = "6/5"])
  show "(1::real) = 1 / sqrt (1 + 3 * (0 * 0) / (M_PI * M_PI))" by simp
  show "999/1000 = ComputeExpectedScore favourite_player 0 1"
    unfolding ComputeExpectedScore_def favourite_player_def Let_def
    by (simp add: exp_minus)
  show "1000000/999 = ComputeVariance 1 (999/1000)"
    unfolding ComputeVariance_def Let_def by simp
  show "UpdateVolatility (GetSigma favourite_player) (GetPhi favourite_player)
          (ComputeDelta (1000000/999) 1 1 (999/1000)) (1000000/999) = Some (3/50)"
  proof -
    have "UpdateVolatility (3/50) 1 (1000/999) (1000000/999) = Some \<bar>3/50\<bar>"
      by (rule UpdateVolatility_single_step) simp_all
    then show ?thesis
      by (simp add: favourite_player_def GetSigma_def GetPhi_def ComputeDelta_def)
  qed
  show "1 / sqrt (2502506491/2509000000)
          = UpdateRatingDeviation (GetPhi favourite_player) (3/50) (1000000/999)"
    unfolding UpdateRatingDeviation_def Let_def favourite_player_def GetPhi_def by simp
  have sq: "(1 / sqrt (2502506491/2509000000)) * (1 / sqrt (2502506491/2509000000))
              = (2509000000/2502506491 :: real)"
    by simp
  show "ln 999 + 2509000/2502506491
          = UpdateRatingMean (GetMu favourite_player) (1 / sqrt (2502506491/2509000000)) 1 1
              (999/1000)"
    unfolding UpdateRatingMean_def favourite_player_def GetMu_def using sq by simp
  show "6/5 = ComputeScalingFactor 1 (ln 999 + 2509000/2502506491 - GetMu favourite_player)
                kBeta kScaleMin kScaleMax"
    unfolding ComputeScalingFactor_def Let_def kBeta_def kScaleMin_def kScaleMax_def
      favourite_player_def GetMu_def by simp
  show "ln 999 + 3010800/2502506491 = ClampRatingChange (GetMu favourite_player)
          (GetMu favourite_player + 6/5 * (ln 999 + 2509000/2502506491 - GetMu favourite_player))"
    unfolding ClampRatingChange_def Let_def kMaxRatingChange_def favourite_player_def GetMu_def
    by simp
qed

section \<open>Match engine: mean update and clamp\<close>





section \<open>Match engine: deviation\<close>

lemma sqrt_196_121: "sqrt (196/121) = 14/11"
  by (rule real_sqrt_unique) (simp_all add: power2_eq_square)

lemma g_5pi_11: "1 / sqrt (1 + 3 * ((5 * M_PI / 11) * (5 * M_PI / 11)) / (M_PI * M_PI)) = 11/14"
proof -
  have e: "1 + 3 * ((5 * M_PI / 11) * (5 * M_PI / 11)) / (M_PI * M_PI) = 196/121"
    unfolding M_PI_def by simp
  show ?thesis unfolding e sqrt_196_121 by simp
qed

lemma UpdatePlayerRating_lowRD_player:
  "UpdatePlayerRating lowRD_player 0 (5 * M_PI / 11) 1 0 = Some lowRD_updated"
  unfolding lowRD_updated_def
proof (rule UpdatePlayerRating_eval [where g = "11/14" and E = "99/200" and v = "7840000/1209879"
         and muStar = "5600/109989 - (14/11) * ln (101/99)" and f = 1])
  show "(11/14::real) = 1 / sqrt (1 + 3 * (5 * M_PI / 11 * (5 * M_PI / 11)) / (M_PI * M_PI))"
    by (simp only: g_5pi_11)
  show "99/200 = ComputeExpectedScore lowRD_player 0 (11/14)"
    unfolding ComputeExpectedScore_def lowRD_player_def Let_def by simp
  show "7840000/1209879 = ComputeVariance (11/14) (99/200)"
    unfolding ComputeVariance_def Let_def by simp
  show "UpdateVolatility (GetSigma lowRD_player) (GetPhi lowRD_player)
          (ComputeDelta (7840000/1209879) (11/14) 1 (99/200)) (7840000/1209879) = Some (3/50)"
  proof -
    have "UpdateVolatility (3/50) (sqrt (38121997811/299445052500)) (2800/1089)
            (7840000/1209879) = Some (3/50)"
      by (rule UpdateVolatility_unchanged) simp_all
    then show ?thesis
      by (simp add: lowRD_player_def GetSigma_def GetPhi_def ComputeDelta_def)
  qed
  show "1 / sqrt (122197779/15680000)
          = UpdateRatingDeviation (GetPhi lowRD_player) (3/50) (7840000/1209879)"
    unfolding UpdateRatingDeviation_def Let_def lowRD_player_def GetPhi_def by simp
  have sq: "(1 / sqrt (122197779/15680000)) * (1 / sqrt (122197779/15680000))
              = (15680000/122197779 :: real)"
    by simp
  show "5600/109989 - (14/11) * ln (101/99)
          = UpdateRatingMean (GetMu lowRD_player) (1 / sqrt (122197779/15680000)) (11/14) 1 (99/200)"
    unfolding UpdateRatingMean_def lowRD_player_def GetMu_def using sq by simp
  show "1 = ComputeScalingFactor 0 (5600/109989 - (14/11) * ln (101/99) - GetMu lowRD_player)
              kBeta kScaleMin kScaleMax"
    unfolding ComputeScalingFactor_def Let_def kBeta_def kScaleMin_def kScaleMax_def by simp
  show "5600/109989 - (14/11) * ln (101/99) = ClampRatingChange (GetMu lowRD_player)
          (GetMu lowRD_player + 1 * (5600/109989 - (14/11) * ln (101/99) - GetMu lowRD_player))"
    unfolding ClampRatingChange_def Let_def kMaxRatingChange_def lowRD_player_def GetMu_def
    by simp
qed

lemma lowRD_deviation_grows: "GetPhi lowRD_player < GetPhi lowRD_updated"
proof -
  have "sqrt (38121997811/299445052500) < sqrt (15680000/122197779)"
    by (subst real_sqrt_less_iff) simp
  also have "sqrt (15680000/122197779) = 1 / sqrt (122197779/15680000)"
    by (simp add: real_sqrt_divide)
  finally show ?thesis
    by (simp add: lowRD_player_def lowRD_updated_def GetPhi_def)
qed

text \<open>
  C6, as stated: the deviation emitted by a match update is never greater than the
  pre-match deviation. For the player \<open>lowRD_player\<close> (deviation about \<open>62.0\<close>, volatility
  \<open>0.06\<close>) winning against an aggregate of mean \<open>0\<close> and deviation \<open>5 * M_PI / 11\<close>, with a
  z-score of \<open>0\<close>, \<open>UpdatePlayerRating\<close> returns \<open>lowRD_updated\<close>, whose deviation is greater
  (about \<open>62.2\<close>).
\<close>

theorem UpdatePlayerRating_deviation_increase_counterexample:
  "UpdatePlayerRating lowRD_player 0 (5 * M_PI / 11) 1 0 = Some lowRD_updated \<and>
   GetPhi lowRD_player < GetPhi lowRD_updated"
  using UpdatePlayerRating_lowRD_player lowRD_deviation_grows by simp

lemma UpdateVolatility_pos:
  assumes "UpdateVolatility sigma phi delta v = Some sigmaPrime"
  shows "0 < sigmaPrime"
  using assms unfolding UpdateVolatility_def Let_def
  by (auto split: option.splits if_splits)

lemma UpdateRatingDeviation_bounds:
  assumes "0 < sigmaPrime" and "0 < v"
  shows "0 < UpdateRatingDeviation phi sigmaPrime v"
    and "UpdateRatingDeviation phi sigmaPrime v < sqrt (phi * phi + sigmaPrime * sigmaPrime)"
proof -
  define S where "S = phi * phi + sigmaPrime * sigmaPrime"
  have S: "0 < S" unfolding S_def using assms(1) by (simp add: add_nonneg_pos)
  have eq: "UpdateRatingDeviation phi sigmaPrime v = 1 / sqrt (1 / S + 1 / v)"
    unfolding UpdateRatingDeviation_def Let_def S_def [symmetric] using S by simp
  have pos: "0 < 1 / S + 1 / v" using S assms(2) by (simp add: add_pos_pos)
  show "0 < UpdateRatingDeviation phi sigmaPrime v"
    unfolding eq using pos by simp
  have "1 / S < 1 / S + 1 / v" using assms(2) by simp
  then have "sqrt (1 / S) < sqrt (1 / S + 1 / v)" by simp
  moreover have "0 < sqrt (1 / S)" using S by simp
  ultimately have "1 / sqrt (1 / S + 1 / v) < 1 / sqrt (1 / S)"
    by (simp add: frac_less2)
  also have "1 / sqrt (1 / S) = sqrt S" by (simp add: real_sqrt_divide)
  finally show "UpdateRatingDeviation phi sigmaPrime v < sqrt (phi * phi + sigmaPrime * sigmaPrime)"
    unfolding eq S_def .
qed

lemma UpdateRatingDeviation_le_iff:
  assumes s: "0 < sigmaPrime" and v: "0 < v"
  shows "(UpdateRatingDeviation phi sigmaPrime v \<le> phi) =
         (0 < phi \<and> sigmaPrime * sigmaPrime * v \<le> phi * phi * (phi * phi + sigmaPrime * sigmaPrime))"
proof (cases "0 < phi")
  case False
  then show ?thesis using UpdateRatingDeviation_bounds(1) [OF s v, of phi] by auto
next
  case True
  define S where "S = phi * phi + sigmaPrime * sigmaPrime"
  have S: "0 < S" unfolding S_def using s by (simp add: add_nonneg_pos)
  define x where "x = 1 / S + 1 / v"
  have x: "0 < x" unfolding x_def using S v by (simp add: add_pos_pos)
  have eq: "UpdateRatingDeviation phi sigmaPrime v = 1 / sqrt x"
    unfolding UpdateRatingDeviation_def Let_def S_def [symmetric] x_def using S by simp
  have "(1 / sqrt x \<le> phi) = (1 \<le> phi * sqrt x)"
    using x by (simp add: field_simps)
  also have "phi * sqrt x = sqrt (phi * phi * x)"
    using True by (simp add: real_sqrt_mult)
  also have "(1 \<le> sqrt (phi * phi * x)) = (1 \<le> phi * phi * x)"
    by simp
  also have "\<dots> = (sigmaPrime * sigmaPrime * v \<le> phi * phi * S)"
  proof -
    have "phi * phi * x = (phi * phi * v + phi * phi * S) / (S * v)"
      unfolding x_def using S v by (simp add: field_simps)
    moreover have "0 < S * v" using S v by simp
    ultimately have "(1 \<le> phi * phi * x) = (S * v \<le> phi * phi * v + phi * phi * S)"
      by (simp add: field_simps)
    also have "\<dots> = (sigmaPrime * sigmaPrime * v \<le> phi * phi * S)"
      unfolding S_def by (simp add: algebra_simps)
    finally show ?thesis .
  qed
  finally show ?thesis unfolding eq S_def using True by simp
qed

lemma UpdatePlayerRating_result_deviation:
  assumes "UpdatePlayerRating player opponentMu opponentPhi score zScore = Some r"
  shows "let g = 1 / sqrt (1 + 3 * (opponentPhi * opponentPhi) / (M_PI * M_PI));
             v = ComputeVariance g (ComputeExpectedScore player opponentMu g)
         in 0 < GetSigma r \<and> 0 < GetPhi r \<and>
            GetPhi r \<le> sqrt (GetPhi player * GetPhi player + GetSigma r * GetSigma r) \<and>
            (GetPhi r \<le> GetPhi player) =
              (0 < GetPhi player \<and>
               GetSigma r * GetSigma r * v
                 \<le> GetPhi player * GetPhi player
                     * (GetPhi player * GetPhi player + GetSigma r * GetSigma r))"
proof -
  define g where "g = 1 / sqrt (1 + 3 * (opponentPhi * opponentPhi) / (M_PI * M_PI))"
  define E where "E = ComputeExpectedScore player opponentMu g"
  define v where "v = ComputeVariance g E"
  from assms obtain sigmaPrime where
    vol: "UpdateVolatility (GetSigma player) (GetPhi player) (ComputeDelta v g score E) v
            = Some sigmaPrime"
    and phi: "GetPhi r = UpdateRatingDeviation (GetPhi player) sigmaPrime v"
    and sig: "GetSigma r = sigmaPrime"
    unfolding UpdatePlayerRating_def Let_def g_def E_def v_def
    by (auto split: option.splits simp: GetPhi_def GetSigma_def SetSigma_def SetPhi_def SetMu_def)
  have sp: "0 < sigmaPrime" using vol by (rule UpdateVolatility_pos)
  have v: "0 < v"
    unfolding v_def E_def g_def
    using ComputeExpectedScore_range g_factor_pos by (intro ComputeVariance_pos) auto
  have "0 < GetSigma r \<and> 0 < GetPhi r \<and>
        GetPhi r \<le> sqrt (GetPhi player * GetPhi player + GetSigma r * GetSigma r) \<and>
        (GetPhi r \<le> GetPhi player) =
          (0 < GetPhi player \<and>
           GetSigma r * GetSigma r * v
             \<le> GetPhi player * GetPhi player
                 * (GetPhi player * GetPhi player + GetSigma r * GetSigma r))"
    unfolding phi sig
    using sp UpdateRatingDeviation_bounds [OF sp v, of "GetPhi player"]
      UpdateRatingDeviation_le_iff [OF sp v, of "GetPhi player"]
    by simp
  then show ?thesis
    unfolding Let_def v_def E_def g_def .
qed


text \<open>
  C6, amended: for every player with non-zero volatility and every rating that a match
  update returns for that player, the new volatility and the new deviation are positive, and
  the new deviation is at most \<open>sqrt (deviation\<^sup>2 + sigmaPrime\<^sup>2)\<close>, the pre-match deviation
  widened by the new volatility \<open>sigmaPrime\<close>. It is at most the pre-match deviation exactly
  when the pre-match deviation is positive and
  \<open>sigmaPrime\<^sup>2 * v \<le> deviation\<^sup>2 * (deviation\<^sup>2 + sigmaPrime\<^sup>2)\<close>, with \<open>v\<close> the variance of the
  update; otherwise the match update increases it. Whenever \<open>delta\<^sup>2 \<le> deviation\<^sup>2 + v\<close> and
  \<open>sigma\<^sup>2 * 10\<^sup>6 \<le> 6 * (deviation\<^sup>2 + v)\<close>, the update returns, with the volatility
  \<open>\<bar>sigma\<bar>\<close> and the deviation \<open>1 / sqrt (1 / (deviation\<^sup>2 + sigma\<^sup>2) + 1 / v)\<close>.
\<close>

theorem UpdatePlayerRating_deviation_bound:
  assumes "GetSigma player \<noteq> 0"
  shows "let g = 1 / sqrt (1 + 3 * (opponentPhi * opponentPhi) / (M_PI * M_PI));
             E = ComputeExpectedScore player opponentMu g;
             v = ComputeVariance g E;
             delta = ComputeDelta v g score E;
             result = UpdatePlayerRating player opponentMu opponentPhi score zScore
         in (\<forall>r. result = Some r \<longrightarrow>
               0 < GetSigma r \<and> 0 < GetPhi r \<and>
               GetPhi r \<le> sqrt (GetPhi player * GetPhi player + GetSigma r * GetSigma r) \<and>
               (GetPhi r \<le> GetPhi player) =
                 (0 < GetPhi player \<and>
                  GetSigma r * GetSigma r * v
                    \<le> GetPhi player * GetPhi player
                        * (GetPhi player * GetPhi player + GetSigma r * GetSigma r))) \<and>
            (delta * delta \<le> GetPhi player * GetPhi player + v \<and>
             GetSigma player * GetSigma player * 1000000
               \<le> 6 * (GetPhi player * GetPhi player + v)
             \<longrightarrow> (\<exists>r. result = Some r \<and> GetSigma r = \<bar>GetSigma player\<bar> \<and>
                       GetPhi r = 1 / sqrt (1 / (GetPhi player * GetPhi player
                                                  + GetSigma player * GetSigma player)
                                            + 1 / v)))"
proof -
  define g where "g = 1 / sqrt (1 + 3 * (opponentPhi * opponentPhi) / (M_PI * M_PI))"
  define E where "E = ComputeExpectedScore player opponentMu g"
  define v where "v = ComputeVariance g E"
  define delta where "delta = ComputeDelta v g score E"
  define result where "result = UpdatePlayerRating player opponentMu opponentPhi score zScore"
  have bound: "\<forall>r. result = Some r \<longrightarrow>
               0 < GetSigma r \<and> 0 < GetPhi r \<and>
               GetPhi r \<le> sqrt (GetPhi player * GetPhi player + GetSigma r * GetSigma r) \<and>
               (GetPhi r \<le> GetPhi player) =
                 (0 < GetPhi player \<and>
                  GetSigma r * GetSigma r * v
                    \<le> GetPhi player * GetPhi player
                        * (GetPhi player * GetPhi player + GetSigma r * GetSigma r))"
    unfolding result_def v_def E_def g_def
    using UpdatePlayerRating_result_deviation [of player opponentMu opponentPhi score zScore]
    by (simp only: Let_def) blast
  have one_step: "delta * delta \<le> GetPhi player * GetPhi player + v \<and>
             GetSigma player * GetSigma player * 1000000
               \<le> 6 * (GetPhi player * GetPhi player + v)
             \<longrightarrow> (\<exists>r. result = Some r \<and> GetSigma r = \<bar>GetSigma player\<bar> \<and>
                       GetPhi r = 1 / sqrt (1 / (GetPhi player * GetPhi player
                                                  + GetSigma player * GetSigma player)
                                            + 1 / v))"
  proof
    assume k: "delta * delta \<le> GetPhi player * GetPhi player + v \<and>
               GetSigma player * GetSigma player * 1000000
                 \<le> 6 * (GetPhi player * GetPhi player + v)"
    from UpdatePlayerRating_single_step
           [OF assms g_def E_def v_def delta_def conjunct1 [OF k] conjunct2 [OF k],
            of zScore]
    obtain muPrime where
      r: "result = Some \<lparr>pr_mu = muPrime,
                   pr_phi = UpdateRatingDeviation (GetPhi player) \<bar>GetSigma player\<bar> v,
                   pr_sigma = \<bar>GetSigma player\<bar>, pr_perfIndexEMA = 0, pr_perfGames = 0\<rparr>"
      unfolding result_def by blast
    have pos: "0 < GetPhi player * GetPhi player + GetSigma player * GetSigma player"
      using assms by (simp add: add_nonneg_pos power2_eq_square [symmetric])
    have "UpdateRatingDeviation (GetPhi player) \<bar>GetSigma player\<bar> v
            = 1 / sqrt (1 / (GetPhi player * GetPhi player + GetSigma player * GetSigma player)
                        + 1 / v)"
      unfolding UpdateRatingDeviation_def Let_def using pos by simp
    with r show "\<exists>r. result = Some r \<and> GetSigma r = \<bar>GetSigma player\<bar> \<and>
                   GetPhi r = 1 / sqrt (1 / (GetPhi player * GetPhi player
                                              + GetSigma player * GetSigma player)
                                        + 1 / v)"
      by (simp add: GetSigma_def GetPhi_def)
  qed
  from bound one_step show ?thesis
    unfolding Let_def result_def delta_def v_def E_def g_def by (intro conjI)
qed

lemma favourite_deviation_grows: "GetPhi favourite_player < GetPhi favourite_updated"
proof -
  have "sqrt (2502506491/2509000000) < sqrt 1"
    by (subst real_sqrt_less_iff) simp
  then have "sqrt (2502506491/2509000000) < 1" by simp
  moreover have "0 < sqrt (2502506491/2509000000)" by simp
  ultimately have "1 < 1 / sqrt (2502506491/2509000000)"
    by (simp add: field_simps)
  then show ?thesis by (simp add: favourite_player_def favourite_updated_def GetPhi_def)
qed

theorem UpdatePlayerRating_deviation_bound_witness:
  "let g = 1 / sqrt (1 + 3 * (0 * 0) / (M_PI * M_PI));
       E = ComputeExpectedScore favourite_player 0 g;
       v = ComputeVariance g E;
       delta = ComputeDelta v g 1 E
   in GetSigma favourite_player \<noteq> 0 \<and>
      delta * delta \<le> GetPhi favourite_player * GetPhi favourite_player + v \<and>
      GetSigma favourite_player * GetSigma favourite_player * 1000000
        \<le> 6 * (GetPhi favourite_player * GetPhi favourite_player + v) \<and>
      UpdatePlayerRating favourite_player 0 0 1 1 = Some favourite_updated \<and>
      GetSigma favourite_updated = \<bar>GetSigma favourite_player\<bar> \<and>
      GetPhi favourite_updated
        = 1 / sqrt (1 / (GetPhi favourite_player * GetPhi favourite_player
                           + GetSigma favourite_player * GetSigma favourite_player)
                    + 1 / v) \<and>
      0 < GetPhi favourite_updated \<and>
      GetPhi favourite_updated
        \<le> sqrt (GetPhi favourite_player * GetPhi favourite_player
                 + GetSigma favourite_updated * GetSigma favourite_updated) \<and>
      GetPhi favourite_player < GetPhi favourite_updated \<and>
      \<not> (GetSigma favourite_updated * GetSigma favourite_updated * v
           \<le> GetPhi favourite_player * GetPhi favourite_player
               * (GetPhi favourite_player * GetPhi favourite_player
                  + GetSigma favourite_updated * GetSigma favourite_updated))"
proof -
  have s: "GetSigma favourite_player \<noteq> 0" by (simp add: favourite_player_def GetSigma_def)
  have e: "UpdatePlayerRating favourite_player 0 0 1 1 = Some favourite_updated"
    by (rule UpdatePlayerRating_favourite_player)
  have g: "1 / sqrt (1 + 3 * (0 * 0) / (M_PI * M_PI)) = (1::real)" by simp
  have E: "ComputeExpectedScore favourite_player 0 1 = 999/1000"
    unfolding ComputeExpectedScore_def favourite_player_def Let_def by (simp add: exp_minus)
  have v: "ComputeVariance 1 (999/1000) = 1000000/999"
    unfolding ComputeVariance_def Let_def by simp
  have d: "ComputeDelta (1000000/999) 1 1 (999/1000) = 1000/999"
    unfolding ComputeDelta_def by simp
  have k: "(1000/999) * (1000/999) \<le> GetPhi favourite_player * GetPhi favourite_player + 1000000/999 \<and>
           GetSigma favourite_player * GetSigma favourite_player * 1000000
             \<le> 6 * (GetPhi favourite_player * GetPhi favourite_player + 1000000/999)"
    by (simp add: favourite_player_def GetSigma_def GetPhi_def)
  have grows: "\<not> GetPhi favourite_updated \<le> GetPhi favourite_player"
    using favourite_deviation_grows by simp
  have phi0: "0 < GetPhi favourite_player" by (simp add: favourite_player_def GetPhi_def)
  note T = UpdatePlayerRating_deviation_bound [OF s, of 0 0 1 1, unfolded Let_def g E v d]
  from T e have p: "0 < GetPhi favourite_updated"
    and w: "GetPhi favourite_updated
              \<le> sqrt (GetPhi favourite_player * GetPhi favourite_player
                       + GetSigma favourite_updated * GetSigma favourite_updated)"
    and c: "(GetPhi favourite_updated \<le> GetPhi favourite_player) =
              (0 < GetPhi favourite_player \<and>
               GetSigma favourite_updated * GetSigma favourite_updated * (1000000/999)
                 \<le> GetPhi favourite_player * GetPhi favourite_player
                     * (GetPhi favourite_player * GetPhi favourite_player
                        + GetSigma favourite_updated * GetSigma favourite_updated))"
    by blast+
  from c grows phi0
  have n: "\<not> (GetSigma favourite_updated * GetSigma favourite_updated * (1000000/999)
                 \<le> GetPhi favourite_player * GetPhi favourite_player
                     * (GetPhi favourite_player * GetPhi favourite_player
                        + GetSigma favourite_updated * GetSigma favourite_updated))"
    by blast
  from T k e have "\<exists>r. Some favourite_updated = Some r \<and>
                     GetSigma r = \<bar>GetSigma favourite_player\<bar> \<and>
                     GetPhi r = 1 / sqrt (1 / (GetPhi favourite_player * GetPhi favourite_player
                                                + GetSigma favourite_player * GetSigma favourite_player)
                                          + 1 / (1000000/999))"
    by (simp only: simp_thms)
  then have x: "GetSigma favourite_updated = \<bar>GetSigma favourite_player\<bar>"
    and y: "GetPhi favourite_updated
              = 1 / sqrt (1 / (GetPhi favourite_player * GetPhi favourite_player
                                 + GetSigma favourite_player * GetSigma favourite_player)
                          + 1 / (1000000/999))"
    by auto
  from s k e x y p w favourite_deviation_grows n show ?thesis
    unfolding Let_def g E v d by (intro conjI) (simp_all only: simp_thms)
qed

section \<open>Match engine: updates from the pre-match snapshot\<close>

lemma those_map_cong_upt:
  assumes "\<And>j. i \<le> j \<Longrightarrow> j < n \<Longrightarrow> f j = g j"
  shows "those (map f [i ..< n]) = those (map g [i ..< n])"
proof -
  have "map f [i ..< n] = map g [i ..< n]" using assms by simp
  then show ?thesis by (rule arg_cong)
qed

lemma ProcessMatch_updateTeam_snapshot_from:
  "i \<le> length team \<Longrightarrow>
   ProcessMatch_updateTeam i team statsOpp score weights =
     map_option (\<lambda>ys. take i team @ ys)
       (those (map (ProcessMatch_snapshotPlayer team statsOpp score weights) [i ..< length team]))"
proof (induction i team statsOpp score weights rule: ProcessMatch_updateTeam.induct)
  case (1 i team statsOpp score weights)
  show ?case
  proof (cases "i < length team")
    case False
    with "1.prems" have "i = length team" by simp
    then show ?thesis by (subst ProcessMatch_updateTeam.simps) simp
  next
    case True
    let ?u = "UpdatePlayerRating (mp_rating (team ! i)) (ts_mu statsOpp) (ts_phi statsOpp) score
                (pw_zScore (weights ! i))"
    have upt: "[i ..< length team] = i # [Suc i ..< length team]"
      using True by (simp add: upt_conv_Cons)
    show ?thesis
    proof (cases ?u)
      case None
      then show ?thesis
        using True
        by (subst ProcessMatch_updateTeam.simps)
           (simp add: upt ProcessMatch_snapshotPlayer_def)
    next
      case (Some r)
      let ?team' = "team[i := (team ! i)\<lparr>mp_rating := r\<rparr>]"
      have IH: "ProcessMatch_updateTeam (i + 1) ?team' statsOpp score weights =
                  map_option (\<lambda>ys. take (i + 1) ?team' @ ys)
                    (those (map (ProcessMatch_snapshotPlayer ?team' statsOpp score weights)
                              [i + 1 ..< length ?team']))"
        using "1.IH" [OF True Some] True by simp
      have same: "those (map (ProcessMatch_snapshotPlayer ?team' statsOpp score weights)
                           [Suc i ..< length team])
                  = those (map (ProcessMatch_snapshotPlayer team statsOpp score weights)
                           [Suc i ..< length team])"
        by (rule those_map_cong_upt) (simp add: ProcessMatch_snapshotPlayer_def)
      have tk: "take (Suc i) ?team' = take i team @ [(team ! i)\<lparr>mp_rating := r\<rparr>]"
        using True by (simp add: take_Suc_conv_app_nth)
      have "ProcessMatch_updateTeam i team statsOpp score weights =
              ProcessMatch_updateTeam (i + 1) ?team' statsOpp score weights"
        using True Some by (subst ProcessMatch_updateTeam.simps) simp
      also have "\<dots> = map_option ((@) (take i team @ [(team ! i)\<lparr>mp_rating := r\<rparr>]))
                    (those (map (ProcessMatch_snapshotPlayer team statsOpp score weights)
                              [Suc i ..< length team]))"
        unfolding IH using same tk by simp
      also have "\<dots> = map_option ((@) (take i team))
                    (map_option ((#) ((team ! i)\<lparr>mp_rating := r\<rparr>))
                       (those (map (ProcessMatch_snapshotPlayer team statsOpp score weights)
                              [Suc i ..< length team])))"
      proof -
        have "(@) (take i team @ [(team ! i)\<lparr>mp_rating := r\<rparr>])
                = (@) (take i team) \<circ> (#) ((team ! i)\<lparr>mp_rating := r\<rparr>)"
          by (rule ext) simp
        then show ?thesis by (simp add: option.map_comp)
      qed
      also have "\<dots> = map_option ((@) (take i team))
                    (those (map (ProcessMatch_snapshotPlayer team statsOpp score weights)
                              [i ..< length team]))"
        unfolding upt using Some
        by (simp add: ProcessMatch_snapshotPlayer_def)
      finally show ?thesis .
    qed
  qed
qed

lemma ProcessMatch_updateTeam_snapshot:
  "ProcessMatch_updateTeam 0 team statsOpp score weights =
     ProcessMatch_snapshotTeam team statsOpp score weights"
  using ProcessMatch_updateTeam_snapshot_from [of 0 team statsOpp score weights]
  by (simp add: ProcessMatch_snapshotTeam_def option.map_ident)

text \<open>
  C10: \<open>ProcessMatch\<close>, whose loops overwrite the ratings of team A and then those of team B
  in place, gives every participant the rating computed from the pre-match rosters: both
  aggregates and both z-score lists are those of the match as it was passed in, so team B is
  updated against team A's pre-match aggregate; and running the two loops in the other
  order gives the same result (including whether there is a result at all).
\<close>

theorem ProcessMatch_uses_prematch_snapshot:
  "ProcessMatch match = ProcessMatch_fromSnapshot match \<and>
   ProcessMatch_teamBFirst match = ProcessMatch match"
  unfolding ProcessMatch_def ProcessMatch_fromSnapshot_def ProcessMatch_teamBFirst_def Let_def
    ProcessMatch_updateTeam_snapshot
  by (auto split: option.splits)

section \<open>Empty rosters and pools of fewer than two players\<close>

lemma ComputeTeamStats_empty: "ComputeTeamStats [] = TeamRatingStats_default"
  unfolding ComputeTeamStats_def TeamRatingStats_default_def Let_def by simp

lemma ComputeZScores_empty: "ComputeZScores [] = []"
  unfolding ComputeZScores_def by simp

lemma ProcessMatch_updateTeam_empty: "ProcessMatch_updateTeam 0 [] statsOpp score weights = Some []"
  by (subst ProcessMatch_updateTeam.simps) simp

lemma ComputeZScores_single: "ComputeZScores [p] = [\<lparr>pw_playerIndex = 0, pw_performanceScore = p, pw_zScore = 0\<rparr>]"
  unfolding ComputeZScores_def ComputeMean_def ComputeStdDev_def ComputeZScore_def Let_def
  by simp

lemma ProcessMatch_teamA_empty:
  assumes "mr_teamA match = []"
  shows "ProcessMatch match =
        map_option (\<lambda>teamB'. match\<lparr>mr_teamB := teamB'\<rparr>)
          (ProcessMatch_updateTeam 0 (mr_teamB match) \<lparr>ts_mu = 0, ts_phi = 0, ts_teamSize = 0\<rparr>
             (mr_scoreB match) (ComputeZScores (map mp_performanceScore (mr_teamB match))))"
  unfolding ProcessMatch_def Let_def
  using assms
  by (simp add: ComputeTeamStats_empty TeamRatingStats_default_def ProcessMatch_updateTeam_empty
        split: option.splits)

lemma ProcessMatch_teamB_empty:
  assumes "mr_teamB match = []"
  shows "ProcessMatch match =
        map_option (\<lambda>teamA'. match\<lparr>mr_teamA := teamA'\<rparr>)
          (ProcessMatch_updateTeam 0 (mr_teamA match) \<lparr>ts_mu = 0, ts_phi = 0, ts_teamSize = 0\<rparr>
             (mr_scoreA match) (ComputeZScores (map mp_performanceScore (mr_teamA match))))"
  unfolding ProcessMatch_def Let_def
  using assms
  by (simp add: ComputeTeamStats_empty TeamRatingStats_default_def ProcessMatch_updateTeam_empty
        split: option.splits)

lemma ProcessMatch_updateTeam_single:
  assumes "UpdatePlayerRating (mp_rating p) (ts_mu statsOpp) (ts_phi statsOpp) score (pw_zScore w)
             = Some r"
  shows "ProcessMatch_updateTeam 0 [p] statsOpp score [w] = Some [p\<lparr>mp_rating := r\<rparr>]"
  using assms
  by (subst ProcessMatch_updateTeam.simps, subst ProcessMatch_updateTeam.simps) simp

lemma ProcessMatch_empty_teamA_example:
  "ProcessMatch \<lparr>mr_teamA = [],
                 mr_teamB = [\<lparr>mp_rating = witness_player, mp_performanceScore = 10\<rparr>],
                 mr_scoreA = 0, mr_scoreB = 1\<rparr>
     = Some \<lparr>mr_teamA = [],
             mr_teamB = [\<lparr>mp_rating = \<lparr>pr_mu = 5/6 - ln (3/2), pr_phi = 1 / sqrt (18/25),
                                       pr_sigma = 3/50, pr_perfIndexEMA = 0, pr_perfGames = 0\<rparr>,
                          mp_performanceScore = 10\<rparr>],
             mr_scoreA = 0, mr_scoreB = 1\<rparr>"
proof -
  have u: "UpdatePlayerRating witness_player 0 0 1 0
             = Some \<lparr>pr_mu = 5/6 - ln (3/2), pr_phi = 1 / sqrt (18/25),
                     pr_sigma = 3/50, pr_perfIndexEMA = 0, pr_perfGames = 0\<rparr>"
    using UpdatePlayerRating_witness_player [of 0] by simp
  have "ProcessMatch_updateTeam 0 [\<lparr>mp_rating = witness_player, mp_performanceScore = 10\<rparr>]
             \<lparr>ts_mu = 0, ts_phi = 0, ts_teamSize = 0\<rparr> 1
             [\<lparr>pw_playerIndex = 0, pw_performanceScore = 10, pw_zScore = 0\<rparr>]
           = Some [\<lparr>mp_rating = witness_player, mp_performanceScore = 10\<rparr>
                     \<lparr>mp_rating := \<lparr>pr_mu = 5/6 - ln (3/2), pr_phi = 1 / sqrt (18/25),
                                     pr_sigma = 3/50, pr_perfIndexEMA = 0, pr_perfGames = 0\<rparr>\<rparr>]"
    by (rule ProcessMatch_updateTeam_single) (simp add: u)
  then have t: "ProcessMatch_updateTeam 0 [\<lparr>mp_rating = witness_player, mp_performanceScore = 10\<rparr>]
             \<lparr>ts_mu = 0, ts_phi = 0, ts_teamSize = 0\<rparr> 1
             [\<lparr>pw_playerIndex = 0, pw_performanceScore = 10, pw_zScore = 0\<rparr>]
           = Some [\<lparr>mp_rating = \<lparr>pr_mu = 5/6 - ln (3/2), pr_phi = 1 / sqrt (18/25),
                                   pr_sigma = 3/50, pr_perfIndexEMA = 0, pr_perfGames = 0\<rparr>,
                     mp_performanceScore = 10\<rparr>]"
    by simp
  show ?thesis
    by (subst ProcessMatch_teamA_empty) (simp_all add: ComputeZScores_single t)
qed

lemma BalanceTeams_small_pool:
  "length players < 2 \<Longrightarrow>
     BalanceTeams players config = TeamAssignment_default\<lparr>ta_objectiveValue := 0\<rparr>"
  unfolding BalanceTeams_def by simp

text \<open>
  C5, as stated: an empty roster given to team aggregation or to match processing, and a pool
  of fewer than two players given to the balancer, are rejected with an error. No function
  of the source raises or returns an error; each of the three returns a value. For the empty
  roster \<open>ComputeTeamStats\<close> returns the aggregate \<open>(0, 0)\<close> of size \<open>0\<close>; \<open>ProcessMatch\<close> with
  an empty team A updates the one player of team B against that aggregate; \<open>BalanceTeams\<close>
  on a pool of one player returns a default-constructed assignment with objective \<open>0\<close>.
\<close>

theorem empty_roster_not_rejected_counterexample:
  "ComputeTeamStats [] = \<lparr>ts_mu = 0, ts_phi = 0, ts_teamSize = 0\<rparr> \<and>
   ProcessMatch \<lparr>mr_teamA = [],
                 mr_teamB = [\<lparr>mp_rating = witness_player, mp_performanceScore = 10\<rparr>],
                 mr_scoreA = 0, mr_scoreB = 1\<rparr>
     = Some \<lparr>mr_teamA = [],
             mr_teamB = [\<lparr>mp_rating = \<lparr>pr_mu = 5/6 - ln (3/2), pr_phi = 1 / sqrt (18/25),
                                       pr_sigma = 3/50, pr_perfIndexEMA = 0, pr_perfGames = 0\<rparr>,
                          mp_performanceScore = 10\<rparr>],
             mr_scoreA = 0, mr_scoreB = 1\<rparr> \<and>
   BalanceTeams [PlayerInfo_new 1 PlayerRating_default] BalancerConfig_default
     = TeamAssignment_default\<lparr>ta_objectiveValue := 0\<rparr>"
  using ProcessMatch_empty_teamA_example
  by (simp add: ComputeTeamStats_empty TeamRatingStats_default_def BalanceTeams_small_pool)

text \<open>
  C5, amended: an empty roster is not rejected. \<open>ComputeTeamStats\<close> returns for it the
  sentinel aggregate with mean \<open>0\<close>, deviation \<open>0\<close> and size \<open>0\<close>; \<open>ProcessMatch\<close> on a match
  with an empty roster leaves that roster empty and updates the other roster against the
  sentinel aggregate, and returns the match unchanged when both rosters are empty; and
  \<open>BalanceTeams\<close> on a pool of fewer than two players returns a default-constructed
  \<open>TeamAssignment\<close> (no player ids) whose objective value is \<open>0\<close>.
\<close>

theorem empty_roster_and_small_pool_return_sentinels:
  "ComputeTeamStats [] = \<lparr>ts_mu = 0, ts_phi = 0, ts_teamSize = 0\<rparr> \<and>
   (length players < 2 \<longrightarrow>
      BalanceTeams players config = TeamAssignment_default\<lparr>ta_objectiveValue := 0\<rparr>) \<and>
   (mr_teamA match = [] \<longrightarrow>
      ProcessMatch match =
        map_option (\<lambda>teamB'. match\<lparr>mr_teamB := teamB'\<rparr>)
          (ProcessMatch_updateTeam 0 (mr_teamB match) \<lparr>ts_mu = 0, ts_phi = 0, ts_teamSize = 0\<rparr>
             (mr_scoreB match) (ComputeZScores (map mp_performanceScore (mr_teamB match))))) \<and>
   (mr_teamB match = [] \<longrightarrow>
      ProcessMatch match =
        map_option (\<lambda>teamA'. match\<lparr>mr_teamA := teamA'\<rparr>)
          (ProcessMatch_updateTeam 0 (mr_teamA match) \<lparr>ts_mu = 0, ts_phi = 0, ts_teamSize = 0\<rparr>
             (mr_scoreA match) (ComputeZScores (map mp_performanceScore (mr_teamA match))))) \<and>
   (mr_teamA match = [] \<and> mr_teamB match = [] \<longrightarrow> ProcessMatch match = Some match)"
proof -
  have stats: "ComputeTeamStats [] = \<lparr>ts_mu = 0, ts_phi = 0, ts_teamSize = 0\<rparr>"
    by (simp add: ComputeTeamStats_empty TeamRatingStats_default_def)
  have c: "ProcessMatch match = Some match" if "mr_teamA match = []" "mr_teamB match = []"
    using ProcessMatch_teamA_empty [OF that(1)] that by (simp add: ProcessMatch_updateTeam_empty)
  show ?thesis
    using stats BalanceTeams_small_pool ProcessMatch_teamA_empty ProcessMatch_teamB_empty c
    by blast
qed

theorem empty_roster_and_small_pool_return_sentinels_witness:
  "ComputeTeamStats [] = \<lparr>ts_mu = 0, ts_phi = 0, ts_teamSize = 0\<rparr> \<and>
   BalanceTeams [] BalancerConfig_default = TeamAssignment_default\<lparr>ta_objectiveValue := 0\<rparr> \<and>
   BalanceTeams [PlayerInfo_new 7 PlayerRating_default] BalancerConfig_default
     = TeamAssignment_default\<lparr>ta_objectiveValue := 0\<rparr> \<and>
   ProcessMatch \<lparr>mr_teamA = [], mr_teamB = [], mr_scoreA = 1, mr_scoreB = 0\<rparr>
     = Some \<lparr>mr_teamA = [], mr_teamB = [], mr_scoreA = 1, mr_scoreB = 0\<rparr>"
  using empty_roster_and_small_pool_return_sentinels
          [of "[]" BalancerConfig_default
              "\<lparr>mr_teamA = [], mr_teamB = [], mr_scoreA = 1, mr_scoreB = 0\<rparr>"]
        empty_roster_and_small_pool_return_sentinels
          [of "[PlayerInfo_new 7 PlayerRating_default]" BalancerConfig_default
              "\<lparr>mr_teamA = [], mr_teamB = [], mr_scoreA = 1, mr_scoreB = 0\<rparr>"]
  by simp

section \<open>Team balancer: the search as a fold over its candidates\<close>

lemma examined_Nil: "examinedCandidates players config [] st = st"
  by (simp add: examinedCandidates_def)

lemma examined_exhausted:
  "bc_maxCombinationsToTry config \<le> snd st \<Longrightarrow> examinedCandidates players config cs st = st"
  by (simp add: examinedCandidates_def)

lemma examined_single:
  "\<not> bc_maxCombinationsToTry config \<le> snd st \<Longrightarrow>
   examinedCandidates players config [c] st
     = (GenerateCombinations_baseCase players config c (fst st), snd st + 1)"
  by (simp add: examinedCandidates_def Let_def take_Cons')

lemma examined_append:
  "examinedCandidates players config (cs1 @ cs2) st =
     (if bc_maxCombinationsToTry config \<le> snd (examinedCandidates players config cs1 st)
      then examinedCandidates players config cs1 st
      else examinedCandidates players config cs2 (examinedCandidates players config cs1 st))"
proof -
  define k where "k = nat (bc_maxCombinationsToTry config - snd st)"
  show ?thesis
  proof (cases "k \<le> length cs1")
    case True
    then have "bc_maxCombinationsToTry config \<le> snd (examinedCandidates players config cs1 st)"
      unfolding examinedCandidates_def Let_def k_def by (simp add: min_def)
    moreover have "examinedCandidates players config (cs1 @ cs2) st = examinedCandidates players config cs1 st"
      using True unfolding examinedCandidates_def Let_def k_def by simp
    ultimately show ?thesis by simp
  next
    case False
    then have lt: "length cs1 < k" by simp
    have e1: "examinedCandidates players config cs1 st =
                (fold (GenerateCombinations_baseCase players config) cs1 (fst st),
                 snd st + int (length cs1))"
      using lt unfolding examinedCandidates_def Let_def k_def by simp
    have notex: "\<not> bc_maxCombinationsToTry config \<le> snd (examinedCandidates players config cs1 st)"
      unfolding e1 using lt unfolding k_def by simp
    have k': "nat (bc_maxCombinationsToTry config - (snd st + int (length cs1))) = k - length cs1"
      unfolding k_def by simp
    have "examinedCandidates players config (cs1 @ cs2) st =
            examinedCandidates players config cs2 (examinedCandidates players config cs1 st)"
      unfolding e1 unfolding examinedCandidates_def Let_def
      using lt by (simp add: k' k_def [symmetric])
    then show ?thesis using notex by simp
  qed
qed

lemma GenerateCombinations_examined:
  "GenerateCombinations players config teamSize startIndex currentTeam0 st =
     examinedCandidates players config
       (GenerateCombinations_candidates (length players) (bc_separateTopPlayers config)
          teamSize startIndex currentTeam0) st"
  and GenerateCombinations_for_examined:
  "GenerateCombinations_for players config teamSize i currentTeam0 st =
     examinedCandidates players config
       (GenerateCombinations_for_candidates (length players) (bc_separateTopPlayers config)
          teamSize i currentTeam0) st"
proof (induction players config teamSize startIndex currentTeam0 st
         and players config teamSize i currentTeam0 st
       rule: GenerateCombinations_GenerateCombinations_for.induct)
  case (1 players config teamSize startIndex currentTeam0 st)
  show ?case
  proof (cases "bc_maxCombinationsToTry config \<le> snd st")
    case True
    then show ?thesis
      by (subst GenerateCombinations.simps) (simp add: examined_exhausted)
  next
    case notex: False
    show ?thesis
    proof (cases "length currentTeam0 = teamSize")
      case True
      then show ?thesis
        using notex
        by (subst GenerateCombinations.simps, subst GenerateCombinations_candidates.simps)
           (simp add: examined_single)
    next
      case False
      show ?thesis
      proof (cases "int (length players) - int startIndex < int teamSize - int (length currentTeam0)")
        case True
        then show ?thesis
          using notex False
          by (subst GenerateCombinations.simps, subst GenerateCombinations_candidates.simps)
             (simp add: examined_Nil)
      next
        case enough: False
        have "GenerateCombinations players config teamSize startIndex currentTeam0 st =
                GenerateCombinations_for players config teamSize startIndex currentTeam0 st"
          using notex False enough by (subst GenerateCombinations.simps) simp
        also have "\<dots> = examinedCandidates players config
              (GenerateCombinations_for_candidates (length players) (bc_separateTopPlayers config)
                 teamSize startIndex currentTeam0) st"
          using "1.IH" [OF notex False refl refl enough] .
        also have "GenerateCombinations_for_candidates (length players) (bc_separateTopPlayers config)
                 teamSize startIndex currentTeam0
              = GenerateCombinations_candidates (length players) (bc_separateTopPlayers config)
                 teamSize startIndex currentTeam0"
          using False enough by (subst GenerateCombinations_candidates.simps) simp
        finally show ?thesis .
      qed
    qed
  qed
next
  case (2 players config teamSize i currentTeam0 st)
  show ?case
  proof (cases "i < length players")
    case False
    then show ?thesis
      by (subst GenerateCombinations_for.simps, subst GenerateCombinations_for_candidates.simps)
         (simp add: examined_Nil)
  next
    case True
    let ?skip = "bc_separateTopPlayers config \<and> 0 < length currentTeam0 \<and>
                 (0 \<in> set currentTeam0 \<and> i = 1 \<or> 1 \<in> set currentTeam0 \<and> i = 0)"
    show ?thesis
    proof (cases ?skip)
      case skip: True
      have "GenerateCombinations_for players config teamSize i currentTeam0 st =
              GenerateCombinations_for players config teamSize (i + 1) currentTeam0 st"
        by (subst GenerateCombinations_for.simps) (simp only: True skip if_True simp_thms)
      also have "\<dots> = examinedCandidates players config
              (GenerateCombinations_for_candidates (length players) (bc_separateTopPlayers config)
                 teamSize (i + 1) currentTeam0) st"
        using "2.IH"(1) [OF True skip] .
      also have "GenerateCombinations_for_candidates (length players) (bc_separateTopPlayers config)
                 teamSize (i + 1) currentTeam0
              = GenerateCombinations_for_candidates (length players) (bc_separateTopPlayers config)
                 teamSize i currentTeam0"
        by (subst (2) GenerateCombinations_for_candidates.simps) (simp only: True skip if_True simp_thms)
      finally show ?thesis .
    next
      case noskip: False
      let ?cs1 = "GenerateCombinations_candidates (length players) (bc_separateTopPlayers config)
                    teamSize (i + 1) (currentTeam0 @ [i])"
      let ?cs2 = "GenerateCombinations_for_candidates (length players) (bc_separateTopPlayers config)
                    teamSize (i + 1) currentTeam0"
      let ?st' = "GenerateCombinations players config teamSize (i + 1) (currentTeam0 @ [i]) st"
      have st': "?st' = examinedCandidates players config ?cs1 st"
        using "2.IH"(2) [OF True noskip] .
      have cs: "GenerateCombinations_for_candidates (length players) (bc_separateTopPlayers config)
                  teamSize i currentTeam0 = ?cs1 @ ?cs2"
        by (subst GenerateCombinations_for_candidates.simps)
           (simp only: True noskip if_True if_False simp_thms)
      have unfold: "GenerateCombinations_for players config teamSize i currentTeam0 st =
              (if bc_maxCombinationsToTry config \<le> snd ?st' then ?st'
               else GenerateCombinations_for players config teamSize (i + 1) currentTeam0 ?st')"
        by (subst GenerateCombinations_for.simps)
           (simp only: True noskip if_True if_False Let_def simp_thms)
      show ?thesis
      proof (cases "bc_maxCombinationsToTry config \<le> snd ?st'")
        case True
        then show ?thesis
          unfolding unfold cs examined_append st' by simp
      next
        case False
        have "GenerateCombinations_for players config teamSize (i + 1) currentTeam0 ?st'
                = examinedCandidates players config ?cs2 ?st'"
          using "2.IH"(3) [OF \<open>i < length players\<close> noskip refl False] .
        then show ?thesis
          using False unfolding unfold cs examined_append st' by simp
      qed
    qed
  qed
qed

lemma candidates_members:
  "c \<in> set (GenerateCombinations_candidates n separate teamSize startIndex currentTeam0) \<Longrightarrow>
     length c = teamSize \<and> set c \<subseteq> set currentTeam0 \<union> {startIndex ..< n}"
  and for_candidates_members:
  "c \<in> set (GenerateCombinations_for_candidates n separate teamSize i currentTeam0) \<Longrightarrow>
     length c = teamSize \<and> set c \<subseteq> set currentTeam0 \<union> {i ..< n}"
proof (induction n separate teamSize startIndex currentTeam0
         and n separate teamSize i currentTeam0
       arbitrary: c and c
       rule: GenerateCombinations_candidates_GenerateCombinations_for_candidates.induct)
  case (1 n separate teamSize startIndex currentTeam0)
  show ?case
  proof (cases "length currentTeam0 = teamSize")
    case True
    with "1.prems" have "c = currentTeam0"
      by (subst (asm) GenerateCombinations_candidates.simps) simp
    with True show ?thesis by simp
  next
    case False
    show ?thesis
    proof (cases "int n - int startIndex < int teamSize - int (length currentTeam0)")
      case True
      with False "1.prems" show ?thesis
        by (subst (asm) GenerateCombinations_candidates.simps) simp
    next
      case enough: False
      with False "1.prems"
      have "c \<in> set (GenerateCombinations_for_candidates n separate teamSize startIndex currentTeam0)"
        by (subst (asm) GenerateCombinations_candidates.simps) simp
      then show ?thesis using "1.IH" [OF False enough] by simp
    qed
  qed
next
  case (2 n separate teamSize i currentTeam0)
  show ?case
  proof (cases "i < n")
    case False
    with "2.prems" show ?thesis
      by (subst (asm) GenerateCombinations_for_candidates.simps) simp
  next
    case True
    let ?skip = "separate \<and> 0 < length currentTeam0 \<and>
                 (0 \<in> set currentTeam0 \<and> i = 1 \<or> 1 \<in> set currentTeam0 \<and> i = 0)"
    show ?thesis
    proof (cases ?skip)
      case skip: True
      have "GenerateCombinations_for_candidates n separate teamSize i currentTeam0
              = GenerateCombinations_for_candidates n separate teamSize (i + 1) currentTeam0"
        by (subst GenerateCombinations_for_candidates.simps) (simp only: True skip if_True simp_thms)
      with "2.prems"
      have "c \<in> set (GenerateCombinations_for_candidates n separate teamSize (i + 1) currentTeam0)"
        by simp
      from "2.IH"(1) [OF True skip this] show ?thesis by auto
    next
      case noskip: False
      have "GenerateCombinations_for_candidates n separate teamSize i currentTeam0
              = GenerateCombinations_candidates n separate teamSize (i + 1) (currentTeam0 @ [i])
                @ GenerateCombinations_for_candidates n separate teamSize (i + 1) currentTeam0"
        by (subst GenerateCombinations_for_candidates.simps)
           (simp only: True noskip if_True if_False simp_thms)
      with "2.prems"
      consider "c \<in> set (GenerateCombinations_candidates n separate teamSize (i + 1) (currentTeam0 @ [i]))"
        | "c \<in> set (GenerateCombinations_for_candidates n separate teamSize (i + 1) currentTeam0)"
        by auto
      then show ?thesis
      proof cases
        case 1
        from "2.IH"(2) [OF True noskip 1] True show ?thesis by auto
      next
        case 2
        from "2.IH"(3) [OF True noskip 2] show ?thesis by auto
      qed
    qed
  qed
qed

lemma baseCase_cases:
  "GenerateCombinations_baseCase players config c best = best \<or>
   (GenerateCombinations_baseCase players config c best = CreateAssignment players c \<and>
    acceptedCandidate players config c)"
  unfolding GenerateCombinations_baseCase_def acceptedCandidate_def Let_def
  by (auto split: prod.splits)

lemma fold_baseCase_cases:
  "fold (GenerateCombinations_baseCase players config) cs best = best \<or>
   (\<exists>c \<in> set cs. fold (GenerateCombinations_baseCase players config) cs best
                     = CreateAssignment players c \<and> acceptedCandidate players config c)"
proof (induction cs arbitrary: best)
  case Nil
  show ?case by simp
next
  case (Cons c cs)
  from Cons.IH [of "GenerateCombinations_baseCase players config c best"]
       baseCase_cases [of players config c best]
  show ?case by auto
qed

lemma CreateAssignment_ids:
  "ta_team0PlayerIds (CreateAssignment players c) = map (\<lambda>idx. pi_playerId (players ! idx)) c"
  "ta_team1PlayerIds (CreateAssignment players c)
     = map (\<lambda>i. pi_playerId (players ! i)) (team1IndicesOf players c)"
  unfolding CreateAssignment_def Let_def by (simp_all split: prod.splits)

lemma GetRating_new [simp]: "GetRating (PlayerRating_new rating rd vol) = rating"
  unfolding GetRating_def PlayerRating_new_def kScale_def by (simp add: field_simps)

lemma GetRD_new [simp]: "GetRD (PlayerRating_new rating rd vol) = rd"
  unfolding GetRD_def PlayerRating_new_def kScale_def by simp

lemma ComputeEffectiveRating_new [simp]:
  "0 \<le> rd \<Longrightarrow> ComputeEffectiveRating (PlayerRating_new rating rd vol) perfToRating rdScale = rating"
proof -
  assume "0 \<le> rd"
  have "pr_perfIndexEMA (PlayerRating_new rating rd vol) = 0"
    by (simp add: PlayerRating_new_def)
  then show ?thesis
    unfolding ComputeEffectiveRating_def ComputeRecentRating_def Let_def
    using \<open>0 \<le> rd\<close> by simp
qed

lemma CreateAssignment_objective:
  "ta_objectiveValue (CreateAssignment players c)
     = fst (EvaluateAssignment players c (team1IndicesOf players c) kLambda)"
  unfolding CreateAssignment_def Let_def BalancerConfig_default_def
  by (simp split: prod.splits)

lemma baseCase_better:
  assumes "acceptedCandidate players config c"
    and "fst (EvaluateAssignment players c (team1IndicesOf players c) (bc_lambda config))
           < ta_objectiveValue best"
  shows "GenerateCombinations_baseCase players config c best = CreateAssignment players c"
  using assms unfolding GenerateCombinations_baseCase_def acceptedCandidate_def Let_def
  by (auto split: prod.splits)

lemma baseCase_worse:
  assumes "ta_objectiveValue best
             < fst (EvaluateAssignment players c (team1IndicesOf players c) (bc_lambda config))"
  shows "GenerateCombinations_baseCase players config c best = best"
  using assms unfolding GenerateCombinations_baseCase_def Let_def
  by (auto split: prod.splits)

lemma accepted_no_separation:
  "\<not> bc_separateTopPlayers config \<Longrightarrow> acceptedCandidate players config c"
  unfolding acceptedCandidate_def by simp

lemma fold_baseCase_nonempty:
  assumes "ta_team0PlayerIds best \<noteq> []" and "\<forall>c \<in> set cs. c \<noteq> []"
  shows "ta_team0PlayerIds (fold (GenerateCombinations_baseCase players config) cs best) \<noteq> []"
  using assms
proof (induction cs arbitrary: best)
  case Nil
  then show ?case by simp
next
  case (Cons c cs)
  have "ta_team0PlayerIds (GenerateCombinations_baseCase players config c best) \<noteq> []"
    using baseCase_cases [of players config c best] Cons.prems
    by (auto simp: CreateAssignment_ids)
  with Cons show ?case by simp
qed

lemma fold_baseCase_minimal:
  assumes lam: "bc_lambda config = kLambda"
    and inv: "\<forall>c \<in> set seen. acceptedCandidate players config c \<longrightarrow>
                ta_objectiveValue best
                  \<le> fst (EvaluateAssignment players c (team1IndicesOf players c) kLambda)"
  shows "\<forall>c \<in> set seen \<union> set cs. acceptedCandidate players config c \<longrightarrow>
           ta_objectiveValue (fold (GenerateCombinations_baseCase players config) cs best)
             \<le> fst (EvaluateAssignment players c (team1IndicesOf players c) kLambda)"
  using inv
proof (induction cs arbitrary: best seen)
  case Nil
  then show ?case by simp
next
  case (Cons c cs)
  let ?J = "\<lambda>c. fst (EvaluateAssignment players c (team1IndicesOf players c) kLambda)"
  let ?b = "GenerateCombinations_baseCase players config c best"
  have step: "\<forall>c' \<in> set (c # seen). acceptedCandidate players config c' \<longrightarrow> ta_objectiveValue ?b \<le> ?J c'"
  proof (cases "acceptedCandidate players config c")
    case False
    then have "?b = best"
      unfolding GenerateCombinations_baseCase_def acceptedCandidate_def Let_def by auto
    with Cons.prems False show ?thesis by simp
  next
    case True
    have le: "ta_objectiveValue ?b \<le> ta_objectiveValue best \<and> ta_objectiveValue ?b \<le> ?J c"
      using True unfolding GenerateCombinations_baseCase_def acceptedCandidate_def Let_def lam
      by (auto split: prod.splits simp: CreateAssignment_objective split: if_splits)
    with Cons.prems show ?thesis by auto
  qed
  from Cons.IH [of "c # seen" ?b, OF step] show ?case by simp
qed

lemma BalanceTeams_sortedPlayers_length:
  "length (BalanceTeams_sortedPlayers players) = length players"
  unfolding BalanceTeams_sortedPlayers_def Let_def by simp

lemma BalanceTeams_search_examined:
  "BalanceTeams_search players config =
     examinedCandidates (BalanceTeams_sortedPlayers players) config
       (GenerateCombinations_candidates (length players) (bc_separateTopPlayers config)
          (length players div 2)
          (if length players mod 2 \<noteq> 0 \<and> bc_putTopPlayerInSmallerTeam config then 1 else 0)
          (if length players mod 2 \<noteq> 0 \<and> bc_putTopPlayerInSmallerTeam config then [0] else []))
       (TeamAssignment_default, 0)"
  unfolding BalanceTeams_search_def Let_def GenerateCombinations_examined
    BalanceTeams_sortedPlayers_length
  by (simp add: TeamAssignment_default_def)

lemma BalanceTeams_sortOutcome_length:
  assumes "BalanceTeams_sortOutcome players sortedPlayers"
  shows "length sortedPlayers = length players"
proof -
  from assms have "mset sortedPlayers =
      mset (map (\<lambda>player. player\<lparr>pi_effectiveRating :=
                   ComputeEffectiveRating (pi_rating player) kPerfToRating kRDScaleConstant\<rparr>)
              players)"
    unfolding BalanceTeams_sortOutcome_def by (rule conjunct1)
  from mset_eq_length [OF this] show ?thesis by simp
qed

lemma BalanceTeams_sortOutcome_ids:
  assumes "BalanceTeams_sortOutcome players sortedPlayers"
  shows "mset (map pi_playerId sortedPlayers) = mset (map pi_playerId players)"
proof -
  from assms have "mset sortedPlayers =
      mset (map (\<lambda>player. player\<lparr>pi_effectiveRating :=
                   ComputeEffectiveRating (pi_rating player) kPerfToRating kRDScaleConstant\<rparr>)
              players)"
    unfolding BalanceTeams_sortOutcome_def by (rule conjunct1)
  then have "image_mset pi_playerId (mset sortedPlayers) =
      image_mset pi_playerId
        (mset (map (\<lambda>player. player\<lparr>pi_effectiveRating :=
                      ComputeEffectiveRating (pi_rating player) kPerfToRating kRDScaleConstant\<rparr>)
                 players))"
    by (rule arg_cong)
  then show ?thesis by (simp add: multiset.map_comp comp_def)
qed

lemma BalanceTeams_sortOutcome_distinct:
  assumes "BalanceTeams_sortOutcome players sortedPlayers"
    and "distinct (map pi_playerId players)"
  shows "distinct (map pi_playerId sortedPlayers)"
  using mset_eq_imp_distinct_iff [OF BalanceTeams_sortOutcome_ids [OF assms(1)]] assms(2)
  by simp

lemma BalanceTeams_sortOutcome_stable:
  "BalanceTeams_sortOutcome players (BalanceTeams_sortedPlayers players)"
proof -
  let ?key = "\<lambda>a. - ComputeEffectiveRating (pi_rating a) kPerfToRating kRDScaleConstant"
  let ?xs = "map (\<lambda>player. player\<lparr>pi_effectiveRating :=
                    ComputeEffectiveRating (pi_rating player) kPerfToRating kRDScaleConstant\<rparr>)
               players"
  have "sorted (map ?key (sort_key ?key ?xs))" by (rule sorted_sort_key)
  then have "sorted_wrt (\<lambda>a b. ?key a \<le> ?key b) (sort_key ?key ?xs)"
    by (simp only: sorted_map)
  then have "sorted_wrt (\<lambda>a b. \<not> (ComputeEffectiveRating (pi_rating b) kPerfToRating kRDScaleConstant
                             > ComputeEffectiveRating (pi_rating a) kPerfToRating kRDScaleConstant))
               (sort_key ?key ?xs)"
    by (rule sorted_wrt_mono_rel [rotated]) simp
  then show ?thesis
    unfolding BalanceTeams_sortOutcome_def BalanceTeams_sortedPlayers_def Let_def by simp
qed

lemma BalanceTeams_fromSorted_stable:
  "BalanceTeams players config
     = BalanceTeams_fromSorted players config (BalanceTeams_sortedPlayers players)"
  unfolding BalanceTeams_def BalanceTeams_search_def BalanceTeams_fromSorted_def Let_def
  by simp

lemma BalanceTeams_sortOutcome_top:
  assumes o: "BalanceTeams_sortOutcome players sortedPlayers"
    and len: "2 \<le> length players"
    and p: "p \<in> set players"
  shows "ComputeEffectiveRating (pi_rating p) kPerfToRating kRDScaleConstant
           \<le> ComputeEffectiveRating (pi_rating (sortedPlayers ! 0)) kPerfToRating kRDScaleConstant"
    and "pi_playerId p \<noteq> pi_playerId (sortedPlayers ! 0) \<Longrightarrow>
         ComputeEffectiveRating (pi_rating p) kPerfToRating kRDScaleConstant
           \<le> ComputeEffectiveRating (pi_rating (sortedPlayers ! 1)) kPerfToRating kRDScaleConstant"
proof -
  let ?eff = "\<lambda>x. ComputeEffectiveRating (pi_rating x) kPerfToRating kRDScaleConstant"
  let ?r = "\<lambda>player. player\<lparr>pi_effectiveRating := ?eff player\<rparr>"
  from o have m: "mset sortedPlayers = mset (map ?r players)"
    and s: "sorted_wrt (\<lambda>a b. \<not> (?eff b > ?eff a)) sortedPlayers"
    unfolding BalanceTeams_sortOutcome_def by simp_all
  have n: "length sortedPlayers = length players"
    using o by (rule BalanceTeams_sortOutcome_length)
  from mset_eq_setD [OF m] p have "?r p \<in> set sortedPlayers" by simp
  then obtain j where j: "j < length sortedPlayers" and e: "sortedPlayers ! j = ?r p"
    by (auto simp: in_set_conv_nth)
  have rating: "pi_rating (sortedPlayers ! j) = pi_rating p" unfolding e by simp
  have ident: "pi_playerId (sortedPlayers ! j) = pi_playerId p" unfolding e by simp
  have later: "?eff (sortedPlayers ! j) \<le> ?eff (sortedPlayers ! i)" if "i < j" for i
    using sorted_wrt_nth_less [OF s that j] by simp
  show "?eff p \<le> ?eff (sortedPlayers ! 0)"
  proof (cases "j = 0")
    case True
    then show ?thesis using rating by simp
  next
    case False
    then have "0 < j" by simp
    from later [OF this] show ?thesis unfolding rating .
  qed
  show "?eff p \<le> ?eff (sortedPlayers ! 1)" if "pi_playerId p \<noteq> pi_playerId (sortedPlayers ! 0)"
  proof -
    have "j \<noteq> 0"
    proof
      assume "j = 0"
      with ident that show False by simp
    qed
    show ?thesis
    proof (cases "j = 1")
      case True
      then show ?thesis using rating by simp
    next
      case False
      with \<open>j \<noteq> 0\<close> have "1 < j" by simp
      from later [OF this] show ?thesis unfolding rating .
    qed
  qed
qed

lemma BalanceTeams_fromSorted_cases:
  assumes "2 \<le> length players" and n: "length sortedPlayers = length players"
  shows "BalanceTeams_fromSorted players config sortedPlayers = TeamAssignment_default \<or>
         (\<exists>c. BalanceTeams_fromSorted players config sortedPlayers
                 = CreateAssignment sortedPlayers c \<and>
              acceptedCandidate sortedPlayers config c \<and>
              length c = length players div 2 \<and> set c \<subseteq> {0 ..< length players})"
proof -
  let ?sp = "sortedPlayers"
  let ?start = "if length players mod 2 \<noteq> 0 \<and> bc_putTopPlayerInSmallerTeam config then 1 else 0 :: nat"
  let ?cur = "if length players mod 2 \<noteq> 0 \<and> bc_putTopPlayerInSmallerTeam config then [0] else [] :: nat list"
  let ?cs = "GenerateCombinations_candidates (length players) (bc_separateTopPlayers config)
               (length players div 2) ?start ?cur"
  let ?done = "take (nat (bc_maxCombinationsToTry config - 0)) ?cs"
  have res: "BalanceTeams_fromSorted players config sortedPlayers
               = fold (GenerateCombinations_baseCase ?sp config) ?done TeamAssignment_default"
    unfolding BalanceTeams_fromSorted_def Let_def GenerateCombinations_examined n
      examinedCandidates_def
    using assms(1) by (simp add: TeamAssignment_default_def)
  from fold_baseCase_cases [of ?sp config ?done TeamAssignment_default]
  show ?thesis
  proof
    assume "fold (GenerateCombinations_baseCase ?sp config) ?done TeamAssignment_default
              = TeamAssignment_default"
    then show ?thesis using res by simp
  next
    assume "\<exists>c\<in>set ?done. fold (GenerateCombinations_baseCase ?sp config) ?done TeamAssignment_default
              = CreateAssignment ?sp c \<and> acceptedCandidate ?sp config c"
    then obtain c where c: "c \<in> set ?done"
      and eq: "fold (GenerateCombinations_baseCase ?sp config) ?done TeamAssignment_default
              = CreateAssignment ?sp c"
      and acc: "acceptedCandidate ?sp config c" by blast
    from c have "c \<in> set ?cs" by (rule in_set_takeD)
    from candidates_members [OF this]
    have len: "length c = length players div 2" and sub: "set c \<subseteq> set ?cur \<union> {?start ..< length players}"
      by simp_all
    have "set ?cur \<union> {?start ..< length players} \<subseteq> {0 ..< length players}"
      using assms(1) by auto
    with sub have "set c \<subseteq> {0 ..< length players}" by blast
    with eq acc len res show ?thesis by auto
  qed
qed

lemma id_in_team_iff:
  assumes d: "distinct (map pi_playerId sp)" and j: "j < length sp"
    and sub: "set idxs \<subseteq> {0 ..< length sp}"
  shows "pi_playerId (sp ! j) \<in> set (map (\<lambda>i. pi_playerId (sp ! i)) idxs) \<longleftrightarrow> j \<in> set idxs"
proof
  assume "pi_playerId (sp ! j) \<in> set (map (\<lambda>i. pi_playerId (sp ! i)) idxs)"
  then obtain i where i: "i \<in> set idxs" and e: "pi_playerId (sp ! i) = pi_playerId (sp ! j)"
    by auto
  from i sub have il: "i < length sp" by auto
  have "map pi_playerId sp ! i = map pi_playerId sp ! j" using e il j by simp
  moreover have "i < length (map pi_playerId sp)" "j < length (map pi_playerId sp)"
    using il j by simp_all
  ultimately have "i = j" using d nth_eq_iff_index_eq by blast
  with i show "j \<in> set idxs" by simp
next
  assume "j \<in> set idxs"
  then show "pi_playerId (sp ! j) \<in> set (map (\<lambda>i. pi_playerId (sp ! i)) idxs)" by auto
qed

section \<open>Team balancer: the two strongest players\<close>

text \<open>
  C7: for every pool of at least two players with distinct player ids and every
  configuration with \<open>separateTopPlayers\<close> set, and for every order in which \<open>std::sort\<close> may
  leave \<open>sortedPlayers\<close> (players with equal effective ratings in any order): the players at
  the sorted indices \<open>0\<close> and \<open>1\<close> are two different players of the pool, no player of the
  pool has a higher effective rating than the first, no other player of the pool has a
  higher effective rating than the second, and the assignment that \<open>BalanceTeams\<close> returns
  never has these two both on team 0 or both on team 1; whenever the returned assignment is
  not the empty default one, one of the two is on team 0 and the other on team 1. The order
  that \<open>BalanceTeams_sortedPlayers\<close> computes is one of these orders, and \<open>BalanceTeams\<close> is the
  result for it.
\<close>

theorem BalanceTeams_separates_top_players:
  assumes "2 \<le> length players"
    and "bc_separateTopPlayers config"
    and "distinct (map pi_playerId players)"
  shows "BalanceTeams_sortOutcome players (BalanceTeams_sortedPlayers players) \<and>
         BalanceTeams players config
           = BalanceTeams_fromSorted players config (BalanceTeams_sortedPlayers players) \<and>
         (\<forall>sortedPlayers. BalanceTeams_sortOutcome players sortedPlayers \<longrightarrow>
            (let top1 = sortedPlayers ! 0;
                 top2 = sortedPlayers ! 1;
                 effectiveRating =
                   (\<lambda>x. ComputeEffectiveRating (pi_rating x) kPerfToRating kRDScaleConstant);
                 result = BalanceTeams_fromSorted players config sortedPlayers;
                 team0 = set (ta_team0PlayerIds result);
                 team1 = set (ta_team1PlayerIds result)
             in pi_playerId top1 \<in> set (map pi_playerId players) \<and>
                pi_playerId top2 \<in> set (map pi_playerId players) \<and>
                pi_playerId top1 \<noteq> pi_playerId top2 \<and>
                (\<forall>p \<in> set players. effectiveRating p \<le> effectiveRating top1) \<and>
                (\<forall>p \<in> set players. pi_playerId p \<noteq> pi_playerId top1 \<longrightarrow>
                     effectiveRating p \<le> effectiveRating top2) \<and>
                \<not> (pi_playerId top1 \<in> team0 \<and> pi_playerId top2 \<in> team0) \<and>
                \<not> (pi_playerId top1 \<in> team1 \<and> pi_playerId top2 \<in> team1) \<and>
                (ta_team0PlayerIds result \<noteq> [] \<longrightarrow>
                   (pi_playerId top1 \<in> team0 \<and> pi_playerId top2 \<in> team1) \<or>
                   (pi_playerId top2 \<in> team0 \<and> pi_playerId top1 \<in> team1))))"
proof (intro conjI allI impI)
  show "BalanceTeams_sortOutcome players (BalanceTeams_sortedPlayers players)"
    by (rule BalanceTeams_sortOutcome_stable)
  show "BalanceTeams players config
          = BalanceTeams_fromSorted players config (BalanceTeams_sortedPlayers players)"
    by (rule BalanceTeams_fromSorted_stable)
next
  fix sp
  assume o: "BalanceTeams_sortOutcome players sp"
  let ?r = "BalanceTeams_fromSorted players config sp"
  let ?eff = "\<lambda>x. ComputeEffectiveRating (pi_rating x) kPerfToRating kRDScaleConstant"
  have n: "length sp = length players" using o by (rule BalanceTeams_sortOutcome_length)
  have d: "distinct (map pi_playerId sp)"
    using o assms(3) by (rule BalanceTeams_sortOutcome_distinct)
  have l0: "0 < length sp" and l1: "1 < length sp" unfolding n using assms(1) by linarith+
  have ids: "set (map pi_playerId sp) = set (map pi_playerId players)"
    using mset_eq_setD [OF BalanceTeams_sortOutcome_ids [OF o]] .
  have mem: "pi_playerId (sp ! j) \<in> set (map pi_playerId sp)" if "j < length sp" for j
  proof -
    have "map pi_playerId sp ! j \<in> set (map pi_playerId sp)"
      using that by (intro nth_mem) simp
    then show ?thesis using that by simp
  qed
  have in0: "pi_playerId (sp ! 0) \<in> set (map pi_playerId players)"
    unfolding ids [symmetric] using l0 by (rule mem)
  have in1: "pi_playerId (sp ! 1) \<in> set (map pi_playerId players)"
    unfolding ids [symmetric] using l1 by (rule mem)
  have ne: "pi_playerId (sp ! 0) \<noteq> pi_playerId (sp ! 1)"
  proof -
    have "map pi_playerId sp ! 0 \<noteq> map pi_playerId sp ! 1"
      using d l0 l1 by (simp add: nth_eq_iff_index_eq del: nth_map)
    then show ?thesis using l0 l1 by simp
  qed
  have top1: "\<forall>p \<in> set players. ?eff p \<le> ?eff (sp ! 0)"
    using BalanceTeams_sortOutcome_top(1) [OF o assms(1)] by blast
  have top2: "\<forall>p \<in> set players. pi_playerId p \<noteq> pi_playerId (sp ! 0) \<longrightarrow>
                ?eff p \<le> ?eff (sp ! 1)"
    using BalanceTeams_sortOutcome_top(2) [OF o assms(1)] by blast
  from BalanceTeams_fromSorted_cases [OF assms(1) n, of config]
  have sep: "\<not> (pi_playerId (sp ! 0) \<in> set (ta_team0PlayerIds ?r) \<and>
           pi_playerId (sp ! 1) \<in> set (ta_team0PlayerIds ?r)) \<and>
        \<not> (pi_playerId (sp ! 0) \<in> set (ta_team1PlayerIds ?r) \<and>
           pi_playerId (sp ! 1) \<in> set (ta_team1PlayerIds ?r)) \<and>
        (ta_team0PlayerIds ?r \<noteq> [] \<longrightarrow>
           (pi_playerId (sp ! 0) \<in> set (ta_team0PlayerIds ?r) \<and>
            pi_playerId (sp ! 1) \<in> set (ta_team1PlayerIds ?r)) \<or>
           (pi_playerId (sp ! 1) \<in> set (ta_team0PlayerIds ?r) \<and>
            pi_playerId (sp ! 0) \<in> set (ta_team1PlayerIds ?r)))"
  proof
    assume "?r = TeamAssignment_default"
    then show ?thesis by (simp add: TeamAssignment_default_def)
  next
    assume "\<exists>c. ?r = CreateAssignment sp c \<and> acceptedCandidate sp config c \<and>
              length c = length players div 2 \<and> set c \<subseteq> {0 ..< length players}"
    then obtain c where r: "?r = CreateAssignment sp c" and acc: "acceptedCandidate sp config c"
      and sub: "set c \<subseteq> {0 ..< length sp}" using n by auto
    have sub1: "set (team1IndicesOf sp c) \<subseteq> {0 ..< length sp}"
      unfolding team1IndicesOf_def by auto
    have t0: "pi_playerId (sp ! j) \<in> set (ta_team0PlayerIds ?r) \<longleftrightarrow> j \<in> set c"
      if "j < length sp" for j
      unfolding r CreateAssignment_ids using id_in_team_iff [OF d that sub] .
    have t1: "pi_playerId (sp ! j) \<in> set (ta_team1PlayerIds ?r) \<longleftrightarrow> j \<notin> set c"
      if "j < length sp" for j
    proof -
      have "pi_playerId (sp ! j) \<in> set (ta_team1PlayerIds ?r) \<longleftrightarrow> j \<in> set (team1IndicesOf sp c)"
        unfolding r CreateAssignment_ids using id_in_team_iff [OF d that sub1] .
      also have "\<dots> \<longleftrightarrow> j \<notin> set c" unfolding team1IndicesOf_def using that by auto
      finally show ?thesis .
    qed
    have v0: "\<not> (0 \<in> set c \<and> 1 \<in> set c)"
      using acc assms(1,2) n unfolding acceptedCandidate_def ViolatesTopPlayerConstraint_def Let_def
      by auto
    have v1: "\<not> (0 \<notin> set c \<and> 1 \<notin> set c)"
    proof -
      have "\<not> (0 \<in> set (team1IndicesOf sp c) \<and> 1 \<in> set (team1IndicesOf sp c))"
        using acc assms(1,2) n unfolding acceptedCandidate_def ViolatesTopPlayerConstraint_def Let_def
        by auto
      then show ?thesis unfolding team1IndicesOf_def using l0 l1 by auto
    qed
    show ?thesis
      unfolding t0 [OF l0] t0 [OF l1] t1 [OF l0] t1 [OF l1]
      using v0 v1 by blast
  qed
  from in0 in1 ne top1 top2 sep
  show "let top1 = sp ! 0;
            top2 = sp ! 1;
            effectiveRating =
              (\<lambda>x. ComputeEffectiveRating (pi_rating x) kPerfToRating kRDScaleConstant);
            result = BalanceTeams_fromSorted players config sp;
            team0 = set (ta_team0PlayerIds result);
            team1 = set (ta_team1PlayerIds result)
        in pi_playerId top1 \<in> set (map pi_playerId players) \<and>
           pi_playerId top2 \<in> set (map pi_playerId players) \<and>
           pi_playerId top1 \<noteq> pi_playerId top2 \<and>
           (\<forall>p \<in> set players. effectiveRating p \<le> effectiveRating top1) \<and>
           (\<forall>p \<in> set players. pi_playerId p \<noteq> pi_playerId top1 \<longrightarrow>
                effectiveRating p \<le> effectiveRating top2) \<and>
           \<not> (pi_playerId top1 \<in> team0 \<and> pi_playerId top2 \<in> team0) \<and>
           \<not> (pi_playerId top1 \<in> team1 \<and> pi_playerId top2 \<in> team1) \<and>
           (ta_team0PlayerIds result \<noteq> [] \<longrightarrow>
              (pi_playerId top1 \<in> team0 \<and> pi_playerId top2 \<in> team1) \<or>
              (pi_playerId top2 \<in> team0 \<and> pi_playerId top1 \<in> team1))"
    unfolding Let_def by blast
qed

section \<open>Team balancer on the concrete pools\<close>

lemma PlayerInfo_new_fields [simp]:
  "pi_playerId (PlayerInfo_new i r) = i"
  "pi_rating (PlayerInfo_new i r) = r"
  "pi_effectiveRating (PlayerInfo_new i r) = ComputeEffectiveRating r kPerfToRating kRDScaleConstant"
  by (simp_all add: PlayerInfo_new_def)

lemma PlayerInfo_new_recomputed [simp]:
  "(PlayerInfo_new i r)\<lparr>pi_effectiveRating := ComputeEffectiveRating r kPerfToRating kRDScaleConstant\<rparr>
     = PlayerInfo_new i r"
  by (simp add: PlayerInfo_new_def)

lemma BalanceTeams_eq_fold:
  assumes "2 \<le> length players"
  shows "BalanceTeams players config =
           fold (GenerateCombinations_baseCase (BalanceTeams_sortedPlayers players) config)
             (take (nat (bc_maxCombinationsToTry config))
                (GenerateCombinations_candidates (length players) (bc_separateTopPlayers config)
                   (length players div 2)
                   (if length players mod 2 \<noteq> 0 \<and> bc_putTopPlayerInSmallerTeam config then 1 else 0)
                   (if length players mod 2 \<noteq> 0 \<and> bc_putTopPlayerInSmallerTeam config then [0] else [])))
             TeamAssignment_default"
  unfolding BalanceTeams_def BalanceTeams_search_examined examinedCandidates_def Let_def
  using assms by simp

lemma three_player_sorted: "BalanceTeams_sortedPlayers three_player_pool = three_player_pool"
  unfolding BalanceTeams_sortedPlayers_def three_player_pool_def Let_def
  by simp

lemma three_player_candidates: "GenerateCombinations_candidates 3 False 1 0 [] = [[0],[1],[2]]"
  by (simp add: GenerateCombinations_candidates.simps GenerateCombinations_for_candidates.simps)

lemma sqrt_900: "sqrt 900 = 30"
  by (rule real_sqrt_unique) (simp_all add: power2_eq_square)

lemma sqrt_40000: "sqrt 40000 = 200"
  by (rule real_sqrt_unique) (simp_all add: power2_eq_square)

lemma sqrt_1800_2: "sqrt 1800 / sqrt 2 = 30"
proof -
  have "sqrt 1800 / sqrt 2 = sqrt (1800 / 2)" by (simp only: real_sqrt_divide)
  then show ?thesis by (simp add: sqrt_900)
qed

lemma three_player_team1_0: "team1IndicesOf three_player_pool [0] = [1, 2]"
  and three_player_team1_1: "team1IndicesOf three_player_pool [1] = [0, 2]"
  and three_player_team1_2: "team1IndicesOf three_player_pool [2] = [0, 1]"
  unfolding team1IndicesOf_def three_player_pool_def by (simp_all add: upt_rec)

lemma three_player_objective_0: "fst (EvaluateAssignment three_player_pool [0] [1, 2] lam)
               = 75 + lam * \<bar>30 - sqrt 40900 / sqrt 2\<bar>"
  unfolding EvaluateAssignment_def CalculateTeamStrength_def CalculateTeamUncertainty_def
    CalculatePureRatingSum_def Let_def three_player_pool_def
  by (simp add: sqrt_900)

lemma three_player_objective_1: "fst (EvaluateAssignment three_player_pool [1] [0, 2] lam) = lam * 170"
  unfolding EvaluateAssignment_def CalculateTeamStrength_def CalculateTeamUncertainty_def
    CalculatePureRatingSum_def Let_def three_player_pool_def
  by (simp add: sqrt_40000 sqrt_1800_2)

lemma three_player_objective_2: "fst (EvaluateAssignment three_player_pool [2] [0, 1] lam)
               = 75 + lam * \<bar>30 - sqrt 40900 / sqrt 2\<bar>"
  unfolding EvaluateAssignment_def CalculateTeamStrength_def CalculateTeamUncertainty_def
    CalculatePureRatingSum_def Let_def three_player_pool_def
  by (simp add: sqrt_900)

lemma BalanceTeams_three_player_pool:
  "BalanceTeams three_player_pool strength_only_config = CreateAssignment three_player_pool [2]"
proof -
  let ?f = "GenerateCombinations_baseCase three_player_pool strength_only_config"
  have lam: "bc_lambda strength_only_config = 0" and sep: "\<not> bc_separateTopPlayers strength_only_config"
    by (simp_all add: strength_only_config_def)
  have acc: "acceptedCandidate three_player_pool strength_only_config c" for c
    using sep by (rule accepted_no_separation)
  have s0: "?f [0] TeamAssignment_default = CreateAssignment three_player_pool [0]"
    by (rule baseCase_better [OF acc], unfold three_player_team1_0 three_player_objective_0 lam)
       (simp add: TeamAssignment_default_def DBL_MAX_def)
  have s1: "?f [1] (CreateAssignment three_player_pool [0]) = CreateAssignment three_player_pool [1]"
    by (rule baseCase_better [OF acc], unfold CreateAssignment_objective three_player_team1_0 three_player_team1_1 three_player_objective_0 three_player_objective_1 lam)
       (simp add: kLambda_def add_pos_nonneg)
  have s2: "?f [2] (CreateAssignment three_player_pool [1]) = CreateAssignment three_player_pool [2]"
    by (rule baseCase_better [OF acc], unfold CreateAssignment_objective three_player_team1_1 three_player_team1_2 three_player_objective_1 three_player_objective_2 lam)
       (simp add: kLambda_def)
  have len: "length three_player_pool = 3"
    by (simp add: three_player_pool_def)
  have cfg: "bc_maxCombinationsToTry strength_only_config = 10000"
    "bc_putTopPlayerInSmallerTeam strength_only_config = False"
    "bc_separateTopPlayers strength_only_config = False"
    by (simp_all add: strength_only_config_def)
  have "BalanceTeams three_player_pool strength_only_config
          = fold ?f (take (nat 10000) (GenerateCombinations_candidates 3 False (3 div 2) 0 []))
              TeamAssignment_default"
    using BalanceTeams_eq_fold [of three_player_pool strength_only_config]
    unfolding three_player_sorted len cfg by simp
  also have "take (nat 10000) (GenerateCombinations_candidates 3 False (3 div 2) 0 [])
               = [[0],[1],[2]]"
    using three_player_candidates by simp
  also have "fold ?f [[0],[1],[2]] TeamAssignment_default
               = ?f [2] (?f [1] (?f [0] TeamAssignment_default))"
    by (simp only: fold_simps)
  finally show ?thesis by (simp only: s0 s1 s2)
qed


lemma two_player_sorted: "BalanceTeams_sortedPlayers two_player_pool = two_player_pool"
  unfolding BalanceTeams_sortedPlayers_def two_player_pool_def Let_def
  by simp

lemma two_player_candidates: "GenerateCombinations_candidates 2 True 1 0 [] = [[0],[1]]"
  by (simp add: GenerateCombinations_candidates.simps GenerateCombinations_for_candidates.simps)

lemma sqrt_10000: "sqrt 10000 = 100"
  by (rule real_sqrt_unique) (simp_all add: power2_eq_square)

lemma two_player_team1_0: "team1IndicesOf two_player_pool [0] = [1]"
  and two_player_team1_1: "team1IndicesOf two_player_pool [1] = [0]"
  unfolding team1IndicesOf_def two_player_pool_def by (simp_all add: upt_rec)

lemma two_player_evaluate_0: "EvaluateAssignment two_player_pool [0] [1] lam
               = (50 + lam * 100, 1500, 1450, 100, 200, 1500, 1450)"
  unfolding EvaluateAssignment_def CalculateTeamStrength_def CalculateTeamUncertainty_def
    CalculatePureRatingSum_def Let_def two_player_pool_def
  by (simp add: sqrt_10000 sqrt_40000)

lemma two_player_evaluate_1: "EvaluateAssignment two_player_pool [1] [0] lam
               = (50 + lam * 100, 1450, 1500, 200, 100, 1450, 1500)"
  unfolding EvaluateAssignment_def CalculateTeamStrength_def CalculateTeamUncertainty_def
    CalculatePureRatingSum_def Let_def two_player_pool_def
  by (simp add: sqrt_10000 sqrt_40000)

lemma two_player_create_0:
  "CreateAssignment two_player_pool [0] =
     \<lparr>ta_team0PlayerIds = [1], ta_team1PlayerIds = [2], ta_objectiveValue = 130,
      ta_strengthDifference = 50, ta_uncertaintyDifference = 100,
      ta_team0Strength = 1500, ta_team1Strength = 1450,
      ta_team0Uncertainty = 100, ta_team1Uncertainty = 200,
      ta_pureRatingDifference = 50\<rparr>"
  unfolding CreateAssignment_def Let_def two_player_team1_0 two_player_evaluate_0 BalancerConfig_default_def
  by (simp add: two_player_pool_def kLambda_def)

lemma two_player_accepted:
  "acceptedCandidate two_player_pool BalancerConfig_default [0]"
  "acceptedCandidate two_player_pool BalancerConfig_default [1]"
  unfolding acceptedCandidate_def ViolatesTopPlayerConstraint_def Let_def two_player_team1_0 two_player_team1_1
  by simp_all

lemma two_player_first:
  "GenerateCombinations_baseCase two_player_pool (BalancerConfig_default\<lparr>bc_maxCombinationsToTry := m\<rparr>)
     [0] TeamAssignment_default = CreateAssignment two_player_pool [0]"
proof (rule baseCase_better)
  show "acceptedCandidate two_player_pool (BalancerConfig_default\<lparr>bc_maxCombinationsToTry := m\<rparr>) [0]"
    using two_player_accepted(1) by (simp add: acceptedCandidate_def)
  show "fst (EvaluateAssignment two_player_pool [0] (team1IndicesOf two_player_pool [0])
               (bc_lambda (BalancerConfig_default\<lparr>bc_maxCombinationsToTry := m\<rparr>)))
          < ta_objectiveValue TeamAssignment_default"
    unfolding two_player_team1_0 two_player_evaluate_0
    by (simp add: BalancerConfig_default_def kLambda_def TeamAssignment_default_def DBL_MAX_def)
qed

lemma two_player_second:
  "GenerateCombinations_baseCase two_player_pool BalancerConfig_default
     [1] (CreateAssignment two_player_pool [0]) = CreateAssignment two_player_pool [0]"
  unfolding GenerateCombinations_baseCase_def Let_def two_player_team1_1 two_player_evaluate_1 two_player_create_0
  by (simp add: BalancerConfig_default_def kLambda_def ViolatesTopPlayerConstraint_def)

lemma two_player_search:
  assumes "bc_separateTopPlayers config" and "bc_putTopPlayerInSmallerTeam config"
  shows "BalanceTeams_search two_player_pool config
          = examinedCandidates two_player_pool config [[0],[1]] (TeamAssignment_default, 0)"
proof -
  have len: "length two_player_pool = 2" by (simp add: two_player_pool_def)
  have c: "GenerateCombinations_candidates 2 True (2 div 2)
             (if (2::nat) mod 2 \<noteq> 0 \<and> True then 1 else 0)
             (if (2::nat) mod 2 \<noteq> 0 \<and> True then [0] else []) = [[0],[1]]"
    using two_player_candidates by simp
  show ?thesis
    unfolding BalanceTeams_search_examined two_player_sorted len
    using assms c by (simp only: simp_thms)
qed

lemma two_player_capped:
  "BalanceTeams_search two_player_pool (BalancerConfig_default\<lparr>bc_maxCombinationsToTry := 1\<rparr>)
     = (CreateAssignment two_player_pool [0], 1)"
proof -
  have "BalanceTeams_search two_player_pool (BalancerConfig_default\<lparr>bc_maxCombinationsToTry := 1\<rparr>)
          = examinedCandidates two_player_pool (BalancerConfig_default\<lparr>bc_maxCombinationsToTry := 1\<rparr>)
              [[0],[1]] (TeamAssignment_default, 0)"
    by (rule two_player_search) (simp_all add: BalancerConfig_default_def)
  also have "\<dots> = (GenerateCombinations_baseCase two_player_pool
                      (BalancerConfig_default\<lparr>bc_maxCombinationsToTry := 1\<rparr>) [0] TeamAssignment_default, 1)"
    unfolding examinedCandidates_def Let_def by simp
  finally show ?thesis unfolding two_player_first .
qed

lemma two_player_full:
  "BalanceTeams_search two_player_pool BalancerConfig_default
     = (CreateAssignment two_player_pool [0], 2)"
proof -
  have m: "BalancerConfig_default = BalancerConfig_default\<lparr>bc_maxCombinationsToTry := 10000\<rparr>"
    by (simp add: BalancerConfig_default_def)
  have "BalanceTeams_search two_player_pool BalancerConfig_default
          = examinedCandidates two_player_pool BalancerConfig_default
              [[0],[1]] (TeamAssignment_default, 0)"
    by (rule two_player_search) (simp_all add: BalancerConfig_default_def)
  also have "\<dots> = (GenerateCombinations_baseCase two_player_pool BalancerConfig_default [1]
                      (GenerateCombinations_baseCase two_player_pool BalancerConfig_default [0]
                         TeamAssignment_default), 2)"
    unfolding examinedCandidates_def Let_def
    by (simp add: BalancerConfig_default_def)
  also have "GenerateCombinations_baseCase two_player_pool BalancerConfig_default [0]
               TeamAssignment_default = CreateAssignment two_player_pool [0]"
    using two_player_first [of 10000] m by simp
  finally show ?thesis unfolding two_player_second .
qed


lemma scenario_sorted: "BalanceTeams_sortedPlayers scenario_pool = scenario_pool_sorted"
  unfolding BalanceTeams_sortedPlayers_def scenario_pool_def scenario_pool_sorted_def Let_def
  by simp

lemma scenario_first_candidate:
  "\<exists>rest. GenerateCombinations_candidates 8 True 4 0 [] = [0, 2, 3, 4] # rest"
  by (simp add: GenerateCombinations_candidates.simps GenerateCombinations_for_candidates.simps)

lemma scenario_team1: "team1IndicesOf scenario_pool_sorted [0, 2, 3, 4] = [1, 5, 6, 7]"
  unfolding team1IndicesOf_def scenario_pool_sorted_def by (simp add: upt_rec)

lemma scenario_first_accepted:
  "acceptedCandidate scenario_pool_sorted BalancerConfig_default [0, 2, 3, 4]"
  unfolding acceptedCandidate_def ViolatesTopPlayerConstraint_def Let_def scenario_team1
  by simp

lemma scenario_first_objective:
  "fst (EvaluateAssignment scenario_pool_sorted [0, 2, 3, 4] [1, 5, 6, 7] kLambda) < DBL_MAX"
proof -
  have e: "fst (EvaluateAssignment scenario_pool_sorted [0, 2, 3, 4] [1, 5, 6, 7] kLambda)
             = 35 + kLambda * \<bar>sqrt 77500 / sqrt 4 - sqrt 79600 / sqrt 4\<bar>"
    unfolding EvaluateAssignment_def CalculateTeamStrength_def CalculateTeamUncertainty_def
      CalculatePureRatingSum_def Let_def scenario_pool_sorted_def
    by simp
  have a: "sqrt 77500 / sqrt 4 \<le> 300"
  proof -
    have "sqrt 77500 / sqrt 4 = sqrt (77500 / 4)" by (simp only: real_sqrt_divide)
    also have "\<dots> \<le> 300" by (rule real_le_lsqrt) simp_all
    finally show ?thesis .
  qed
  have b: "sqrt 79600 / sqrt 4 \<le> 300"
  proof -
    have "sqrt 79600 / sqrt 4 = sqrt (79600 / 4)" by (simp only: real_sqrt_divide)
    also have "\<dots> \<le> 300" by (rule real_le_lsqrt) simp_all
    finally show ?thesis .
  qed
  have a0: "0 \<le> sqrt 77500 / sqrt 4" and b0: "0 \<le> sqrt 79600 / sqrt 4" by simp_all
  have "\<bar>sqrt 77500 / sqrt 4 - sqrt 79600 / sqrt 4\<bar> \<le> 300"
    using a b a0 b0 by linarith
  then have "35 + kLambda * \<bar>sqrt 77500 / sqrt 4 - sqrt 79600 / sqrt 4\<bar> \<le> 35 + 0.8 * 300"
    unfolding kLambda_def by simp
  also have "\<dots> < DBL_MAX" unfolding DBL_MAX_def by simp
  finally show ?thesis unfolding e .
qed

lemma scenario_result_nonempty:
  "ta_team0PlayerIds (BalanceTeams scenario_pool BalancerConfig_default) \<noteq> []"
proof -
  let ?f = "GenerateCombinations_baseCase scenario_pool_sorted BalancerConfig_default"
  let ?cs = "GenerateCombinations_candidates 8 True 4 0 []"
  obtain rest where cs: "?cs = [0, 2, 3, 4] # rest"
    using scenario_first_candidate by blast
  have len: "length scenario_pool = 8" by (simp add: scenario_pool_def)
  have cfg: "bc_maxCombinationsToTry BalancerConfig_default = 10000"
    "bc_separateTopPlayers BalancerConfig_default = True"
    "bc_lambda BalancerConfig_default = kLambda"
    by (simp_all add: BalancerConfig_default_def)
  have c: "GenerateCombinations_candidates 8 True (8 div 2)
             (if (8::nat) mod 2 \<noteq> 0 \<and> bc_putTopPlayerInSmallerTeam BalancerConfig_default then 1 else 0)
             (if (8::nat) mod 2 \<noteq> 0 \<and> bc_putTopPlayerInSmallerTeam BalancerConfig_default then [0] else [])
           = ?cs"
    by simp
  have "BalanceTeams scenario_pool BalancerConfig_default
          = fold ?f (take (nat 10000) ?cs) TeamAssignment_default"
    using BalanceTeams_eq_fold [of scenario_pool BalancerConfig_default]
    unfolding scenario_sorted len cfg c by simp
  also have "take (nat 10000) ?cs = [0, 2, 3, 4] # take 9999 rest"
    unfolding cs by simp
  also have "fold ?f ([0, 2, 3, 4] # take 9999 rest) TeamAssignment_default
               = fold ?f (take 9999 rest) (?f [0, 2, 3, 4] TeamAssignment_default)"
    by simp
  also have "?f [0, 2, 3, 4] TeamAssignment_default = CreateAssignment scenario_pool_sorted [0, 2, 3, 4]"
  proof (rule baseCase_better [OF scenario_first_accepted], unfold scenario_team1 cfg)
    have "ta_objectiveValue TeamAssignment_default = DBL_MAX"
      by (simp add: TeamAssignment_default_def)
    with scenario_first_objective
    show "fst (EvaluateAssignment scenario_pool_sorted [0, 2, 3, 4] [1, 5, 6, 7] kLambda)
            < ta_objectiveValue TeamAssignment_default"
      by (simp only:)
  qed
  finally have r: "BalanceTeams scenario_pool BalancerConfig_default
          = fold ?f (take 9999 rest) (CreateAssignment scenario_pool_sorted [0, 2, 3, 4])" .
  have ne: "\<forall>c \<in> set (take 9999 rest). c \<noteq> []"
  proof
    fix c assume "c \<in> set (take 9999 rest)"
    then have "c \<in> set ?cs" unfolding cs by (auto dest: in_set_takeD)
    from candidates_members [OF this] show "c \<noteq> []" by auto
  qed
  show ?thesis
    unfolding r
    by (rule fold_baseCase_nonempty [OF _ ne]) (simp add: CreateAssignment_ids)
qed


theorem BalanceTeams_separates_top_players_witness:
  "2 \<le> length scenario_pool \<and>
   bc_separateTopPlayers BalancerConfig_default \<and>
   distinct (map pi_playerId scenario_pool) \<and>
   BalanceTeams_sortedPlayers scenario_pool = scenario_pool_sorted \<and>
   BalanceTeams_sortOutcome scenario_pool scenario_pool_sorted \<and>
   BalanceTeams scenario_pool BalancerConfig_default
     = BalanceTeams_fromSorted scenario_pool BalancerConfig_default scenario_pool_sorted \<and>
   pi_playerId (scenario_pool_sorted ! 0) = 1 \<and>
   pi_playerId (scenario_pool_sorted ! 1) = 2 \<and>
   pi_playerId (scenario_pool ! 3) = 3 \<and>
   ComputeEffectiveRating (pi_rating (scenario_pool ! 3)) kPerfToRating kRDScaleConstant
     \<le> ComputeEffectiveRating (pi_rating (scenario_pool_sorted ! 0))
         kPerfToRating kRDScaleConstant \<and>
   ComputeEffectiveRating (pi_rating (scenario_pool ! 3)) kPerfToRating kRDScaleConstant
     \<le> ComputeEffectiveRating (pi_rating (scenario_pool_sorted ! 1))
         kPerfToRating kRDScaleConstant \<and>
   \<not> (1 \<in> set (ta_team0PlayerIds (BalanceTeams scenario_pool BalancerConfig_default)) \<and>
      2 \<in> set (ta_team0PlayerIds (BalanceTeams scenario_pool BalancerConfig_default))) \<and>
   \<not> (1 \<in> set (ta_team1PlayerIds (BalanceTeams scenario_pool BalancerConfig_default)) \<and>
      2 \<in> set (ta_team1PlayerIds (BalanceTeams scenario_pool BalancerConfig_default))) \<and>
   ((1 \<in> set (ta_team0PlayerIds (BalanceTeams scenario_pool BalancerConfig_default)) \<and>
     2 \<in> set (ta_team1PlayerIds (BalanceTeams scenario_pool BalancerConfig_default))) \<or>
    (2 \<in> set (ta_team0PlayerIds (BalanceTeams scenario_pool BalancerConfig_default)) \<and>
     1 \<in> set (ta_team1PlayerIds (BalanceTeams scenario_pool BalancerConfig_default))))"
proof -
  have len: "2 \<le> length scenario_pool" by (simp add: scenario_pool_def)
  have sep: "bc_separateTopPlayers BalancerConfig_default" by (simp add: BalancerConfig_default_def)
  have ids: "distinct (map pi_playerId scenario_pool)" by (simp add: scenario_pool_def)
  have top: "pi_playerId (scenario_pool_sorted ! 0) = 1"
    "pi_playerId (scenario_pool_sorted ! 1) = 2"
    by (simp_all add: scenario_pool_sorted_def)
  note T = BalanceTeams_separates_top_players [OF len sep ids, unfolded scenario_sorted]
  from T have o: "BalanceTeams_sortOutcome scenario_pool scenario_pool_sorted"
    and f: "BalanceTeams scenario_pool BalancerConfig_default
              = BalanceTeams_fromSorted scenario_pool BalancerConfig_default scenario_pool_sorted"
    by blast+
  from T o have
    "let top1 = scenario_pool_sorted ! 0;
         top2 = scenario_pool_sorted ! 1;
         effectiveRating =
           (\<lambda>x. ComputeEffectiveRating (pi_rating x) kPerfToRating kRDScaleConstant);
         result = BalanceTeams_fromSorted scenario_pool BalancerConfig_default scenario_pool_sorted;
         team0 = set (ta_team0PlayerIds result);
         team1 = set (ta_team1PlayerIds result)
     in pi_playerId top1 \<in> set (map pi_playerId scenario_pool) \<and>
        pi_playerId top2 \<in> set (map pi_playerId scenario_pool) \<and>
        pi_playerId top1 \<noteq> pi_playerId top2 \<and>
        (\<forall>p \<in> set scenario_pool. effectiveRating p \<le> effectiveRating top1) \<and>
        (\<forall>p \<in> set scenario_pool. pi_playerId p \<noteq> pi_playerId top1 \<longrightarrow>
             effectiveRating p \<le> effectiveRating top2) \<and>
        \<not> (pi_playerId top1 \<in> team0 \<and> pi_playerId top2 \<in> team0) \<and>
        \<not> (pi_playerId top1 \<in> team1 \<and> pi_playerId top2 \<in> team1) \<and>
        (ta_team0PlayerIds result \<noteq> [] \<longrightarrow>
           (pi_playerId top1 \<in> team0 \<and> pi_playerId top2 \<in> team1) \<or>
           (pi_playerId top2 \<in> team0 \<and> pi_playerId top1 \<in> team1))"
    by blast
  then have c:
    "(\<forall>p \<in> set scenario_pool.
        ComputeEffectiveRating (pi_rating p) kPerfToRating kRDScaleConstant
          \<le> ComputeEffectiveRating (pi_rating (scenario_pool_sorted ! 0))
              kPerfToRating kRDScaleConstant) \<and>
     (\<forall>p \<in> set scenario_pool. pi_playerId p \<noteq> 1 \<longrightarrow>
        ComputeEffectiveRating (pi_rating p) kPerfToRating kRDScaleConstant
          \<le> ComputeEffectiveRating (pi_rating (scenario_pool_sorted ! 1))
              kPerfToRating kRDScaleConstant) \<and>
     \<not> (1 \<in> set (ta_team0PlayerIds (BalanceTeams scenario_pool BalancerConfig_default)) \<and>
        2 \<in> set (ta_team0PlayerIds (BalanceTeams scenario_pool BalancerConfig_default))) \<and>
     \<not> (1 \<in> set (ta_team1PlayerIds (BalanceTeams scenario_pool BalancerConfig_default)) \<and>
        2 \<in> set (ta_team1PlayerIds (BalanceTeams scenario_pool BalancerConfig_default))) \<and>
     (ta_team0PlayerIds (BalanceTeams scenario_pool BalancerConfig_default) \<noteq> [] \<longrightarrow>
        (1 \<in> set (ta_team0PlayerIds (BalanceTeams scenario_pool BalancerConfig_default)) \<and>
         2 \<in> set (ta_team1PlayerIds (BalanceTeams scenario_pool BalancerConfig_default))) \<or>
        (2 \<in> set (ta_team0PlayerIds (BalanceTeams scenario_pool BalancerConfig_default)) \<and>
         1 \<in> set (ta_team1PlayerIds (BalanceTeams scenario_pool BalancerConfig_default))))"
    unfolding Let_def top f [symmetric] by blast
  have third: "scenario_pool ! 3 \<in> set scenario_pool" "pi_playerId (scenario_pool ! 3) = 3"
    by (simp_all add: scenario_pool_def)
  from c third have m:
    "ComputeEffectiveRating (pi_rating (scenario_pool ! 3)) kPerfToRating kRDScaleConstant
       \<le> ComputeEffectiveRating (pi_rating (scenario_pool_sorted ! 0))
           kPerfToRating kRDScaleConstant"
    "ComputeEffectiveRating (pi_rating (scenario_pool ! 3)) kPerfToRating kRDScaleConstant
       \<le> ComputeEffectiveRating (pi_rating (scenario_pool_sorted ! 1))
           kPerfToRating kRDScaleConstant"
    by auto
  show ?thesis
    using len sep ids scenario_sorted o f top third(2) m c scenario_result_nonempty
    by blast
qed

section \<open>Team balancer: the objective of the returned assignment\<close>

text \<open>
  C8 says that, for a pool of at most eight players and a budget that covers every
  combination, the objective value of the returned assignment is the minimum of \<open>J\<close>, taken
  with the caller's \<open>lambda\<close>, over all partitions that honour the configured constraints.
  The base case of \<open>GenerateCombinations\<close> evaluates a candidate with \<open>config.lambda\<close>, but
  \<open>CreateAssignment\<close> stores the objective evaluated with the \<open>lambda\<close> of a default
  \<open>BalancerConfig\<close> (\<open>kLambda\<close>), and the next candidate is compared with that stored value.
  On \<open>three_player_pool\<close> with \<open>strength_only_config\<close> (\<open>lambda = 0\<close>, no placement
  constraint, budget \<open>10000\<close> for three candidates) the search returns player \<open>3\<close> alone
  against players \<open>1\<close> and \<open>2\<close>: a partition whose \<open>J\<close> with the caller's \<open>lambda\<close> is \<open>75\<close>, with
  a stored objective of at least \<open>75\<close>, although the examined and accepted candidate that puts
  player \<open>2\<close> alone has \<open>J = 0\<close>.
\<close>

theorem BalanceTeams_caller_lambda_failing_input:
  "ta_team0PlayerIds (BalanceTeams three_player_pool strength_only_config) = [3] \<and>
   ta_team1PlayerIds (BalanceTeams three_player_pool strength_only_config) = [1, 2] \<and>
   75 \<le> ta_objectiveValue (BalanceTeams three_player_pool strength_only_config) \<and>
   BalanceTeams_sortedPlayers three_player_pool = three_player_pool \<and>
   fst (EvaluateAssignment three_player_pool [2] [0, 1] (bc_lambda strength_only_config)) = 75 \<and>
   fst (EvaluateAssignment three_player_pool [1] [0, 2] (bc_lambda strength_only_config)) = 0 \<and>
   acceptedCandidate three_player_pool strength_only_config [1] \<and>
   [1] \<in> set (GenerateCombinations_candidates 3 False 1 0 [])"
proof -
  have lam: "bc_lambda strength_only_config = 0"
    by (simp add: strength_only_config_def)
  have ids: "ta_team0PlayerIds (CreateAssignment three_player_pool [2]) = [3]"
    "ta_team1PlayerIds (CreateAssignment three_player_pool [2]) = [1, 2]"
    unfolding CreateAssignment_ids three_player_team1_2 by (simp_all add: three_player_pool_def)
  have obj: "75 \<le> ta_objectiveValue (CreateAssignment three_player_pool [2])"
    unfolding CreateAssignment_objective three_player_team1_2 three_player_objective_2 kLambda_def by simp
  show ?thesis
    unfolding BalanceTeams_three_player_pool lam three_player_objective_2 three_player_objective_1
    using ids obj three_player_sorted three_player_candidates
    by (simp add: accepted_no_separation strength_only_config_def)
qed

section \<open>Team balancer: the search budget\<close>

text \<open>
  C9, as stated: when the cap is reached before the whole space is explored, the result
  reports that the budget was exhausted, distinguishably from a result of a complete search.
  \<open>TeamAssignment\<close> has no field for it, and \<open>combinationsTried\<close> is a local of \<open>BalanceTeams\<close>
  that is only printed. On \<open>two_player_pool\<close> there are two candidates; with a cap of \<open>1\<close> the
  search stops after the first (\<open>combinationsTried = 1\<close>, the cap), with the default cap of
  \<open>10000\<close> it examines both (\<open>combinationsTried = 2\<close>), and the two calls return the same
  \<open>TeamAssignment\<close>, field by field.
\<close>

theorem BalanceTeams_exhaustion_not_reported_counterexample:
  "length (GenerateCombinations_candidates 2 True 1 0 []) = 2 \<and>
   snd (BalanceTeams_search two_player_pool (BalancerConfig_default\<lparr>bc_maxCombinationsToTry := 1\<rparr>)) = 1 \<and>
   snd (BalanceTeams_search two_player_pool BalancerConfig_default) = 2 \<and>
   BalanceTeams two_player_pool (BalancerConfig_default\<lparr>bc_maxCombinationsToTry := 1\<rparr>)
     = BalanceTeams two_player_pool BalancerConfig_default \<and>
   BalanceTeams two_player_pool BalancerConfig_default =
     \<lparr>ta_team0PlayerIds = [1], ta_team1PlayerIds = [2], ta_objectiveValue = 130,
      ta_strengthDifference = 50, ta_uncertaintyDifference = 100,
      ta_team0Strength = 1500, ta_team1Strength = 1450,
      ta_team0Uncertainty = 100, ta_team1Uncertainty = 200,
      ta_pureRatingDifference = 50\<rparr>"
proof -
  have len: "\<not> length two_player_pool < 2" by (simp add: two_player_pool_def)
  show ?thesis
    unfolding BalanceTeams_def two_player_capped two_player_full two_player_candidates
    using len by (simp add: two_player_create_0)
qed

text \<open>
  C9, amended: for a pool of at least two players, \<open>BalanceTeams\<close> returns what the base case
  of the search, run in order on the first \<open>maxCombinationsToTry\<close> candidates of the
  enumeration, leaves in \<open>bestAssignment\<close>, and the number of combinations tried is the number
  of those candidates; the result is the default-constructed assignment or the assignment of
  one of the examined candidates that passes the constraint checks; and when the caller's
  \<open>lambda\<close> is the default \<open>kLambda\<close>, its objective value is at most that of every examined
  candidate that passes the constraint checks. The returned \<open>TeamAssignment\<close> carries no
  indication of whether the cap was reached.
\<close>

theorem BalanceTeams_returns_best_examined:
  assumes "2 \<le> length players"
  shows "let sortedPlayers = BalanceTeams_sortedPlayers players;
             forced = (length players mod 2 \<noteq> 0 \<and> bc_putTopPlayerInSmallerTeam config);
             candidates = GenerateCombinations_candidates (length players)
                            (bc_separateTopPlayers config) (length players div 2)
                            (if forced then 1 else 0) (if forced then [0] else []);
             examined = take (nat (bc_maxCombinationsToTry config)) candidates;
             result = BalanceTeams players config
         in result = fold (GenerateCombinations_baseCase sortedPlayers config) examined
                       TeamAssignment_default \<and>
            snd (BalanceTeams_search players config) = int (length examined) \<and>
            (result = TeamAssignment_default \<or>
             (\<exists>c \<in> set examined. result = CreateAssignment sortedPlayers c \<and>
                                     acceptedCandidate sortedPlayers config c)) \<and>
            (bc_lambda config = kLambda \<longrightarrow>
               (\<forall>c \<in> set examined. acceptedCandidate sortedPlayers config c \<longrightarrow>
                  ta_objectiveValue result
                    \<le> fst (EvaluateAssignment sortedPlayers c (team1IndicesOf sortedPlayers c)
                              (bc_lambda config))))"
proof -
  let ?sp = "BalanceTeams_sortedPlayers players"
  let ?forced = "length players mod 2 \<noteq> 0 \<and> bc_putTopPlayerInSmallerTeam config"
  let ?cs = "GenerateCombinations_candidates (length players) (bc_separateTopPlayers config)
               (length players div 2) (if ?forced then 1 else 0) (if ?forced then [0] else [])"
  let ?ex = "take (nat (bc_maxCombinationsToTry config)) ?cs"
  let ?r = "BalanceTeams players config"
  have res: "?r = fold (GenerateCombinations_baseCase ?sp config) ?ex TeamAssignment_default"
    using BalanceTeams_eq_fold [OF assms, of config] .
  have tried: "snd (BalanceTeams_search players config) = int (length ?ex)"
    unfolding BalanceTeams_search_examined examinedCandidates_def Let_def by simp
  have found: "?r = TeamAssignment_default \<or>
               (\<exists>c \<in> set ?ex. ?r = CreateAssignment ?sp c \<and> acceptedCandidate ?sp config c)"
    unfolding res by (rule fold_baseCase_cases)
  have best: "\<forall>c \<in> set ?ex. acceptedCandidate ?sp config c \<longrightarrow>
                ta_objectiveValue ?r
                  \<le> fst (EvaluateAssignment ?sp c (team1IndicesOf ?sp c) (bc_lambda config))"
    if lam: "bc_lambda config = kLambda"
    unfolding res lam
    using fold_baseCase_minimal [OF lam, of "[]" ?sp TeamAssignment_default ?ex] by simp
  from res tried found best show ?thesis unfolding Let_def by blast
qed


theorem BalanceTeams_returns_best_examined_witness:
  "2 \<le> length two_player_pool \<and>
   bc_lambda (BalancerConfig_default\<lparr>bc_maxCombinationsToTry := 1\<rparr>) = kLambda \<and>
   take (nat (bc_maxCombinationsToTry (BalancerConfig_default\<lparr>bc_maxCombinationsToTry := 1\<rparr>)))
     (GenerateCombinations_candidates 2 True 1 0 []) = [[0]] \<and>
   acceptedCandidate two_player_pool (BalancerConfig_default\<lparr>bc_maxCombinationsToTry := 1\<rparr>) [0] \<and>
   BalanceTeams two_player_pool (BalancerConfig_default\<lparr>bc_maxCombinationsToTry := 1\<rparr>)
     = CreateAssignment two_player_pool [0] \<and>
   snd (BalanceTeams_search two_player_pool (BalancerConfig_default\<lparr>bc_maxCombinationsToTry := 1\<rparr>)) = 1 \<and>
   ta_objectiveValue
       (BalanceTeams two_player_pool (BalancerConfig_default\<lparr>bc_maxCombinationsToTry := 1\<rparr>))
     \<le> fst (EvaluateAssignment two_player_pool [0] [1] kLambda)"
proof -
  let ?cfg = "BalancerConfig_default\<lparr>bc_maxCombinationsToTry := 1\<rparr>"
  have len: "2 \<le> length two_player_pool" by (simp add: two_player_pool_def)
  have lam: "bc_lambda ?cfg = kLambda" by (simp add: BalancerConfig_default_def)
  have ex: "take (nat (bc_maxCombinationsToTry ?cfg)) (GenerateCombinations_candidates 2 True 1 0 [])
              = [[0]]"
    unfolding two_player_candidates by simp
  have acc: "acceptedCandidate two_player_pool ?cfg [0]"
    using two_player_accepted(1) by (simp add: acceptedCandidate_def)
  have cfg: "bc_separateTopPlayers ?cfg = True" "bc_putTopPlayerInSmallerTeam ?cfg = True"
    by (simp_all add: BalancerConfig_default_def)
  have l2: "length two_player_pool = 2" by (simp add: two_player_pool_def)
  have c: "GenerateCombinations_candidates 2 True (2 div 2)
             (if (2::nat) mod 2 \<noteq> 0 \<and> True then 1 else 0)
             (if (2::nat) mod 2 \<noteq> 0 \<and> True then [0] else [])
           = GenerateCombinations_candidates 2 True 1 0 []"
    by simp
  from BalanceTeams_returns_best_examined [OF len, of ?cfg]
  have "\<forall>c \<in> set [[0]]. acceptedCandidate two_player_pool ?cfg c \<longrightarrow>
          ta_objectiveValue (BalanceTeams two_player_pool ?cfg)
            \<le> fst (EvaluateAssignment two_player_pool c (team1IndicesOf two_player_pool c) kLambda)"
    unfolding Let_def two_player_sorted l2 cfg c ex lam by blast
  with acc have "ta_objectiveValue (BalanceTeams two_player_pool ?cfg)
                   \<le> fst (EvaluateAssignment two_player_pool [0] [1] kLambda)"
    by (simp add: two_player_team1_0)
  moreover have "BalanceTeams two_player_pool ?cfg = CreateAssignment two_player_pool [0]"
    unfolding BalanceTeams_def two_player_capped using len by simp
  moreover have "snd (BalanceTeams_search two_player_pool ?cfg) = 1"
    unfolding two_player_capped by simp
  ultimately show ?thesis using len lam ex acc by blast
qed

end
